theory Spec2Isabelle
  imports Complex_Main
begin

section \<open>LiteMCP: the protocol dispatcher of \<open>MCPServer\<close> (packages/litemcp/src/server.ts)\<close>

subsection \<open>JavaScript values\<close>

text \<open>
  The values that reach the dispatcher are what \<open>JSON.parse\<close> returns, plus \<open>undefined\<close>
  for an absent property. Objects keep their properties in insertion order. A number is
  a rational or one of the values that are not finite: \<open>JSON.parse\<close> gives \<open>Infinity\<close>
  for a literal beyond the range of doubles, such as \<open>1e309\<close>. The dispatcher only tests
  numbers for truthiness and prints them. Text is a list of code units below 256.
\<close>

datatype jsnum = Finite rat | PosInfinity | NegInfinity | NaN

datatype jsval =
    JUndefined
  | JNull
  | JBool bool
  | JNum jsnum
  | JStr string
  | JArr "jsval list"
  | JObj "(string \<times> jsval) list"

text \<open>
  A thrown value: an instance of \<open>Error\<close> (also \<open>TypeError\<close>, \<open>SyntaxError\<close>, \<open>ZodError\<close>)
  with its \<open>message\<close>, or any other value.
\<close>

datatype thrown = Error string | NonError jsval

text \<open>
  The parts of the JavaScript runtime and of the zod library that the server calls and that
  are not code of this repository are parameters of the model:
  \<^item> \<open>JSON_parse\<close>: \<open>JSON.parse\<close>; \<open>Inl m\<close> is a \<open>SyntaxError\<close> with message \<open>m\<close>;
  \<^item> \<open>Number_toString\<close>: the text of a number in a template literal;
  \<^item> \<open>TypeError_message\<close>: the message of the \<open>TypeError\<close> raised when property \<open>k\<close>
    is read from \<open>undefined\<close> or \<open>null\<close>;
  \<^item> \<open>ToPrimitive_message\<close>: the message of the \<open>TypeError\<close> raised when an object
    cannot be converted to a string;
  \<^item> \<open>ZodError_message\<close>: the message of the \<open>ZodError\<close> for a value that does not match
    the schema;
  \<^item> \<open>RegExp_other\<close>: \<open>new RegExp(p)\<close> for a pattern outside the fragment that is
    modelled below; \<open>Inl m\<close> is the \<open>SyntaxError\<close> of an invalid pattern, \<open>Inr t\<close> the
    \<open>test\<close> of the expression;
  \<^item> \<open>inherited_truthy\<close>: whether \<open>v[k]\<close> is truthy when \<open>k\<close> is not an own property of
    a parsed object \<open>v\<close>, or \<open>v\<close> is an array or a primitive (prototype members, indices,
    \<open>length\<close>).
\<close>

record runtime =
  JSON_parse :: "string \<Rightarrow> string + jsval"
  Number_toString :: "jsnum \<Rightarrow> string"
  TypeError_message :: "jsval \<Rightarrow> string \<Rightarrow> string"
  ToPrimitive_message :: "jsval \<Rightarrow> string"
  ZodError_message :: "jsval \<Rightarrow> string"
  RegExp_other :: "string \<Rightarrow> string + (string \<Rightarrow> bool)"
  inherited_truthy :: "jsval \<Rightarrow> string \<Rightarrow> bool"

text \<open>Truthiness (\<open>!v\<close>, \<open>v || d\<close>, \<open>if (v)\<close>).\<close>

fun truthy :: "jsval \<Rightarrow> bool" where
  "truthy JUndefined = False"
| "truthy JNull = False"
| "truthy (JBool b) = b"
| "truthy (JNum n) = (n \<noteq> Finite 0 \<and> n \<noteq> NaN)"
| "truthy (JStr s) = (s \<noteq> [])"
| "truthy (JArr xs) = True"
| "truthy (JObj kvs) = True"

definition nullish :: "jsval \<Rightarrow> bool" where
  "nullish v = (v = JUndefined \<or> v = JNull)"

text \<open>
  \<open>v.k\<close> for one of the names the dispatcher reads (\<open>name\<close>, \<open>arguments\<close>, \<open>uri\<close>,
  \<open>level\<close>, \<open>messages\<close>, \<open>jsonrpc\<close>, \<open>id\<close>, \<open>method\<close>, \<open>params\<close>) on a value that is
  not \<open>undefined\<close> or \<open>null\<close>: the own property of an object, \<open>undefined\<close> otherwise
  (none of these names is a member of a built-in prototype of a parsed value).
\<close>

fun property :: "jsval \<Rightarrow> string \<Rightarrow> jsval" where
  "property (JObj kvs) k = (case map_of kvs k of Some v \<Rightarrow> v | None \<Rightarrow> JUndefined)"
| "property v k = JUndefined"

text \<open>\<open>!!(args?.[k])\<close> for any name \<open>k\<close>.\<close>

fun optional_member_truthy :: "runtime \<Rightarrow> jsval \<Rightarrow> string \<Rightarrow> bool" where
  "optional_member_truthy rt JUndefined k = False"
| "optional_member_truthy rt JNull k = False"
| "optional_member_truthy rt (JObj kvs) k =
     (case map_of kvs k of Some v \<Rightarrow> truthy v | None \<Rightarrow> inherited_truthy rt (JObj kvs) k)"
| "optional_member_truthy rt v k = inherited_truthy rt v k"

text \<open>\<open>sep\<close>-separated concatenation (\<open>Array.prototype.join\<close>).\<close>

fun join :: "string \<Rightarrow> string list \<Rightarrow> string" where
  "join sep [] = []"
| "join sep [x] = x"
| "join sep (x # y # ys) = x @ sep @ join sep (y # ys)"

text \<open>The texts of the elements from left to right, or the first error among them.\<close>

fun collect :: "(string + string) list \<Rightarrow> string + string list" where
  "collect [] = Inr []"
| "collect (Inl m # xs) = Inl m"
| "collect (Inr s # xs) = (case collect xs of Inl m \<Rightarrow> Inl m | Inr ss \<Rightarrow> Inr (s # ss))"

text \<open>
  \<open>String(v)\<close>, the conversion of a template literal \<open>`${v}`\<close> and of \<open>RegExp.test\<close>;
  \<open>Inl m\<close> is a \<open>TypeError\<close> with message \<open>m\<close>. A parsed object is converted by the
  \<open>toString\<close> of \<open>Object.prototype\<close> unless it has an own property \<open>toString\<close>, which is
  never callable in a parsed value: then \<open>valueOf\<close> is tried, which gives no primitive,
  and the conversion throws. An array joins the texts of its elements.
\<close>

fun js_String :: "runtime \<Rightarrow> jsval \<Rightarrow> string + string" where
  "js_String rt JUndefined = Inr ''undefined''"
| "js_String rt JNull = Inr ''null''"
| "js_String rt (JBool b) = Inr (if b then ''true'' else ''false'')"
| "js_String rt (JNum n) = Inr (Number_toString rt n)"
| "js_String rt (JStr s) = Inr s"
| "js_String rt (JArr xs) =
     (case collect (map (\<lambda>x. if nullish x then Inr [] else js_String rt x) xs) of
        Inl m \<Rightarrow> Inl m
      | Inr ss \<Rightarrow> Inr (join '','' ss))"
| "js_String rt (JObj kvs) =
     (if map_of kvs ''toString'' \<noteq> None then Inl (ToPrimitive_message rt (JObj kvs))
      else Inr ''[object Object]'')"

text \<open>
  The message of what \<open>throw new Error(`prefix${v}`)\<close> throws: the error with the text,
  or the \<open>TypeError\<close> of the conversion of \<open>v\<close>.
\<close>

definition literal_message :: "runtime \<Rightarrow> string \<Rightarrow> jsval \<Rightarrow> string" where
  "literal_message rt prefix v = (case js_String rt v of Inl m \<Rightarrow> m | Inr s \<Rightarrow> prefix @ s)"

subsection \<open>\<open>Map\<close>: insertion-ordered, one entry for each key\<close>

text \<open>
  \<open>Map.prototype.set\<close> replaces the value of a key that is present, in place, and appends a
  new key at the end; \<open>get\<close> is \<open>map_of\<close>, \<open>values()\<close> is \<open>map snd\<close>, \<open>entries()\<close> the list.
  The keys of the server's maps are strings; \<open>get\<close> with a value that is not a string finds
  nothing.
\<close>

fun Map_set :: "'k \<Rightarrow> 'v \<Rightarrow> ('k \<times> 'v) list \<Rightarrow> ('k \<times> 'v) list" where
  "Map_set k v [] = [(k, v)]"
| "Map_set k v ((k', v') # m) = (if k' = k then (k, v) # m else (k', v') # Map_set k v m)"

fun Map_get :: "(string \<times> 'v) list \<Rightarrow> jsval \<Rightarrow> 'v option" where
  "Map_get m (JStr k) = map_of m k"
| "Map_get m v = None"

definition Map_values :: "('k \<times> 'v) list \<Rightarrow> 'v list" where
  "Map_values m = map snd m"

text \<open>The key that \<open>get\<close> found an entry under.\<close>

fun key_text :: "jsval \<Rightarrow> string" where
  "key_text (JStr k) = k"
| "key_text v = []"

subsection \<open>Descriptors, handlers and the server\<close>

record MCPTool =
  tool_name :: string
  tool_description :: string
  inputSchema :: jsval

record MCPResource =
  uri :: string
  resource_name :: string
  resource_description :: "string option"
  resource_mimeType :: "string option"

record MCPResourceTemplate =
  uriTemplate :: string
  template_name :: string
  template_description :: "string option"
  template_mimeType :: "string option"

record MCPPromptArgument =
  arg_name :: string
  arg_description :: "string option"
  required :: "bool option"

record MCPPrompt =
  prompt_name :: string
  prompt_description :: "string option"
  arguments :: "MCPPromptArgument list option"

text \<open>
  A handler is an async function of one argument, supplied by the application: it resolves
  to a value (\<open>Inr\<close>) or rejects with a thrown value (\<open>Inl\<close>). It is a closure and may
  hold the server: while it is awaited it can call the public methods of the server that
  register and configure. These calls are the second component of what it returns, in
  the order in which it makes them.
\<close>

datatype handler = Handler (run: "jsval \<Rightarrow> (thrown + jsval) \<times> effect list")
  and effect =
    AddTool MCPTool handler
  | AddResource MCPResource handler
  | AddResourceTemplate MCPResourceTemplate handler
  | AddPrompt MCPPrompt handler
  | SetSamplingHandler handler
  | SetLogLevel jsval

record MCPServer =
  tools :: "(string \<times> MCPTool) list"
  toolHandlers :: "(string \<times> handler) list"
  resources :: "(string \<times> MCPResource) list"
  resourceHandlers :: "(string \<times> handler) list"
  resourceTemplates :: "(string \<times> MCPResourceTemplate) list"
  prompts :: "(string \<times> MCPPrompt) list"
  promptHandlers :: "(string \<times> handler) list"
  samplingHandler :: "handler option"
  serverInfo :: jsval
  capabilities :: jsval
  logLevel :: jsval

definition new_MCPServer :: "jsval \<Rightarrow> jsval \<Rightarrow> MCPServer" where
  "new_MCPServer info caps =
     \<lparr>tools = [], toolHandlers = [], resources = [], resourceHandlers = [],
      resourceTemplates = [], prompts = [], promptHandlers = [], samplingHandler = None,
      serverInfo = info, capabilities = caps, logLevel = JStr ''info''\<rparr>"

definition addTool :: "MCPTool \<Rightarrow> handler \<Rightarrow> MCPServer \<Rightarrow> MCPServer" where
  "addTool tool h srv =
     srv\<lparr>tools := Map_set (tool_name tool) tool (tools srv),
         toolHandlers := Map_set (tool_name tool) h (toolHandlers srv)\<rparr>"

definition addResource :: "MCPResource \<Rightarrow> handler \<Rightarrow> MCPServer \<Rightarrow> MCPServer" where
  "addResource resource h srv =
     srv\<lparr>resources := Map_set (uri resource) resource (resources srv),
         resourceHandlers := Map_set (uri resource) h (resourceHandlers srv)\<rparr>"

definition addResourceTemplate :: "MCPResourceTemplate \<Rightarrow> handler \<Rightarrow> MCPServer \<Rightarrow> MCPServer" where
  "addResourceTemplate template h srv =
     srv\<lparr>resourceTemplates := Map_set (uriTemplate template) template (resourceTemplates srv),
         resourceHandlers := Map_set (uriTemplate template) h (resourceHandlers srv)\<rparr>"

definition addPrompt :: "MCPPrompt \<Rightarrow> handler \<Rightarrow> MCPServer \<Rightarrow> MCPServer" where
  "addPrompt prompt h srv =
     srv\<lparr>prompts := Map_set (prompt_name prompt) prompt (prompts srv),
         promptHandlers := Map_set (prompt_name prompt) h (promptHandlers srv)\<rparr>"

definition setSamplingHandler :: "handler \<Rightarrow> MCPServer \<Rightarrow> MCPServer" where
  "setSamplingHandler h srv = srv\<lparr>samplingHandler := Some h\<rparr>"

definition setLogLevel :: "jsval \<Rightarrow> MCPServer \<Rightarrow> MCPServer" where
  "setLogLevel level srv = srv\<lparr>logLevel := level\<rparr>"

text \<open>The calls a handler makes on the server, applied in order.\<close>

fun perform1 :: "effect \<Rightarrow> MCPServer \<Rightarrow> MCPServer" where
  "perform1 (AddTool tool h) srv = addTool tool h srv"
| "perform1 (AddResource resource h) srv = addResource resource h srv"
| "perform1 (AddResourceTemplate template h) srv = addResourceTemplate template h srv"
| "perform1 (AddPrompt prompt h) srv = addPrompt prompt h srv"
| "perform1 (SetSamplingHandler h) srv = setSamplingHandler h srv"
| "perform1 (SetLogLevel level) srv = setLogLevel level srv"

definition perform :: "effect list \<Rightarrow> MCPServer \<Rightarrow> MCPServer" where
  "perform es srv = fold perform1 es srv"

subsection \<open>The URI template matcher\<close>

text \<open>
  \<open>template.replace(/\{[^}]+\}/g, '([^/]+)')\<close>: from left to right, an opening brace
  followed by one or more characters other than a closing brace and then a closing brace
  is replaced by the group; everything else is kept.
\<close>

definition not_close :: "char \<Rightarrow> bool" where
  "not_close c = (c \<noteq> CHR ''}'')"

function placeholder_replace :: "string \<Rightarrow> string" where
  "placeholder_replace [] = []"
| "placeholder_replace (c # cs) =
     (if c = CHR ''{'' \<and> takeWhile not_close cs \<noteq> [] \<and> dropWhile not_close cs \<noteq> []
      then ''([^/]+)'' @ placeholder_replace (tl (dropWhile not_close cs))
      else c # placeholder_replace cs)"
  by pat_completeness auto
termination
proof (relation "measure length")
  show "wf (measure length)" by simp
next
  fix c :: char and cs :: string
  have "length (dropWhile not_close cs) \<le> length cs"
    by (rule length_dropWhile_le)
  then show "(tl (dropWhile not_close cs), c # cs) \<in> measure length" by simp
next
  fix c :: char and cs :: string
  show "(cs, c # cs) \<in> measure length" by simp
qed

text \<open>
  \<open>new RegExp(pattern)\<close> and its \<open>test\<close>. The patterns modelled here are \<open>^\<close>, a
  sequence of items, \<open>$\<close>, where an item is a character that is not a syntax character of
  regular expressions (it matches itself), a dot (any character but a line terminator) or
  the group \<open>([^/]+)\<close> (one or more characters other than a slash). Without flags, \<open>^\<close>
  and \<open>$\<close> are the two ends of the input. Any other pattern is left to the runtime.
\<close>

datatype ritem = RChar char | RAny | RSeg

definition syntax_character :: "char \<Rightarrow> bool" where
  "syntax_character c = (c \<in> set (''^$.*+?()[]{}|'' @ [CHR 0x5C]))"

definition line_terminator :: "char \<Rightarrow> bool" where
  "line_terminator c = (c = CHR 0x0A \<or> c = CHR 0x0D)"

fun parse_items :: "string \<Rightarrow> ritem list option" where
  "parse_items [] = Some []"
| "parse_items (c # cs) =
     (if c = CHR ''.'' then map_option (Cons RAny) (parse_items cs)
      else if \<not> syntax_character c then map_option (Cons (RChar c)) (parse_items cs)
      else if take 7 (c # cs) = ''([^/]+)'' then map_option (Cons RSeg) (parse_items (drop 6 cs))
      else None)"

definition anchored_items :: "string \<Rightarrow> ritem list option" where
  "anchored_items pattern =
     (case pattern of
        [] \<Rightarrow> None
      | c # cs \<Rightarrow>
          if c = CHR ''^'' \<and> cs \<noteq> [] \<and> last cs = CHR ''$'' then parse_items (butlast cs)
          else None)"

fun items_match :: "ritem list \<Rightarrow> string \<Rightarrow> bool" where
  "items_match [] s = (s = [])"
| "items_match (i # r) [] = False"
| "items_match (RChar c # r) (x # xs) = (x = c \<and> items_match r xs)"
| "items_match (RAny # r) (x # xs) = (\<not> line_terminator x \<and> items_match r xs)"
| "items_match (RSeg # r) (x # xs) =
     (x \<noteq> CHR ''/'' \<and> (items_match r xs \<or> items_match (RSeg # r) xs))"

definition new_RegExp :: "runtime \<Rightarrow> string \<Rightarrow> string + (string \<Rightarrow> bool)" where
  "new_RegExp rt pattern =
     (case anchored_items pattern of
        Some items \<Rightarrow> Inr (items_match items)
      | None \<Rightarrow> RegExp_other rt pattern)"

text \<open>
  The expression is built first, which may throw; \<open>test\<close> then converts its argument to a
  string, which may throw too.
\<close>

definition matchesTemplate :: "runtime \<Rightarrow> jsval \<Rightarrow> string \<Rightarrow> thrown + bool" where
  "matchesTemplate rt u template =
     (let regexPattern = placeholder_replace template
      in case new_RegExp rt (''^'' @ regexPattern @ ''$'') of
           Inl m \<Rightarrow> Inl (Error m)
         | Inr test \<Rightarrow>
             (case js_String rt u of
                Inl m \<Rightarrow> Inl (Error m)
              | Inr s \<Rightarrow> Inr (test s)))"

subsection \<open>Requests, results and responses\<close>

text \<open>
  The request after \<open>JsonRpcRequestSchema.parse\<close>; an absent \<open>id\<close> or \<open>params\<close> is
  \<open>JUndefined\<close>.
\<close>

record JsonRpcRequest =
  request_id :: jsval  request_method :: string  params :: jsval

text \<open>
  What a routine returns: a value, or one of the listing objects, which hold the registered
  descriptors as they are.
\<close>

datatype result =
    Value jsval
  | ToolsList "MCPTool list"
  | ResourcesList "MCPResource list"
  | ResourceTemplatesList "MCPResourceTemplate list"
  | PromptsList "MCPPrompt list"

datatype JsonRpcResponse =
    ResultResponse jsval result
  | ErrorResponse jsval int string

record Response =
  status :: nat
  content :: "JsonRpcResponse option"

text \<open>
  The calls of registered handlers that processing a message makes, in order: the key the
  handler was found under, the handler, and the argument it was called with.
\<close>

datatype invocation =
    ToolHandler string handler jsval
  | ResourceHandler string handler jsval
  | PromptHandler string handler jsval
  | SamplingHandler handler jsval

text \<open>
  A routine ends by throwing or returning; it leaves the server in some state and has made
  some calls of handlers.
\<close>

type_synonym outcome = "(thrown + result) \<times> MCPServer \<times> invocation list"

text \<open>
  \<open>await handler(a)\<close>: the handler runs, the calls it makes on the server take effect
  whether it resolves or rejects, and a rejection is thrown on.
\<close>

definition await ::
  "(handler \<Rightarrow> jsval \<Rightarrow> invocation) \<Rightarrow> handler \<Rightarrow> jsval \<Rightarrow> (jsval \<Rightarrow> result) \<Rightarrow> MCPServer \<Rightarrow> outcome"
  where
  "await tag h a wrap srv =
     (case run h a of
        (Inl e, es) \<Rightarrow> (Inl e, perform es srv, [tag h a])
      | (Inr v, es) \<Rightarrow> (Inr (wrap v), perform es srv, [tag h a]))"

definition throw :: "string \<Rightarrow> MCPServer \<Rightarrow> outcome" where
  "throw m srv = (Inl (Error m), srv, [])"

subsection \<open>The envelope: schema and decoding\<close>

definition white_space :: "char \<Rightarrow> bool" where
  "white_space c =
     (c \<in> set [CHR 0x09, CHR 0x0A, CHR 0x0B, CHR 0x0C, CHR 0x0D, CHR 0x20, CHR 0xA0])"

definition trim :: "string \<Rightarrow> string" where
  "trim s = rev (dropWhile white_space (rev (dropWhile white_space s)))"

text \<open>
  \<open>z.union([z.string(), z.number(), z.null()]).optional()\<close>. The number schema of zod 4
  (the version that package.json asks for) accepts finite numbers only.
\<close>

fun id_schema :: "jsval \<Rightarrow> bool" where
  "id_schema JUndefined = True"
| "id_schema (JStr s) = True"
| "id_schema (JNum (Finite r)) = True"
| "id_schema JNull = True"
| "id_schema v = False"

text \<open>
  \<open>JsonRpcRequestSchema.parse\<close>: \<open>None\<close> is the \<open>ZodError\<close>. An object schema accepts
  objects only and drops the keys it does not name.
\<close>

fun JsonRpcRequestSchema_parse :: "jsval \<Rightarrow> JsonRpcRequest option" where
  "JsonRpcRequestSchema_parse (JObj kvs) =
     (if property (JObj kvs) ''jsonrpc'' = JStr ''2.0'' \<and> id_schema (property (JObj kvs) ''id'')
      then (case property (JObj kvs) ''method'' of
              JStr m \<Rightarrow> Some \<lparr>request_id = property (JObj kvs) ''id'', request_method = m,
                              params = property (JObj kvs) ''params''\<rparr>
            | _ \<Rightarrow> None)
      else None)"
| "JsonRpcRequestSchema_parse v = None"

text \<open>The first statements of \<open>handleJsonRpcRequest\<close>, up to the parsed request.\<close>

definition decode :: "runtime \<Rightarrow> string \<Rightarrow> thrown + JsonRpcRequest" where
  "decode rt text =
     (if trim text = [] then Inl (Error ''Empty request body'')
      else case JSON_parse rt text of
             Inl m \<Rightarrow> Inl (Error m)
           | Inr v \<Rightarrow>
               (case JsonRpcRequestSchema_parse v of
                  None \<Rightarrow> Inl (Error (ZodError_message rt v))
                | Some request \<Rightarrow> Inr request))"

subsection \<open>The routines\<close>

definition handleInitialize :: "MCPServer \<Rightarrow> jsval \<Rightarrow> result" where
  "handleInitialize srv ps =
     Value (JObj [(''protocolVersion'', JStr ''2024-11-05''),
                  (''capabilities'', capabilities srv),
                  (''serverInfo'', serverInfo srv)])"

definition handleToolCall :: "runtime \<Rightarrow> MCPServer \<Rightarrow> jsval \<Rightarrow> outcome" where
  "handleToolCall rt srv ps =
     (if nullish ps then throw (TypeError_message rt ps ''name'') srv
      else let name = property ps ''name''; args = property ps ''arguments''
           in case Map_get (toolHandlers srv) name of
                None \<Rightarrow> throw (literal_message rt ''Unknown tool: '' name) srv
              | Some h \<Rightarrow>
                  await (ToolHandler (key_text name)) h (if truthy args then args else JObj [])
                    Value srv)"

definition handleResourcesList :: "MCPServer \<Rightarrow> result" where
  "handleResourcesList srv = ResourcesList (Map_values (resources srv))"

definition handleResourceTemplatesList :: "MCPServer \<Rightarrow> result" where
  "handleResourceTemplatesList srv = ResourceTemplatesList (Map_values (resourceTemplates srv))"

text \<open>
  The loop over \<open>this.resourceHandlers.entries()\<close>: the first entry whose key matches, and
  what \<open>matchesTemplate\<close> throws at an entry before it.
\<close>

fun first_match :: "runtime \<Rightarrow> jsval \<Rightarrow> (string \<times> handler) list \<Rightarrow> thrown + (string \<times> handler) option"
  where
  "first_match rt u [] = Inr None"
| "first_match rt u ((template, templateHandler) # es) =
     (case matchesTemplate rt u template of
        Inl e \<Rightarrow> Inl e
      | Inr True \<Rightarrow> Inr (Some (template, templateHandler))
      | Inr False \<Rightarrow> first_match rt u es)"

text \<open>
  The handler that \<open>handleResourceRead\<close> settles on, with the key it was found under: the
  entry of the handler map under the URI, and without one the result of the loop.
\<close>

definition resolve :: "runtime \<Rightarrow> MCPServer \<Rightarrow> jsval \<Rightarrow> thrown + (string \<times> handler) option" where
  "resolve rt srv u =
     (case Map_get (resourceHandlers srv) u of
        Some h \<Rightarrow> Inr (Some (key_text u, h))
      | None \<Rightarrow> first_match rt u (resourceHandlers srv))"

definition handleResourceRead :: "runtime \<Rightarrow> MCPServer \<Rightarrow> jsval \<Rightarrow> outcome" where
  "handleResourceRead rt srv ps =
     (if nullish ps then throw (TypeError_message rt ps ''uri'') srv
      else let u = property ps ''uri''
           in if \<not> truthy u then throw ''URI is required for resource read'' srv
              else case resolve rt srv u of
                     Inl e \<Rightarrow> (Inl e, srv, [])
                   | Inr None \<Rightarrow> throw (literal_message rt ''Resource not found: '' u) srv
                   | Inr (Some (k, h)) \<Rightarrow>
                       await (ResourceHandler k) h u
                         (\<lambda>c. Value (JObj [(''contents'', JArr [c])])) srv)"

definition handlePromptsList :: "MCPServer \<Rightarrow> result" where
  "handlePromptsList srv = PromptsList (Map_values (prompts srv))"

text \<open>
  The validation loop of \<open>handlePromptGet\<close>: the argument at which it throws, if any.
\<close>

fun missing_argument :: "runtime \<Rightarrow> jsval \<Rightarrow> MCPPromptArgument list \<Rightarrow> MCPPromptArgument option"
  where
  "missing_argument rt args [] = None"
| "missing_argument rt args (arg # rest) =
     (if required arg = Some True \<and> \<not> optional_member_truthy rt args (arg_name arg)
      then Some arg
      else missing_argument rt args rest)"

definition handlePromptGet :: "runtime \<Rightarrow> MCPServer \<Rightarrow> jsval \<Rightarrow> outcome" where
  "handlePromptGet rt srv ps =
     (if nullish ps then throw (TypeError_message rt ps ''name'') srv
      else let name = property ps ''name''; args = property ps ''arguments''
           in case Map_get (prompts srv) name of
                None \<Rightarrow> throw (literal_message rt ''Unknown prompt: '' name) srv
              | Some prompt \<Rightarrow>
                  (case Map_get (promptHandlers srv) name of
                     None \<Rightarrow> throw (literal_message rt ''No handler for prompt: '' name) srv
                   | Some h \<Rightarrow>
                       (case missing_argument rt args
                               (case arguments prompt of None \<Rightarrow> [] | Some as \<Rightarrow> as) of
                          Some arg \<Rightarrow> throw (''Required argument missing: '' @ arg_name arg) srv
                        | None \<Rightarrow>
                            await (PromptHandler (key_text name)) h
                              (if truthy args then args else JObj []) Value srv)))"

fun is_empty_array :: "jsval \<Rightarrow> bool" where
  "is_empty_array (JArr xs) = (xs = [])"
| "is_empty_array v = False"

fun isArray :: "jsval \<Rightarrow> bool" where
  "isArray (JArr xs) = True"
| "isArray v = False"

definition handleSampling :: "runtime \<Rightarrow> MCPServer \<Rightarrow> jsval \<Rightarrow> outcome" where
  "handleSampling rt srv ps =
     (case samplingHandler srv of
        None \<Rightarrow> throw ''Sampling handler not configured'' srv
      | Some h \<Rightarrow>
          if nullish ps then throw (TypeError_message rt ps ''messages'') srv
          else let messages = property ps ''messages''
               in if \<not> truthy messages \<or> \<not> isArray messages \<or> is_empty_array messages
                  then throw ''Messages array is required and cannot be empty'' srv
                  else await SamplingHandler h ps Value srv)"

definition handleSetLogLevel :: "runtime \<Rightarrow> MCPServer \<Rightarrow> jsval \<Rightarrow> outcome" where
  "handleSetLogLevel rt srv ps =
     (if nullish ps then throw (TypeError_message rt ps ''level'') srv
      else let level = property ps ''level''
           in if \<not> truthy level then throw ''Log level is required'' srv
              else (Inr (Value (JObj [])), setLogLevel level srv, []))"

subsection \<open>The dispatcher\<close>

definition processJsonRpcMethod :: "runtime \<Rightarrow> MCPServer \<Rightarrow> JsonRpcRequest \<Rightarrow> outcome" where
  "processJsonRpcMethod rt srv request =
     (if request_method request = ''initialize'' then
        (Inr (handleInitialize srv (params request)), srv, [])
      else if request_method request = ''notifications/initialized'' then
        (Inr (Value JNull), srv, [])
      else if request_method request = ''tools/list'' then
        (Inr (ToolsList (Map_values (tools srv))), srv, [])
      else if request_method request = ''tools/call'' then
        handleToolCall rt srv (params request)
      else if request_method request = ''resources/list'' then
        (Inr (handleResourcesList srv), srv, [])
      else if request_method request = ''resources/templates/list'' then
        (Inr (handleResourceTemplatesList srv), srv, [])
      else if request_method request = ''resources/read'' then
        handleResourceRead rt srv (params request)
      else if request_method request = ''prompts/list'' then
        (Inr (handlePromptsList srv), srv, [])
      else if request_method request = ''prompts/get'' then
        handlePromptGet rt srv (params request)
      else if request_method request = ''sampling/createMessage'' then
        handleSampling rt srv (params request)
      else if request_method request = ''logging/setLevel'' then
        handleSetLogLevel rt srv (params request)
      else throw (''Unknown method: '' @ request_method request) srv)"

definition createErrorResponse :: "thrown \<Rightarrow> jsval \<Rightarrow> Response" where
  "createErrorResponse error i =
     \<lparr>status = 500,
      content = Some (ErrorResponse i (- 32603)
                        (case error of Error m \<Rightarrow> m | NonError v \<Rightarrow> ''Internal error''))\<rparr>"

text \<open>\<open>jsonRpcRequest.id ?? null\<close>\<close>

definition id_or_null :: "jsval \<Rightarrow> jsval" where
  "id_or_null i = (if nullish i then JNull else i)"

text \<open>The rest of the \<open>try\<close> block of \<open>handleJsonRpcRequest\<close>, from the parsed request on.\<close>

definition respond :: "runtime \<Rightarrow> MCPServer \<Rightarrow> JsonRpcRequest \<Rightarrow> Response \<times> MCPServer \<times> invocation list"
  where
  "respond rt srv jsonRpcRequest =
     (case processJsonRpcMethod rt srv jsonRpcRequest of
        (Inl e, srv', calls) \<Rightarrow> (createErrorResponse e JNull, srv', calls)
      | (Inr r, srv', calls) \<Rightarrow>
          if r = Value JNull then (\<lparr>status = 204, content = None\<rparr>, srv', calls)
          else (\<lparr>status = 200,
                 content = Some (ResultResponse (id_or_null (request_id jsonRpcRequest)) r)\<rparr>,
                srv', calls))"

definition handleJsonRpcRequest :: "runtime \<Rightarrow> MCPServer \<Rightarrow> string \<Rightarrow> Response \<times> MCPServer \<times> invocation list"
  where
  "handleJsonRpcRequest rt srv text =
     (case decode rt text of
        Inl e \<Rightarrow> (createErrorResponse e JNull, srv, [])
      | Inr jsonRpcRequest \<Rightarrow> respond rt srv jsonRpcRequest)"

subsection \<open>The properties to be checked\<close>

text \<open>
  A \<open>Map\<close> holds each key once; a registry holds each descriptor under its own key. Both
  hold of a new server and are kept by every registration.
\<close>

definition keyed :: "('v \<Rightarrow> string) \<Rightarrow> (string \<times> 'v) list \<Rightarrow> bool" where
  "keyed f m = (distinct (map fst m) \<and> list_all (\<lambda>e. f (snd e) = fst e) m)"

definition server_inv :: "MCPServer \<Rightarrow> bool" where
  "server_inv srv =
     (keyed tool_name (tools srv) \<and> distinct (map fst (toolHandlers srv)) \<and>
      keyed uri (resources srv) \<and> distinct (map fst (resourceHandlers srv)) \<and>
      keyed uriTemplate (resourceTemplates srv) \<and>
      keyed prompt_name (prompts srv) \<and> distinct (map fst (promptHandlers srv)))"

text \<open>The entries of a map under one key.\<close>

definition entries_for :: "'k \<Rightarrow> ('k \<times> 'v) list \<Rightarrow> 'v list" where
  "entries_for k m = map snd (filter (\<lambda>e. fst e = k) m)"

text \<open>
  The required shape of an envelope in the words of the specification: the version tag is
  the literal, the identifier is a string, a number, null or absent, the method name is
  a non-empty string, params is anything.
\<close>

fun stated_identifier_shape :: "jsval option \<Rightarrow> bool" where
  "stated_identifier_shape None = True"
| "stated_identifier_shape (Some JUndefined) = True"
| "stated_identifier_shape (Some JNull) = True"
| "stated_identifier_shape (Some (JStr s)) = True"
| "stated_identifier_shape (Some (JNum n)) = True"
| "stated_identifier_shape (Some v) = False"

fun stated_envelope_shape :: "jsval \<Rightarrow> bool" where
  "stated_envelope_shape (JObj kvs) =
     (map_of kvs ''jsonrpc'' = Some (JStr ''2.0'') \<and> stated_identifier_shape (map_of kvs ''id'') \<and>
      (case map_of kvs ''method'' of Some (JStr m) \<Rightarrow> m \<noteq> [] | _ \<Rightarrow> False))"
| "stated_envelope_shape v = False"

text \<open>
  The same with a number that is finite as the identifier and any string as the method
  name.
\<close>

fun identifier_shape :: "jsval option \<Rightarrow> bool" where
  "identifier_shape None = True"
| "identifier_shape (Some JUndefined) = True"
| "identifier_shape (Some JNull) = True"
| "identifier_shape (Some (JStr s)) = True"
| "identifier_shape (Some (JNum (Finite r))) = True"
| "identifier_shape (Some v) = False"

fun envelope_shape :: "jsval \<Rightarrow> bool" where
  "envelope_shape (JObj kvs) =
     (map_of kvs ''jsonrpc'' = Some (JStr ''2.0'') \<and> identifier_shape (map_of kvs ''id'') \<and>
      (case map_of kvs ''method'' of Some (JStr m) \<Rightarrow> True | _ \<Rightarrow> False))"
| "envelope_shape v = False"

text \<open>The error response of the one code for a thrown value.\<close>

definition error_envelope :: "thrown \<Rightarrow> Response" where
  "error_envelope e =
     \<lparr>status = 500,
      content = Some (ErrorResponse JNull (- 32603)
                        (case e of Error m \<Rightarrow> m | NonError v \<Rightarrow> ''Internal error''))\<rparr>"

definition method_table :: "string list" where
  "method_table =
     [''initialize'', ''notifications/initialized'', ''tools/list'', ''tools/call'',
      ''resources/list'', ''resources/templates/list'', ''resources/read'', ''prompts/list'',
      ''prompts/get'', ''sampling/createMessage'', ''logging/setLevel'']"

text \<open>
  What a call of a handler came to: the calls the handler made on the server, and what it
  resolved to or rejected with.
\<close>

fun effects_of :: "invocation \<Rightarrow> effect list" where
  "effects_of (ToolHandler k h a) = snd (run h a)"
| "effects_of (ResourceHandler k h a) = snd (run h a)"
| "effects_of (PromptHandler k h a) = snd (run h a)"
| "effects_of (SamplingHandler h a) = snd (run h a)"

fun settled :: "invocation \<Rightarrow> thrown + jsval" where
  "settled (ToolHandler k h a) = fst (run h a)"
| "settled (ResourceHandler k h a) = fst (run h a)"
| "settled (PromptHandler k h a) = fst (run h a)"
| "settled (SamplingHandler h a) = fst (run h a)"

subsection \<open>Concrete inputs\<close>

text \<open>
  A runtime for the examples: it parses the request texts used below as \<open>JSON.parse\<close>
  does and rejects every other text, prints the numbers 0 and 1 and those that are not
  finite, words its \<open>TypeError\<close> as V8 does, knows no pattern outside the modelled fragment
  and no inherited member.
\<close>

definition text_empty_method :: string where
  \<open>text_empty_method = ''{"jsonrpc":"2.0","method":""}''\<close>

definition text_tools_list :: string where
  \<open>text_tools_list = ''{"jsonrpc":"2.0","id":1,"method":"tools/list"}''\<close>

definition text_unknown_tool :: string where
  \<open>text_unknown_tool = ''{"jsonrpc":"2.0","id":1,"method":"tools/call","params":{"name":"nope"}}''\<close>

definition text_set_level :: string where
  \<open>text_set_level = ''{"jsonrpc":"2.0","id":1,"method":"logging/setLevel","params":{"level":"debug"}}''\<close>

definition text_unknown_method :: string where
  \<open>text_unknown_method = ''{"jsonrpc":"2.0","id":1,"method":"unknown/method"}''\<close>

definition text_read_no_uri :: string where
  \<open>text_read_no_uri = ''{"jsonrpc":"2.0","id":1,"method":"resources/read","params":{}}''\<close>

definition text_sampling :: string where
  \<open>text_sampling = ''{"jsonrpc":"2.0","id":1,"method":"sampling/createMessage"}''\<close>

definition text_get_prompt :: string where
  \<open>text_get_prompt = ''{"jsonrpc":"2.0","id":1,"method":"prompts/get","params":{"name":"code-review","arguments":{"language":"ts"}}}''\<close>

definition text_call_echo :: string where
  \<open>text_call_echo = ''{"jsonrpc":"2.0","id":1,"method":"tools/call","params":{"name":"echo","arguments":{"message":"hi"}}}''\<close>

definition text_wrong_version :: string where
  \<open>text_wrong_version = ''{"jsonrpc":"1.0","id":1,"method":"tools/list"}''\<close>

definition text_overflow_id :: string where
  \<open>text_overflow_id = ''{"jsonrpc":"2.0","id":1e309,"method":"tools/list"}''\<close>

definition text_object_name :: string where
  \<open>text_object_name = ''{"jsonrpc":"2.0","id":1,"method":"tools/call","params":{"name":{"toString":1}}}''\<close>

definition example_texts :: "(string \<times> jsval) list" where
  "example_texts =
     [(text_empty_method, JObj [(''jsonrpc'', JStr ''2.0''), (''method'', JStr [])]),
      (text_tools_list,
       JObj [(''jsonrpc'', JStr ''2.0''), (''id'', JNum (Finite 1)),
             (''method'', JStr ''tools/list'')]),
      (text_unknown_tool,
       JObj [(''jsonrpc'', JStr ''2.0''), (''id'', JNum (Finite 1)),
             (''method'', JStr ''tools/call''),
             (''params'', JObj [(''name'', JStr ''nope'')])]),
      (text_set_level,
       JObj [(''jsonrpc'', JStr ''2.0''), (''id'', JNum (Finite 1)),
             (''method'', JStr ''logging/setLevel''),
             (''params'', JObj [(''level'', JStr ''debug'')])]),
      (text_unknown_method,
       JObj [(''jsonrpc'', JStr ''2.0''), (''id'', JNum (Finite 1)),
             (''method'', JStr ''unknown/method'')]),
      (text_read_no_uri,
       JObj [(''jsonrpc'', JStr ''2.0''), (''id'', JNum (Finite 1)),
             (''method'', JStr ''resources/read''),
             (''params'', JObj [])]),
      (text_sampling,
       JObj [(''jsonrpc'', JStr ''2.0''), (''id'', JNum (Finite 1)),
             (''method'', JStr ''sampling/createMessage'')]),
      (text_get_prompt,
       JObj [(''jsonrpc'', JStr ''2.0''), (''id'', JNum (Finite 1)),
             (''method'', JStr ''prompts/get''),
             (''params'', JObj [(''name'', JStr ''code-review''),
                                (''arguments'', JObj [(''language'', JStr ''ts'')])])]),
      (text_call_echo,
       JObj [(''jsonrpc'', JStr ''2.0''), (''id'', JNum (Finite 1)),
             (''method'', JStr ''tools/call''),
             (''params'', JObj [(''name'', JStr ''echo''),
                                (''arguments'', JObj [(''message'', JStr ''hi'')])])]),
      (text_wrong_version,
       JObj [(''jsonrpc'', JStr ''1.0''), (''id'', JNum (Finite 1)),
             (''method'', JStr ''tools/list'')]),
      (text_overflow_id,
       JObj [(''jsonrpc'', JStr ''2.0''), (''id'', JNum PosInfinity),
             (''method'', JStr ''tools/list'')]),
      (text_object_name,
       JObj [(''jsonrpc'', JStr ''2.0''), (''id'', JNum (Finite 1)),
             (''method'', JStr ''tools/call''),
             (''params'', JObj [(''name'', JObj [(''toString'', JNum (Finite 1))])])])]"

definition example_runtime :: runtime where
  "example_runtime =
     \<lparr>JSON_parse = (\<lambda>s. case map_of example_texts s of
                             Some v \<Rightarrow> Inr v
                           | None \<Rightarrow> Inl ''Unexpected token''),
      Number_toString = (\<lambda>n. case n of
                               Finite r \<Rightarrow> if r = 0 then ''0'' else ''1''
                             | PosInfinity \<Rightarrow> ''Infinity''
                             | NegInfinity \<Rightarrow> ''-Infinity''
                             | NaN \<Rightarrow> ''NaN''),
      TypeError_message = (\<lambda>v k.
        ''Cannot read properties of '' @ (if v = JNull then ''null'' else ''undefined'') @
        '' (reading '' @ [CHR 0x27] @ k @ [CHR 0x27] @ '')''),
      ToPrimitive_message = (\<lambda>v. ''Cannot convert object to primitive value''),
      ZodError_message = (\<lambda>v. ''Invalid input''),
      RegExp_other = (\<lambda>p. Inl (''Invalid regular expression: '' @ p)),
      inherited_truthy = (\<lambda>v k. False)\<rparr>"

definition example_info :: jsval where
  "example_info = JObj [(''name'', JStr ''test-server''), (''version'', JStr ''1.0.0'')]"

definition example_server :: MCPServer where
  "example_server = new_MCPServer example_info (JObj [(''tools'', JObj [])])"

text \<open>Handlers that leave the server alone.\<close>

definition text_content :: handler where
  "text_content = Handler (\<lambda>u. (Inr (JObj [(''uri'', u), (''text'', JStr ''content'')]), []))"

definition other_content :: handler where
  "other_content = Handler (\<lambda>u. (Inr (JObj [(''uri'', u), (''text'', JStr ''other'')]), []))"

definition failing_handler :: handler where
  "failing_handler = Handler (\<lambda>a. (Inl (Error ''boom''), []))"

definition throwing_handler :: handler where
  "throwing_handler = Handler (\<lambda>a. (Inl (NonError (JStr ''boom'')), []))"

definition echo_tool :: "string \<Rightarrow> MCPTool" where
  "echo_tool d =
     \<lparr>tool_name = ''echo'', tool_description = d, inputSchema = JObj [(''type'', JStr ''object'')]\<rparr>"

text \<open>A handler that registers another tool on the server it belongs to.\<close>

definition added_tool :: MCPTool where
  "added_tool =
     \<lparr>tool_name = ''added'', tool_description = ''Added by a handler'',
      inputSchema = JObj [(''type'', JStr ''object'')]\<rparr>"

definition registering_handler :: handler where
  "registering_handler =
     Handler (\<lambda>a. (Inr (JStr ''registered''), [AddTool added_tool text_content]))"

definition config_resource :: "string \<Rightarrow> MCPResource" where
  "config_resource n =
     \<lparr>uri = ''file:///config.json'', resource_name = n, resource_description = None,
      resource_mimeType = Some ''application/json''\<rparr>"

definition log_template :: "string \<Rightarrow> MCPResourceTemplate" where
  "log_template n =
     \<lparr>uriTemplate = ''logs://{date}/{level}'', template_name = n, template_description = None,
      template_mimeType = Some ''text/plain''\<rparr>"

definition log_file_resource :: MCPResource where
  "log_file_resource =
     \<lparr>uri = ''logs://2024-01-15/error.log'', resource_name = ''Error log'',
      resource_description = None, resource_mimeType = Some ''text/plain''\<rparr>"

definition review_prompt :: "string \<Rightarrow> MCPPrompt" where
  "review_prompt d =
     \<lparr>prompt_name = ''code-review'', prompt_description = Some d,
      arguments = Some [\<lparr>arg_name = ''language'', arg_description = None, required = Some True\<rparr>,
                        \<lparr>arg_name = ''code'', arg_description = None, required = Some True\<rparr>]\<rparr>"

definition list_request :: "string \<Rightarrow> JsonRpcRequest" where
  "list_request m = \<lparr>request_id = JNum (Finite 1), request_method = m, params = JUndefined\<rparr>"

text \<open>The required arguments of a prompt that are not present in the arguments given.\<close>

definition missing_required :: "runtime \<Rightarrow> jsval \<Rightarrow> MCPPromptArgument list \<Rightarrow> MCPPromptArgument list"
  where
  "missing_required rt args as =
     filter (\<lambda>a. required a = Some True \<and> \<not> optional_member_truthy rt args (arg_name a)) as"

definition prompt_request :: JsonRpcRequest where
  "prompt_request =
     \<lparr>request_id = JNum (Finite 1), request_method = ''prompts/get'',
      params = JObj [(''name'', JStr ''code-review''),
                     (''arguments'', JObj [(''language'', JStr ''ts'')])]\<rparr>"

definition sampling_server :: MCPServer where
  "sampling_server = setSamplingHandler text_content example_server"

definition sampling_params :: jsval where
  "sampling_params =
     JObj [(''messages'',
            JArr [JObj [(''role'', JStr ''user''),
                        (''content'', JObj [(''type'', JStr ''text''), (''text'', JStr ''hi'')])]])]"

definition read_request :: "string \<Rightarrow> jsval" where
  "read_request u = JObj [(''uri'', JStr u)]"

text \<open>
  What \<open>handleResourceRead\<close> returns when it calls handler \<open>h\<close> found under key \<open>k\<close>.
\<close>

definition served_by :: "string \<Rightarrow> handler \<Rightarrow> jsval \<Rightarrow> MCPServer \<Rightarrow> outcome" where
  "served_by k h u srv =
     (map_sum id (\<lambda>c. Value (JObj [(''contents'', JArr [c])])) (fst (run h u)),
      perform (snd (run h u)) srv, [ResourceHandler k h u])"

text \<open>
  The result of the test of a candidate against a template whose pattern is in the
  modelled fragment.
\<close>

definition fragment_test :: "string \<Rightarrow> string \<Rightarrow> bool option" where
  "fragment_test t s =
     map_option (\<lambda>items. items_match items s)
       (anchored_items (''^'' @ placeholder_replace t @ ''$''))"

definition notes_resource :: MCPResource where
  "notes_resource =
     \<lparr>uri = ''file:///a.txt'', resource_name = ''Notes'', resource_description = None,
      resource_mimeType = Some ''text/plain''\<rparr>"

definition file_template :: MCPResourceTemplate where
  "file_template =
     \<lparr>uriTemplate = ''file:///{name}'', template_name = ''Files'', template_description = None,
      template_mimeType = None\<rparr>"

definition same_key_template :: MCPResourceTemplate where
  "same_key_template =
     \<lparr>uriTemplate = ''file:///a.txt'', template_name = ''Same key'', template_description = None,
      template_mimeType = None\<rparr>"

section \<open>Registries\<close>

lemma Map_set_keys:
  "map fst (Map_set k v m) = (if k \<in> set (map fst m) then map fst m else map fst m @ [k])"
  by (induction m) (force split: if_splits)+

lemma distinct_Map_set: "distinct (map fst m) \<Longrightarrow> distinct (map fst (Map_set k v m))"
  by (simp add: Map_set_keys)

lemma map_of_Map_set: "map_of (Map_set k v m) = (map_of m)(k \<mapsto> v)"
  by (induction m) (auto simp: fun_eq_iff)

lemma Map_get_Map_set: "Map_get (Map_set k v m) (JStr k) = Some v"
  by (simp add: map_of_Map_set)

lemma entries_for_absent: "k \<notin> set (map fst m) \<Longrightarrow> entries_for k m = []"
  by (induction m) (auto simp: entries_for_def)

lemma entries_for_Map_set:
  "distinct (map fst m) \<Longrightarrow> entries_for k (Map_set k v m) = [v]"
proof (induction m)
  case Nil
  then show ?case by (simp add: entries_for_def)
next
  case (Cons e m)
  obtain k' v' where e: "e = (k', v')" by (cases e)
  show ?case
  proof (cases "k' = k")
    case True
    with Cons.prems e have "k \<notin> set (map fst m)" by auto
    then have "entries_for k m = []" by (rule entries_for_absent)
    with True e show ?thesis by (simp add: entries_for_def)
  next
    case False
    with Cons e show ?thesis by (simp add: entries_for_def)
  qed
qed

lemma list_all_Map_set:
  "list_all P m \<Longrightarrow> P (k, v) \<Longrightarrow> list_all P (Map_set k v m)"
  by (induction m) auto

lemma keyed_Map_set: "keyed f m \<Longrightarrow> f v = k \<Longrightarrow> keyed f (Map_set k v m)"
  by (simp add: keyed_def distinct_Map_set list_all_Map_set)

lemma keyed_filter:
  "keyed f m \<Longrightarrow> filter (\<lambda>d. f d = k) (Map_values m) = entries_for k m"
  unfolding keyed_def Map_values_def entries_for_def
  by (induction m) auto

lemma server_inv_new: "server_inv (new_MCPServer info caps)"
  by (simp add: server_inv_def new_MCPServer_def keyed_def)

lemma server_inv_addTool: "server_inv srv \<Longrightarrow> server_inv (addTool t h srv)"
  by (simp add: server_inv_def addTool_def keyed_Map_set distinct_Map_set)

lemma server_inv_addResource: "server_inv srv \<Longrightarrow> server_inv (addResource r h srv)"
  by (simp add: server_inv_def addResource_def keyed_Map_set distinct_Map_set)

lemma server_inv_addResourceTemplate:
  "server_inv srv \<Longrightarrow> server_inv (addResourceTemplate t h srv)"
  by (simp add: server_inv_def addResourceTemplate_def keyed_Map_set distinct_Map_set)

lemma server_inv_addPrompt: "server_inv srv \<Longrightarrow> server_inv (addPrompt p h srv)"
  by (simp add: server_inv_def addPrompt_def keyed_Map_set distinct_Map_set)

lemma tools_twice:
  assumes "server_inv srv" "tool_name t1 = k" "tool_name t2 = k"
  shows "filter (\<lambda>d. tool_name d = k) (Map_values (tools (addTool t2 h2 (addTool t1 h1 srv)))) = [t2]"
    and "entries_for k (toolHandlers (addTool t2 h2 (addTool t1 h1 srv))) = [h2]"
    and "Map_get (toolHandlers (addTool t2 h2 (addTool t1 h1 srv))) (JStr k) = Some h2"
proof -
  let ?s = "addTool t2 h2 (addTool t1 h1 srv)"
  have inv1: "server_inv (addTool t1 h1 srv)" using assms(1) by (rule server_inv_addTool)
  then have inv: "server_inv ?s" by (rule server_inv_addTool)
  have "keyed tool_name (tools ?s)" using inv by (simp add: server_inv_def)
  then have "filter (\<lambda>d. tool_name d = k) (Map_values (tools ?s)) = entries_for k (tools ?s)"
    by (rule keyed_filter)
  also have "\<dots> = [t2]"
    using inv1 assms by (simp add: addTool_def entries_for_Map_set server_inv_def keyed_def)
  finally show "filter (\<lambda>d. tool_name d = k) (Map_values (tools ?s)) = [t2]" .
  show "entries_for k (toolHandlers ?s) = [h2]"
    using inv1 assms by (simp add: addTool_def entries_for_Map_set server_inv_def)
  show "Map_get (toolHandlers ?s) (JStr k) = Some h2"
    using assms by (simp add: addTool_def map_of_Map_set)
qed


lemma resources_twice:
  assumes "server_inv srv" "uri r1 = k" "uri r2 = k"
  shows "filter (\<lambda>d. uri d = k) (Map_values (resources (addResource r2 h2 (addResource r1 h1 srv)))) = [r2]"
    and "entries_for k (resourceHandlers (addResource r2 h2 (addResource r1 h1 srv))) = [h2]"
    and "Map_get (resourceHandlers (addResource r2 h2 (addResource r1 h1 srv))) (JStr k) = Some h2"
proof -
  let ?s = "addResource r2 h2 (addResource r1 h1 srv)"
  have inv1: "server_inv (addResource r1 h1 srv)" using assms(1) by (rule server_inv_addResource)
  then have inv: "server_inv ?s" by (rule server_inv_addResource)
  have "keyed uri (resources ?s)" using inv by (simp add: server_inv_def)
  then have "filter (\<lambda>d. uri d = k) (Map_values (resources ?s)) = entries_for k (resources ?s)"
    by (rule keyed_filter)
  also have "\<dots> = [r2]"
    using inv1 assms by (simp add: addResource_def entries_for_Map_set server_inv_def keyed_def)
  finally show "filter (\<lambda>d. uri d = k) (Map_values (resources ?s)) = [r2]" .
  show "entries_for k (resourceHandlers ?s) = [h2]"
    using inv1 assms by (simp add: addResource_def entries_for_Map_set server_inv_def)
  show "Map_get (resourceHandlers ?s) (JStr k) = Some h2"
    using assms by (simp add: addResource_def map_of_Map_set)
qed

lemma templates_twice:
  assumes "server_inv srv" "uriTemplate t1 = k" "uriTemplate t2 = k"
  shows "filter (\<lambda>d. uriTemplate d = k)
           (Map_values (resourceTemplates (addResourceTemplate t2 h2 (addResourceTemplate t1 h1 srv)))) = [t2]"
    and "entries_for k (resourceHandlers (addResourceTemplate t2 h2 (addResourceTemplate t1 h1 srv))) = [h2]"
    and "Map_get (resourceHandlers (addResourceTemplate t2 h2 (addResourceTemplate t1 h1 srv))) (JStr k) = Some h2"
proof -
  let ?s = "addResourceTemplate t2 h2 (addResourceTemplate t1 h1 srv)"
  have inv1: "server_inv (addResourceTemplate t1 h1 srv)"
    using assms(1) by (rule server_inv_addResourceTemplate)
  then have inv: "server_inv ?s" by (rule server_inv_addResourceTemplate)
  have "keyed uriTemplate (resourceTemplates ?s)" using inv by (simp add: server_inv_def)
  then have "filter (\<lambda>d. uriTemplate d = k) (Map_values (resourceTemplates ?s))
             = entries_for k (resourceTemplates ?s)"
    by (rule keyed_filter)
  also have "\<dots> = [t2]"
    using inv1 assms
    by (simp add: addResourceTemplate_def entries_for_Map_set server_inv_def keyed_def)
  finally show "filter (\<lambda>d. uriTemplate d = k) (Map_values (resourceTemplates ?s)) = [t2]" .
  show "entries_for k (resourceHandlers ?s) = [h2]"
    using inv1 assms by (simp add: addResourceTemplate_def entries_for_Map_set server_inv_def)
  show "Map_get (resourceHandlers ?s) (JStr k) = Some h2"
    using assms by (simp add: addResourceTemplate_def map_of_Map_set)
qed

lemma prompts_twice:
  assumes "server_inv srv" "prompt_name p1 = k" "prompt_name p2 = k"
  shows "filter (\<lambda>d. prompt_name d = k) (Map_values (prompts (addPrompt p2 h2 (addPrompt p1 h1 srv)))) = [p2]"
    and "entries_for k (promptHandlers (addPrompt p2 h2 (addPrompt p1 h1 srv))) = [h2]"
    and "Map_get (promptHandlers (addPrompt p2 h2 (addPrompt p1 h1 srv))) (JStr k) = Some h2"
proof -
  let ?s = "addPrompt p2 h2 (addPrompt p1 h1 srv)"
  have inv1: "server_inv (addPrompt p1 h1 srv)" using assms(1) by (rule server_inv_addPrompt)
  then have inv: "server_inv ?s" by (rule server_inv_addPrompt)
  have "keyed prompt_name (prompts ?s)" using inv by (simp add: server_inv_def)
  then have "filter (\<lambda>d. prompt_name d = k) (Map_values (prompts ?s)) = entries_for k (prompts ?s)"
    by (rule keyed_filter)
  also have "\<dots> = [p2]"
    using inv1 assms by (simp add: addPrompt_def entries_for_Map_set server_inv_def keyed_def)
  finally show "filter (\<lambda>d. prompt_name d = k) (Map_values (prompts ?s)) = [p2]" .
  show "entries_for k (promptHandlers ?s) = [h2]"
    using inv1 assms by (simp add: addPrompt_def entries_for_Map_set server_inv_def)
  show "Map_get (promptHandlers ?s) (JStr k) = Some h2"
    using assms by (simp add: addPrompt_def map_of_Map_set)
qed

lemma list_methods:
  "fst (processJsonRpcMethod rt srv (rq\<lparr>request_method := ''tools/list''\<rparr>)) = Inr (ToolsList (Map_values (tools srv)))"
  "fst (processJsonRpcMethod rt srv (rq\<lparr>request_method := ''resources/list''\<rparr>)) = Inr (ResourcesList (Map_values (resources srv)))"
  "fst (processJsonRpcMethod rt srv (rq\<lparr>request_method := ''resources/templates/list''\<rparr>))
     = Inr (ResourceTemplatesList (Map_values (resourceTemplates srv)))"
  "fst (processJsonRpcMethod rt srv (rq\<lparr>request_method := ''prompts/list''\<rparr>)) = Inr (PromptsList (Map_values (prompts srv)))"
  by (simp_all add: processJsonRpcMethod_def handleResourcesList_def
      handleResourceTemplatesList_def handlePromptsList_def)

lemma resolve_exact:
  "Map_get (resourceHandlers srv) (JStr k) = Some h \<Longrightarrow> resolve rt srv (JStr k) = Inr (Some (k, h))"
  by (simp add: resolve_def)

text \<open>
  C5. In each of the four registries, registering two entries under the same key leaves
  exactly one entry for that key: the listing method returns one descriptor with that key,
  the second one, and the handler map holds one handler for the key, the second one, which
  is what a lookup finds.
\<close>

theorem registering_twice_last_write_wins:
  assumes "server_inv srv"
  shows "(tool_name t1 = tool_name t2 \<longrightarrow>
            (let s = addTool t2 h2 (addTool t1 h1 srv) in
               (\<exists>ds. fst (processJsonRpcMethod rt s (rq\<lparr>request_method := ''tools/list''\<rparr>)) = Inr (ToolsList ds) \<and>
                     filter (\<lambda>d. tool_name d = tool_name t2) ds = [t2]) \<and>
               entries_for (tool_name t2) (toolHandlers s) = [h2] \<and>
               Map_get (toolHandlers s) (JStr (tool_name t2)) = Some h2)) \<and>
         (uri r1 = uri r2 \<longrightarrow>
            (let s = addResource r2 g2 (addResource r1 g1 srv) in
               (\<exists>ds. fst (processJsonRpcMethod rt s (rq\<lparr>request_method := ''resources/list''\<rparr>)) = Inr (ResourcesList ds) \<and>
                     filter (\<lambda>d. uri d = uri r2) ds = [r2]) \<and>
               entries_for (uri r2) (resourceHandlers s) = [g2] \<and>
               resolve rt s (JStr (uri r2)) = Inr (Some (uri r2, g2)))) \<and>
         (uriTemplate u1 = uriTemplate u2 \<longrightarrow>
            (let s = addResourceTemplate u2 f2 (addResourceTemplate u1 f1 srv) in
               (\<exists>ds. fst (processJsonRpcMethod rt s (rq\<lparr>request_method := ''resources/templates/list''\<rparr>))
                        = Inr (ResourceTemplatesList ds) \<and>
                     filter (\<lambda>d. uriTemplate d = uriTemplate u2) ds = [u2]) \<and>
               entries_for (uriTemplate u2) (resourceHandlers s) = [f2] \<and>
               resolve rt s (JStr (uriTemplate u2)) = Inr (Some (uriTemplate u2, f2)))) \<and>
         (prompt_name p1 = prompt_name p2 \<longrightarrow>
            (let s = addPrompt p2 e2 (addPrompt p1 e1 srv) in
               (\<exists>ds. fst (processJsonRpcMethod rt s (rq\<lparr>request_method := ''prompts/list''\<rparr>)) = Inr (PromptsList ds) \<and>
                     filter (\<lambda>d. prompt_name d = prompt_name p2) ds = [p2]) \<and>
               entries_for (prompt_name p2) (promptHandlers s) = [e2] \<and>
               Map_get (promptHandlers s) (JStr (prompt_name p2)) = Some e2))"
proof (intro conjI impI)
  assume k: "tool_name t1 = tool_name t2"
  show "let s = addTool t2 h2 (addTool t1 h1 srv) in
          (\<exists>ds. fst (processJsonRpcMethod rt s (rq\<lparr>request_method := ''tools/list''\<rparr>)) = Inr (ToolsList ds) \<and>
                filter (\<lambda>d. tool_name d = tool_name t2) ds = [t2]) \<and>
          entries_for (tool_name t2) (toolHandlers s) = [h2] \<and>
          Map_get (toolHandlers s) (JStr (tool_name t2)) = Some h2"
    using tools_twice [OF assms k refl, of h2 h1]
    by (simp add: Let_def list_methods)
next
  assume k: "uri r1 = uri r2"
  show "let s = addResource r2 g2 (addResource r1 g1 srv) in
          (\<exists>ds. fst (processJsonRpcMethod rt s (rq\<lparr>request_method := ''resources/list''\<rparr>)) = Inr (ResourcesList ds) \<and>
                filter (\<lambda>d. uri d = uri r2) ds = [r2]) \<and>
          entries_for (uri r2) (resourceHandlers s) = [g2] \<and>
          resolve rt s (JStr (uri r2)) = Inr (Some (uri r2, g2))"
    using resources_twice [OF assms k refl, of g2 g1]
    by (simp add: Let_def list_methods resolve_exact)
next
  assume k: "uriTemplate u1 = uriTemplate u2"
  show "let s = addResourceTemplate u2 f2 (addResourceTemplate u1 f1 srv) in
          (\<exists>ds. fst (processJsonRpcMethod rt s (rq\<lparr>request_method := ''resources/templates/list''\<rparr>))
                   = Inr (ResourceTemplatesList ds) \<and>
                filter (\<lambda>d. uriTemplate d = uriTemplate u2) ds = [u2]) \<and>
          entries_for (uriTemplate u2) (resourceHandlers s) = [f2] \<and>
          resolve rt s (JStr (uriTemplate u2)) = Inr (Some (uriTemplate u2, f2))"
    using templates_twice [OF assms k refl, of f2 f1]
    by (simp add: Let_def list_methods resolve_exact)
next
  assume k: "prompt_name p1 = prompt_name p2"
  show "let s = addPrompt p2 e2 (addPrompt p1 e1 srv) in
          (\<exists>ds. fst (processJsonRpcMethod rt s (rq\<lparr>request_method := ''prompts/list''\<rparr>)) = Inr (PromptsList ds) \<and>
                filter (\<lambda>d. prompt_name d = prompt_name p2) ds = [p2]) \<and>
          entries_for (prompt_name p2) (promptHandlers s) = [e2] \<and>
          Map_get (promptHandlers s) (JStr (prompt_name p2)) = Some e2"
    using prompts_twice [OF assms k refl, of e2 e1]
    by (simp add: Let_def list_methods)
qed

theorem registering_twice_last_write_wins_witness:
  "server_inv example_server \<and>
   tool_name (echo_tool ''first'') = tool_name (echo_tool ''second'') \<and>
   uri (config_resource ''first'') = uri (config_resource ''second'') \<and>
   uriTemplate (log_template ''first'') = uriTemplate (log_template ''second'') \<and>
   prompt_name (review_prompt ''first'') = prompt_name (review_prompt ''second'') \<and>
   fst (processJsonRpcMethod example_runtime
          (addTool (echo_tool ''second'') other_content
             (addTool (echo_tool ''first'') text_content example_server))
          (list_request ''tools/list'')) = Inr (ToolsList [echo_tool ''second'']) \<and>
   Map_get (toolHandlers (addTool (echo_tool ''second'') other_content
             (addTool (echo_tool ''first'') text_content example_server))) (JStr ''echo'')
     = Some other_content \<and>
   resolve example_runtime
     (addResource (config_resource ''second'') other_content
        (addResource (config_resource ''first'') text_content example_server))
     (JStr ''file:///config.json'') = Inr (Some (''file:///config.json'', other_content)) \<and>
   resolve example_runtime
     (addResourceTemplate (log_template ''second'') other_content
        (addResourceTemplate (log_template ''first'') text_content example_server))
     (JStr ''logs://{date}/{level}'') = Inr (Some (''logs://{date}/{level}'', other_content)) \<and>
   entries_for ''code-review''
     (promptHandlers (addPrompt (review_prompt ''second'') other_content
        (addPrompt (review_prompt ''first'') text_content example_server))) = [other_content]"
proof -
  have inv: "server_inv example_server"
    unfolding example_server_def by (rule server_inv_new)
  have m: "list_request ''tools/list'' = (list_request ''tools/list'')\<lparr>request_method := ''tools/list''\<rparr>"
    by (simp add: list_request_def)
  show ?thesis
    using inv
      registering_twice_last_write_wins [OF inv,
        of "echo_tool ''first''" "echo_tool ''second''" other_content text_content
           example_runtime "list_request ''tools/list''"
           "config_resource ''first''" "config_resource ''second''" other_content text_content
           "log_template ''first''" "log_template ''second''" other_content text_content
           "review_prompt ''first''" "review_prompt ''second''" other_content text_content]
    by (simp add: echo_tool_def config_resource_def log_template_def review_prompt_def Let_def
        list_request_def processJsonRpcMethod_def addTool_def example_server_def
        new_MCPServer_def Map_values_def)
qed

section \<open>The dispatcher\<close>

lemma perform_Nil: "perform [] srv = srv"
  by (simp add: perform_def)

lemma await_eq:
  "await tag h a wrap srv =
     (map_sum id wrap (fst (run h a)), perform (snd (run h a)) srv, [tag h a])"
  by (cases "run h a"; cases "fst (run h a)") (simp_all add: await_def)

lemma tool_frame:
  "fst (snd (handleToolCall rt srv ps)) =
     perform (concat (map effects_of (snd (snd (handleToolCall rt srv ps))))) srv"
  "length (snd (snd (handleToolCall rt srv ps))) \<le> 1"
  by (simp_all add: handleToolCall_def throw_def await_eq perform_Nil Let_def split: option.split)

lemma read_frame:
  "fst (snd (handleResourceRead rt srv ps)) =
     perform (concat (map effects_of (snd (snd (handleResourceRead rt srv ps))))) srv"
  "length (snd (snd (handleResourceRead rt srv ps))) \<le> 1"
  by (simp_all add: handleResourceRead_def throw_def await_eq perform_Nil Let_def
      split: option.split sum.split prod.split)

lemma prompt_frame:
  "fst (snd (handlePromptGet rt srv ps)) =
     perform (concat (map effects_of (snd (snd (handlePromptGet rt srv ps))))) srv"
  "length (snd (snd (handlePromptGet rt srv ps))) \<le> 1"
  by (simp_all add: handlePromptGet_def throw_def await_eq perform_Nil Let_def split: option.split)

lemma sampling_frame:
  "fst (snd (handleSampling rt srv ps)) =
     perform (concat (map effects_of (snd (snd (handleSampling rt srv ps))))) srv"
  "length (snd (snd (handleSampling rt srv ps))) \<le> 1"
  by (simp_all add: handleSampling_def throw_def await_eq perform_Nil Let_def split: option.split)

lemma setLevel_frame:
  "snd (snd (handleSetLogLevel rt srv ps)) = []"
  "fst (snd (handleSetLogLevel rt srv ps)) = srv \<or>
   fst (snd (handleSetLogLevel rt srv ps)) = srv\<lparr>logLevel := property ps ''level''\<rparr>"
  by (simp_all add: handleSetLogLevel_def throw_def setLogLevel_def Let_def)

lemma unknown_method:
  "request_method rq \<notin> set method_table \<Longrightarrow>
     processJsonRpcMethod rt srv rq = (Inl (Error (''Unknown method: '' @ request_method rq)), srv, [])"
  by (simp add: processJsonRpcMethod_def method_table_def throw_def)

lemma process_tools_call:
  "request_method rq = ''tools/call'' \<Longrightarrow>
     processJsonRpcMethod rt srv rq = handleToolCall rt srv (params rq)"
  by (simp add: processJsonRpcMethod_def)

lemma process_resources_read:
  "request_method rq = ''resources/read'' \<Longrightarrow>
     processJsonRpcMethod rt srv rq = handleResourceRead rt srv (params rq)"
  by (simp add: processJsonRpcMethod_def)

lemma process_prompts_get:
  "request_method rq = ''prompts/get'' \<Longrightarrow>
     processJsonRpcMethod rt srv rq = handlePromptGet rt srv (params rq)"
  by (simp add: processJsonRpcMethod_def)

lemma process_sampling:
  "request_method rq = ''sampling/createMessage'' \<Longrightarrow>
     processJsonRpcMethod rt srv rq = handleSampling rt srv (params rq)"
  by (simp add: processJsonRpcMethod_def)

lemma process_set_level:
  "request_method rq = ''logging/setLevel'' \<Longrightarrow>
     processJsonRpcMethod rt srv rq = handleSetLogLevel rt srv (params rq)"
  by (simp add: processJsonRpcMethod_def)

lemma process_initialized:
  "request_method rq = ''notifications/initialized'' \<Longrightarrow>
     processJsonRpcMethod rt srv rq = (Inr (Value JNull), srv, [])"
  by (simp add: processJsonRpcMethod_def)

lemma process_other:
  "request_method rq \<noteq> ''tools/call'' \<Longrightarrow> request_method rq \<noteq> ''resources/read'' \<Longrightarrow>
   request_method rq \<noteq> ''prompts/get'' \<Longrightarrow> request_method rq \<noteq> ''sampling/createMessage'' \<Longrightarrow>
   request_method rq \<noteq> ''logging/setLevel'' \<Longrightarrow>
     snd (processJsonRpcMethod rt srv rq) = (srv, [])"
  by (simp add: processJsonRpcMethod_def throw_def)

text \<open>
  Routing calls at most one handler. The server after it is the server before it with the
  calls of that handler applied, or, for \<open>logging/setLevel\<close>, with the level set.
\<close>

lemma process_frame:
  "length (snd (snd (processJsonRpcMethod rt srv rq))) \<le> 1 \<and>
   (if request_method rq = ''logging/setLevel''
    then snd (snd (processJsonRpcMethod rt srv rq)) = [] \<and>
         (fst (snd (processJsonRpcMethod rt srv rq)) = srv \<or>
          fst (snd (processJsonRpcMethod rt srv rq)) = srv\<lparr>logLevel := property (params rq) ''level''\<rparr>)
    else fst (snd (processJsonRpcMethod rt srv rq)) =
           perform (concat (map effects_of (snd (snd (processJsonRpcMethod rt srv rq))))) srv)"
proof -
  consider (tool) "request_method rq = ''tools/call''"
    | (prompt) "request_method rq = ''prompts/get''"
    | (sampling) "request_method rq = ''sampling/createMessage''"
    | (read) "request_method rq = ''resources/read''"
    | (level) "request_method rq = ''logging/setLevel''"
    | (other) "request_method rq \<noteq> ''tools/call''" "request_method rq \<noteq> ''prompts/get''"
        "request_method rq \<noteq> ''sampling/createMessage''" "request_method rq \<noteq> ''resources/read''"
        "request_method rq \<noteq> ''logging/setLevel''"
    by blast
  then show ?thesis
  proof cases
    case tool
    then show ?thesis
      using tool_frame [of rt srv "params rq"] by (simp add: process_tools_call)
  next
    case prompt
    then show ?thesis
      using prompt_frame [of rt srv "params rq"] by (simp add: process_prompts_get)
  next
    case sampling
    then show ?thesis
      using sampling_frame [of rt srv "params rq"] by (simp add: process_sampling)
  next
    case read
    then show ?thesis
      using read_frame [of rt srv "params rq"] by (simp add: process_resources_read)
  next
    case level
    then show ?thesis
      using setLevel_frame [of rt srv "params rq"] by (simp add: process_set_level)
  next
    case other
    then have "snd (processJsonRpcMethod rt srv rq) = (srv, [])"
      by (simp add: process_other)
    with other(5) show ?thesis by (simp add: perform_Nil)
  qed
qed

lemma respond_server:
  "fst (snd (respond rt srv rq)) = fst (snd (processJsonRpcMethod rt srv rq))"
  by (cases "processJsonRpcMethod rt srv rq") (simp add: respond_def split: sum.split)

lemma respond_calls:
  "snd (snd (respond rt srv rq)) = snd (snd (processJsonRpcMethod rt srv rq))"
  by (cases "processJsonRpcMethod rt srv rq") (simp add: respond_def split: sum.split)

lemma handle_server:
  "fst (snd (handleJsonRpcRequest rt srv body)) =
     (case decode rt body of Inl e \<Rightarrow> srv | Inr rq \<Rightarrow> fst (snd (processJsonRpcMethod rt srv rq)))"
  by (simp add: handleJsonRpcRequest_def respond_server split: sum.split)

lemma handle_calls:
  "snd (snd (handleJsonRpcRequest rt srv body)) =
     (case decode rt body of Inl e \<Rightarrow> [] | Inr rq \<Rightarrow> snd (snd (processJsonRpcMethod rt srv rq)))"
  by (simp add: handleJsonRpcRequest_def respond_calls split: sum.split)

lemma handle_frame:
  "length (snd (snd (handleJsonRpcRequest rt srv body))) \<le> 1 \<and>
   (fst (snd (handleJsonRpcRequest rt srv body)) =
      perform (concat (map effects_of (snd (snd (handleJsonRpcRequest rt srv body))))) srv \<or>
    (\<exists>rq. decode rt body = Inr rq \<and> request_method rq = ''logging/setLevel'' \<and>
          snd (snd (handleJsonRpcRequest rt srv body)) = [] \<and>
          fst (snd (handleJsonRpcRequest rt srv body))
            = srv\<lparr>logLevel := property (params rq) ''level''\<rparr>))"
proof (cases "decode rt body")
  case (Inl e)
  then show ?thesis by (simp add: handle_server handle_calls perform_Nil)
next
  case (Inr rq)
  show ?thesis
  proof (cases "request_method rq = ''logging/setLevel''")
    case True
    with Inr process_frame [of rt srv rq] show ?thesis
      by (auto simp: handle_server handle_calls perform_Nil)
  next
    case False
    with Inr process_frame [of rt srv rq] show ?thesis
      by (simp add: handle_server handle_calls)
  qed
qed

lemma handle_fields:
  assumes "concat (map effects_of (snd (snd (handleJsonRpcRequest rt srv body)))) = []"
  shows "tools (fst (snd (handleJsonRpcRequest rt srv body))) = tools srv \<and>
   toolHandlers (fst (snd (handleJsonRpcRequest rt srv body))) = toolHandlers srv \<and>
   resources (fst (snd (handleJsonRpcRequest rt srv body))) = resources srv \<and>
   resourceHandlers (fst (snd (handleJsonRpcRequest rt srv body))) = resourceHandlers srv \<and>
   resourceTemplates (fst (snd (handleJsonRpcRequest rt srv body))) = resourceTemplates srv \<and>
   prompts (fst (snd (handleJsonRpcRequest rt srv body))) = prompts srv \<and>
   promptHandlers (fst (snd (handleJsonRpcRequest rt srv body))) = promptHandlers srv \<and>
   samplingHandler (fst (snd (handleJsonRpcRequest rt srv body))) = samplingHandler srv \<and>
   serverInfo (fst (snd (handleJsonRpcRequest rt srv body))) = serverInfo srv \<and>
   capabilities (fst (snd (handleJsonRpcRequest rt srv body))) = capabilities srv"
proof -
  consider (same) "fst (snd (handleJsonRpcRequest rt srv body)) = srv"
    | (level) l where "fst (snd (handleJsonRpcRequest rt srv body)) = srv\<lparr>logLevel := l\<rparr>"
    using handle_frame [of rt srv body] assms by (auto simp: perform_Nil)
  then show ?thesis
  proof cases
    case same
    then show ?thesis by simp
  next
    case level
    then show ?thesis by simp
  qed
qed

lemma handle_changed:
  assumes "concat (map effects_of (snd (snd (handleJsonRpcRequest rt srv body)))) = []"
    and "fst (snd (handleJsonRpcRequest rt srv body)) \<noteq> srv"
  shows "\<exists>rq. decode rt body = Inr rq \<and> request_method rq = ''logging/setLevel'' \<and>
            fst (snd (handleJsonRpcRequest rt srv body))
              = srv\<lparr>logLevel := property (params rq) ''level''\<rparr>"
  using handle_frame [of rt srv body] assms by (auto simp: perform_Nil)

lemma respond_error:
  "fst (processJsonRpcMethod rt srv rq) = Inl e \<Longrightarrow> fst (respond rt srv rq) = error_envelope e"
  by (cases "processJsonRpcMethod rt srv rq")
     (simp add: respond_def error_envelope_def createErrorResponse_def)

lemma handle_decode_error:
  "decode rt body = Inl e \<Longrightarrow> handleJsonRpcRequest rt srv body = (error_envelope e, srv, [])"
  by (simp add: handleJsonRpcRequest_def error_envelope_def createErrorResponse_def)

lemma handle_process_error:
  "decode rt body = Inr rq \<Longrightarrow> fst (processJsonRpcMethod rt srv rq) = Inl e \<Longrightarrow>
     fst (handleJsonRpcRequest rt srv body) = error_envelope e"
  by (simp add: handleJsonRpcRequest_def respond_error)

lemma respond_result:
  "fst (processJsonRpcMethod rt srv rq) = Inr r \<Longrightarrow>
     fst (respond rt srv rq) =
       (if r = Value JNull then \<lparr>status = 204, content = None\<rparr>
        else \<lparr>status = 200, content = Some (ResultResponse (id_or_null (request_id rq)) r)\<rparr>)"
  by (cases "processJsonRpcMethod rt srv rq") (simp add: respond_def)

lemma respond_kinds:
  "fst (respond rt srv rq) = \<lparr>status = 204, content = None\<rparr> \<or>
   (\<exists>r. fst (respond rt srv rq) = \<lparr>status = 200, content = Some (ResultResponse (id_or_null (request_id rq)) r)\<rparr>) \<or>
   (\<exists>e. fst (respond rt srv rq) = error_envelope e)"
proof (cases "fst (processJsonRpcMethod rt srv rq)")
  case (Inl e)
  then have "fst (respond rt srv rq) = error_envelope e" by (rule respond_error)
  then show ?thesis by blast
next
  case (Inr r)
  then show ?thesis by (simp add: respond_result)
qed

lemma handle_kinds:
  "fst (handleJsonRpcRequest rt srv body) = \<lparr>status = 204, content = None\<rparr> \<or>
   (\<exists>i r. fst (handleJsonRpcRequest rt srv body) = \<lparr>status = 200, content = Some (ResultResponse i r)\<rparr>) \<or>
   (\<exists>e. fst (handleJsonRpcRequest rt srv body) = error_envelope e)"
proof (cases "decode rt body")
  case (Inl e)
  then have "fst (handleJsonRpcRequest rt srv body) = error_envelope e"
    by (simp add: handle_decode_error)
  then show ?thesis by blast
next
  case (Inr rq)
  with respond_kinds [of rt srv rq] show ?thesis
    by (auto simp: handleJsonRpcRequest_def)
qed

lemma unknown_tool_outcome:
  "Map_get (toolHandlers srv) (property ps ''name'') = None \<Longrightarrow>
     \<exists>m. handleToolCall rt srv ps = (Inl (Error m), srv, [])"
  by (simp add: handleToolCall_def throw_def)

lemma handle_unknown_tool:
  assumes "decode rt body = Inr rq" "request_method rq = ''tools/call''"
    "Map_get (toolHandlers srv) (property (params rq) ''name'') = None"
  shows "\<exists>m. handleJsonRpcRequest rt srv body =
                (\<lparr>status = 500, content = Some (ErrorResponse JNull (- 32603) m)\<rparr>, srv, [])"
proof -
  obtain m where m: "handleToolCall rt srv (params rq) = (Inl (Error m), srv, [])"
    using assms(3) unknown_tool_outcome by blast
  have "processJsonRpcMethod rt srv rq = handleToolCall rt srv (params rq)"
    using assms(2) by (rule process_tools_call)
  with m have "processJsonRpcMethod rt srv rq = (Inl (Error m), srv, [])"
    by simp
  with assms(1) have "handleJsonRpcRequest rt srv body =
      (\<lparr>status = 500, content = Some (ErrorResponse JNull (- 32603) m)\<rparr>, srv, [])"
    by (simp add: handleJsonRpcRequest_def respond_def createErrorResponse_def)
  then show ?thesis by blast
qed

lemma trim_not_blank: "\<not> white_space c \<Longrightarrow> trim (c # cs) \<noteq> []"
  by (simp add: trim_def)

lemma brace_not_white: "\<not> white_space (CHR ''{'')"
  by (simp add: white_space_def)

lemma decode_parsed:
  "trim t \<noteq> [] \<Longrightarrow> JSON_parse rt t = Inr v \<Longrightarrow> JsonRpcRequestSchema_parse v = Some rq \<Longrightarrow>
     decode rt t = Inr rq"
  by (simp add: decode_def)

lemma example_parse:
  "JSON_parse example_runtime text_empty_method =
     Inr (JObj [(''jsonrpc'', JStr ''2.0''), (''method'', JStr [])])"
  "JSON_parse example_runtime text_tools_list =
     Inr (JObj [(''jsonrpc'', JStr ''2.0''), (''id'', JNum (Finite 1)),
                (''method'', JStr ''tools/list'')])"
  "JSON_parse example_runtime text_unknown_tool =
     Inr (JObj [(''jsonrpc'', JStr ''2.0''), (''id'', JNum (Finite 1)),
                (''method'', JStr ''tools/call''),
                (''params'', JObj [(''name'', JStr ''nope'')])])"
  "JSON_parse example_runtime text_set_level =
     Inr (JObj [(''jsonrpc'', JStr ''2.0''), (''id'', JNum (Finite 1)),
                (''method'', JStr ''logging/setLevel''),
                (''params'', JObj [(''level'', JStr ''debug'')])])"
  by (simp_all add: example_runtime_def example_texts_def text_unknown_tool_def
      text_empty_method_def text_tools_list_def text_set_level_def)

lemma example_not_blank:
  "trim text_empty_method \<noteq> []" "trim text_tools_list \<noteq> []"
  "trim text_unknown_tool \<noteq> []" "trim text_set_level \<noteq> []"
  unfolding text_empty_method_def text_tools_list_def text_unknown_tool_def text_set_level_def
  by (rule trim_not_blank, rule brace_not_white)+

lemma example_decode_unknown_tool:
  "decode example_runtime text_unknown_tool =
     Inr \<lparr>request_id = JNum (Finite 1), request_method = ''tools/call'',
          params = JObj [(''name'', JStr ''nope'')]\<rparr>"
  by (rule decode_parsed [OF example_not_blank(3) example_parse(3)]) simp

lemma example_decode_set_level:
  "decode example_runtime text_set_level =
     Inr \<lparr>request_id = JNum (Finite 1), request_method = ''logging/setLevel'',
          params = JObj [(''level'', JStr ''debug'')]\<rparr>"
  by (rule decode_parsed [OF example_not_blank(4) example_parse(4)]) simp

lemma example_parse_more:
  "JSON_parse example_runtime text_unknown_method =
     Inr (JObj [(''jsonrpc'', JStr ''2.0''), (''id'', JNum (Finite 1)),
                (''method'', JStr ''unknown/method'')])"
  "JSON_parse example_runtime text_read_no_uri =
     Inr (JObj [(''jsonrpc'', JStr ''2.0''), (''id'', JNum (Finite 1)),
                (''method'', JStr ''resources/read''),
                (''params'', JObj [])])"
  "JSON_parse example_runtime text_sampling =
     Inr (JObj [(''jsonrpc'', JStr ''2.0''), (''id'', JNum (Finite 1)),
                (''method'', JStr ''sampling/createMessage'')])"
  "JSON_parse example_runtime text_get_prompt =
     Inr (JObj [(''jsonrpc'', JStr ''2.0''), (''id'', JNum (Finite 1)),
                (''method'', JStr ''prompts/get''),
                (''params'', JObj [(''name'', JStr ''code-review''),
                                   (''arguments'', JObj [(''language'', JStr ''ts'')])])])"
  "JSON_parse example_runtime text_call_echo =
     Inr (JObj [(''jsonrpc'', JStr ''2.0''), (''id'', JNum (Finite 1)),
                (''method'', JStr ''tools/call''),
                (''params'', JObj [(''name'', JStr ''echo''),
                                   (''arguments'', JObj [(''message'', JStr ''hi'')])])])"
  "JSON_parse example_runtime ''invalid json'' = Inl ''Unexpected token''"
  "JSON_parse example_runtime text_wrong_version =
     Inr (JObj [(''jsonrpc'', JStr ''1.0''), (''id'', JNum (Finite 1)),
                (''method'', JStr ''tools/list'')])"
  "JSON_parse example_runtime text_overflow_id =
     Inr (JObj [(''jsonrpc'', JStr ''2.0''), (''id'', JNum PosInfinity),
                (''method'', JStr ''tools/list'')])"
  "JSON_parse example_runtime text_object_name =
     Inr (JObj [(''jsonrpc'', JStr ''2.0''), (''id'', JNum (Finite 1)),
                (''method'', JStr ''tools/call''),
                (''params'', JObj [(''name'', JObj [(''toString'', JNum (Finite 1))])])])"
  by (simp_all add: example_runtime_def example_texts_def text_unknown_tool_def
      text_empty_method_def text_tools_list_def text_set_level_def text_unknown_method_def
      text_read_no_uri_def text_sampling_def text_get_prompt_def text_call_echo_def
      text_wrong_version_def text_overflow_id_def text_object_name_def)

lemma example_not_blank_more:
  "trim text_unknown_method \<noteq> []" "trim text_read_no_uri \<noteq> []"
  "trim text_sampling \<noteq> []" "trim text_get_prompt \<noteq> []" "trim text_call_echo \<noteq> []"
  "trim text_wrong_version \<noteq> []" "trim text_overflow_id \<noteq> []" "trim text_object_name \<noteq> []"
  unfolding text_unknown_method_def text_read_no_uri_def text_sampling_def text_get_prompt_def
    text_call_echo_def text_wrong_version_def text_overflow_id_def text_object_name_def
  by (rule trim_not_blank, rule brace_not_white)+

lemma example_decode:
  "decode example_runtime text_unknown_method =
     Inr \<lparr>request_id = JNum (Finite 1), request_method = ''unknown/method'', params = JUndefined\<rparr>"
  "decode example_runtime text_read_no_uri =
     Inr \<lparr>request_id = JNum (Finite 1), request_method = ''resources/read'', params = JObj []\<rparr>"
  "decode example_runtime text_sampling =
     Inr \<lparr>request_id = JNum (Finite 1), request_method = ''sampling/createMessage'',
          params = JUndefined\<rparr>"
  "decode example_runtime text_get_prompt =
     Inr \<lparr>request_id = JNum (Finite 1), request_method = ''prompts/get'',
          params = JObj [(''name'', JStr ''code-review''),
                         (''arguments'', JObj [(''language'', JStr ''ts'')])]\<rparr>"
  "decode example_runtime text_call_echo =
     Inr \<lparr>request_id = JNum (Finite 1), request_method = ''tools/call'',
          params = JObj [(''name'', JStr ''echo''),
                         (''arguments'', JObj [(''message'', JStr ''hi'')])]\<rparr>"
  "decode example_runtime text_tools_list =
     Inr \<lparr>request_id = JNum (Finite 1), request_method = ''tools/list'', params = JUndefined\<rparr>"
  "decode example_runtime text_empty_method =
     Inr \<lparr>request_id = JUndefined, request_method = [], params = JUndefined\<rparr>"
  "decode example_runtime text_object_name =
     Inr \<lparr>request_id = JNum (Finite 1), request_method = ''tools/call'',
          params = JObj [(''name'', JObj [(''toString'', JNum (Finite 1))])]\<rparr>"
         apply (rule decode_parsed [OF example_not_blank_more(1) example_parse_more(1)], simp)
        apply (rule decode_parsed [OF example_not_blank_more(2) example_parse_more(2)], simp)
       apply (rule decode_parsed [OF example_not_blank_more(3) example_parse_more(3)], simp)
      apply (rule decode_parsed [OF example_not_blank_more(4) example_parse_more(4)], simp)
     apply (rule decode_parsed [OF example_not_blank_more(5) example_parse_more(5)], simp)
    apply (rule decode_parsed [OF example_not_blank(2) example_parse(2)], simp)
   apply (rule decode_parsed [OF example_not_blank(1) example_parse(1)], simp)
  apply (rule decode_parsed [OF example_not_blank_more(8) example_parse_more(9)], simp)
  done

lemma example_decode_invalid:
  "decode example_runtime ''invalid json'' = Inl (Error ''Unexpected token'')"
proof -
  have "trim ''invalid json'' \<noteq> []"
    by (rule trim_not_blank) (simp add: white_space_def)
  then show ?thesis by (simp add: decode_def example_parse_more(6))
qed

lemma echo_server:
  "toolHandlers (addTool (echo_tool d) h example_server) = [(''echo'', h)]"
  "tools (addTool (echo_tool d) h example_server) = [(''echo'', echo_tool d)]"
  by (simp_all add: addTool_def echo_tool_def example_server_def new_MCPServer_def)

lemma echo_call:
  "processJsonRpcMethod example_runtime (addTool (echo_tool d) h example_server)
     \<lparr>request_id = JNum (Finite 1), request_method = ''tools/call'',
      params = JObj [(''name'', JStr ''echo''),
                     (''arguments'', JObj [(''message'', JStr ''hi'')])]\<rparr>
   = (map_sum id Value (fst (run h (JObj [(''message'', JStr ''hi'')]))),
      perform (snd (run h (JObj [(''message'', JStr ''hi'')])))
        (addTool (echo_tool d) h example_server),
      [ToolHandler ''echo'' h (JObj [(''message'', JStr ''hi'')])])"
  by (simp add: process_tools_call handleToolCall_def nullish_def echo_server await_eq Let_def)

text \<open>
  C9, as the code has it. Processing a message calls at most one handler. When the handler
  called, if any, calls none of the registering and configuring methods of the server, the
  four registries, their handler maps, the sampling handler, the server identity and the
  capabilities are left as they were, and the server after the message differs from the
  server before it only if the message is a \<open>logging/setLevel\<close> request, and then only in
  the log level. In general the server after the message is the server before it with the
  calls of the handler applied. A \<open>tools/call\<close> whose name resolves to no registered
  action is answered by the error envelope with the code -32603, calls no handler and
  leaves the whole server as it was.
\<close>

theorem message_changes_only_log_level:
  "(concat (map effects_of (snd (snd (handleJsonRpcRequest rt srv body)))) = [] \<longrightarrow>
      tools (fst (snd (handleJsonRpcRequest rt srv body))) = tools srv \<and>
      toolHandlers (fst (snd (handleJsonRpcRequest rt srv body))) = toolHandlers srv \<and>
      resources (fst (snd (handleJsonRpcRequest rt srv body))) = resources srv \<and>
      resourceHandlers (fst (snd (handleJsonRpcRequest rt srv body))) = resourceHandlers srv \<and>
      resourceTemplates (fst (snd (handleJsonRpcRequest rt srv body))) = resourceTemplates srv \<and>
      prompts (fst (snd (handleJsonRpcRequest rt srv body))) = prompts srv \<and>
      promptHandlers (fst (snd (handleJsonRpcRequest rt srv body))) = promptHandlers srv \<and>
      samplingHandler (fst (snd (handleJsonRpcRequest rt srv body))) = samplingHandler srv \<and>
      serverInfo (fst (snd (handleJsonRpcRequest rt srv body))) = serverInfo srv \<and>
      capabilities (fst (snd (handleJsonRpcRequest rt srv body))) = capabilities srv) \<and>
   (concat (map effects_of (snd (snd (handleJsonRpcRequest rt srv body)))) = [] \<and>
    fst (snd (handleJsonRpcRequest rt srv body)) \<noteq> srv \<longrightarrow>
      (\<exists>rq. decode rt body = Inr rq \<and> request_method rq = ''logging/setLevel'' \<and>
            fst (snd (handleJsonRpcRequest rt srv body))
              = srv\<lparr>logLevel := property (params rq) ''level''\<rparr>)) \<and>
   length (snd (snd (handleJsonRpcRequest rt srv body))) \<le> 1 \<and>
   (fst (snd (handleJsonRpcRequest rt srv body)) =
      perform (concat (map effects_of (snd (snd (handleJsonRpcRequest rt srv body))))) srv \<or>
    (\<exists>rq. decode rt body = Inr rq \<and> request_method rq = ''logging/setLevel'' \<and>
          snd (snd (handleJsonRpcRequest rt srv body)) = [] \<and>
          fst (snd (handleJsonRpcRequest rt srv body))
            = srv\<lparr>logLevel := property (params rq) ''level''\<rparr>)) \<and>
   (\<forall>rq. decode rt body = Inr rq \<and> request_method rq = ''tools/call'' \<and>
         Map_get (toolHandlers srv) (property (params rq) ''name'') = None \<longrightarrow>
         (\<exists>m. handleJsonRpcRequest rt srv body =
                (\<lparr>status = 500, content = Some (ErrorResponse JNull (- 32603) m)\<rparr>, srv, [])))"
proof (intro conjI)
  show "concat (map effects_of (snd (snd (handleJsonRpcRequest rt srv body)))) = [] \<longrightarrow>
      tools (fst (snd (handleJsonRpcRequest rt srv body))) = tools srv \<and>
      toolHandlers (fst (snd (handleJsonRpcRequest rt srv body))) = toolHandlers srv \<and>
      resources (fst (snd (handleJsonRpcRequest rt srv body))) = resources srv \<and>
      resourceHandlers (fst (snd (handleJsonRpcRequest rt srv body))) = resourceHandlers srv \<and>
      resourceTemplates (fst (snd (handleJsonRpcRequest rt srv body))) = resourceTemplates srv \<and>
      prompts (fst (snd (handleJsonRpcRequest rt srv body))) = prompts srv \<and>
      promptHandlers (fst (snd (handleJsonRpcRequest rt srv body))) = promptHandlers srv \<and>
      samplingHandler (fst (snd (handleJsonRpcRequest rt srv body))) = samplingHandler srv \<and>
      serverInfo (fst (snd (handleJsonRpcRequest rt srv body))) = serverInfo srv \<and>
      capabilities (fst (snd (handleJsonRpcRequest rt srv body))) = capabilities srv"
    using handle_fields [of rt srv body] by blast
  show "concat (map effects_of (snd (snd (handleJsonRpcRequest rt srv body)))) = [] \<and>
    fst (snd (handleJsonRpcRequest rt srv body)) \<noteq> srv \<longrightarrow>
      (\<exists>rq. decode rt body = Inr rq \<and> request_method rq = ''logging/setLevel'' \<and>
            fst (snd (handleJsonRpcRequest rt srv body))
              = srv\<lparr>logLevel := property (params rq) ''level''\<rparr>)"
    using handle_changed [of rt srv body] by blast
  show "length (snd (snd (handleJsonRpcRequest rt srv body))) \<le> 1"
    using handle_frame [of rt srv body] by (rule conjunct1)
  show "fst (snd (handleJsonRpcRequest rt srv body)) =
      perform (concat (map effects_of (snd (snd (handleJsonRpcRequest rt srv body))))) srv \<or>
    (\<exists>rq. decode rt body = Inr rq \<and> request_method rq = ''logging/setLevel'' \<and>
          snd (snd (handleJsonRpcRequest rt srv body)) = [] \<and>
          fst (snd (handleJsonRpcRequest rt srv body))
            = srv\<lparr>logLevel := property (params rq) ''level''\<rparr>)"
    using handle_frame [of rt srv body] by (rule conjunct2)
  show "\<forall>rq. decode rt body = Inr rq \<and> request_method rq = ''tools/call'' \<and>
         Map_get (toolHandlers srv) (property (params rq) ''name'') = None \<longrightarrow>
         (\<exists>m. handleJsonRpcRequest rt srv body =
                (\<lparr>status = 500, content = Some (ErrorResponse JNull (- 32603) m)\<rparr>, srv, []))"
    using handle_unknown_tool [of rt body _ srv] by blast
qed

lemma echo_handle:
  "fst (snd (handleJsonRpcRequest example_runtime (addTool (echo_tool d) h example_server)
     text_call_echo))
   = perform (snd (run h (JObj [(''message'', JStr ''hi'')])))
       (addTool (echo_tool d) h example_server)"
  "snd (snd (handleJsonRpcRequest example_runtime (addTool (echo_tool d) h example_server)
     text_call_echo))
   = [ToolHandler ''echo'' h (JObj [(''message'', JStr ''hi'')])]"
  "fst (run h (JObj [(''message'', JStr ''hi'')])) = Inr v \<Longrightarrow> v \<noteq> JNull \<Longrightarrow>
   fst (handleJsonRpcRequest example_runtime (addTool (echo_tool d) h example_server)
     text_call_echo)
   = \<lparr>status = 200, content = Some (ResultResponse (JNum (Finite 1)) (Value v))\<rparr>"
    apply (simp add: handle_server example_decode(5) echo_call)
   apply (simp add: handle_calls example_decode(5) echo_call)
  apply (simp add: handleJsonRpcRequest_def example_decode(5) respond_def echo_call
      id_or_null_def nullish_def)
  done

lemma addTool_fields:
  "tools (addTool t h srv) = Map_set (tool_name t) t (tools srv)"
  "toolHandlers (addTool t h srv) = Map_set (tool_name t) h (toolHandlers srv)"
  by (simp_all add: addTool_def)

lemma run_examples:
  "run text_content u = (Inr (JObj [(''uri'', u), (''text'', JStr ''content'')]), [])"
  "run other_content u = (Inr (JObj [(''uri'', u), (''text'', JStr ''other'')]), [])"
  "run failing_handler u = (Inl (Error ''boom''), [])"
  "run throwing_handler u = (Inl (NonError (JStr ''boom'')), [])"
  "run registering_handler u = (Inr (JStr ''registered''), [AddTool added_tool text_content])"
  by (simp_all add: text_content_def other_content_def failing_handler_def throwing_handler_def
      registering_handler_def)

theorem message_changes_only_log_level_witness:
  "decode example_runtime text_unknown_tool =
     Inr \<lparr>request_id = JNum (Finite 1), request_method = ''tools/call'',
          params = JObj [(''name'', JStr ''nope'')]\<rparr> \<and>
   Map_get (toolHandlers example_server) (JStr ''nope'') = None \<and>
   (\<exists>m. handleJsonRpcRequest example_runtime example_server text_unknown_tool =
     (\<lparr>status = 500, content = Some (ErrorResponse JNull (- 32603) m)\<rparr>, example_server, [])) \<and>
   snd (snd (handleJsonRpcRequest example_runtime example_server text_set_level)) = [] \<and>
   fst (snd (handleJsonRpcRequest example_runtime example_server text_set_level)) \<noteq> example_server \<and>
   fst (snd (handleJsonRpcRequest example_runtime example_server text_set_level))
     = example_server\<lparr>logLevel := JStr ''debug''\<rparr> \<and>
   snd (snd (handleJsonRpcRequest example_runtime
               (addTool (echo_tool ''Echo'') text_content example_server) text_call_echo))
     = [ToolHandler ''echo'' text_content (JObj [(''message'', JStr ''hi'')])] \<and>
   effects_of (ToolHandler ''echo'' text_content (JObj [(''message'', JStr ''hi'')])) = [] \<and>
   tools (fst (snd (handleJsonRpcRequest example_runtime
                      (addTool (echo_tool ''Echo'') text_content example_server) text_call_echo)))
     = [(''echo'', echo_tool ''Echo'')] \<and>
   toolHandlers (fst (snd (handleJsonRpcRequest example_runtime
                      (addTool (echo_tool ''Echo'') text_content example_server) text_call_echo)))
     = [(''echo'', text_content)]"
proof -
  let ?rq = "\<lparr>request_id = JNum (Finite 1), request_method = ''tools/call'',
          params = JObj [(''name'', JStr ''nope'')]\<rparr>"
  let ?e = "addTool (echo_tool ''Echo'') text_content example_server"
  have d: "decode example_runtime text_unknown_tool = Inr ?rq"
    by (rule example_decode_unknown_tool)
  have n: "Map_get (toolHandlers example_server) (JStr ''nope'') = None"
    by (simp add: example_server_def new_MCPServer_def)
  have hyp: "decode example_runtime text_unknown_tool = Inr ?rq \<and> request_method ?rq = ''tools/call'' \<and>
         Map_get (toolHandlers example_server) (property (params ?rq) ''name'') = None"
    using d n by simp
  have all: "\<forall>rq. decode example_runtime text_unknown_tool = Inr rq \<and> request_method rq = ''tools/call'' \<and>
         Map_get (toolHandlers example_server) (property (params rq) ''name'') = None \<longrightarrow>
         (\<exists>m. handleJsonRpcRequest example_runtime example_server text_unknown_tool =
                (\<lparr>status = 500, content = Some (ErrorResponse JNull (- 32603) m)\<rparr>, example_server, []))"
    using message_changes_only_log_level [of example_runtime example_server text_unknown_tool]
    by (elim conjE)
  have u: "\<exists>m. handleJsonRpcRequest example_runtime example_server text_unknown_tool =
     (\<lparr>status = 500, content = Some (ErrorResponse JNull (- 32603) m)\<rparr>, example_server, [])"
    using all hyp by blast
  have c: "snd (snd (handleJsonRpcRequest example_runtime example_server text_set_level)) = []"
    by (simp add: handle_calls example_decode_set_level process_set_level setLevel_frame)
  have l: "fst (snd (handleJsonRpcRequest example_runtime example_server text_set_level))
     = example_server\<lparr>logLevel := JStr ''debug''\<rparr>"
    by (simp add: handle_server example_decode_set_level process_set_level handleSetLogLevel_def
        nullish_def setLogLevel_def)
  have "logLevel (example_server\<lparr>logLevel := JStr ''debug''\<rparr>) \<noteq> logLevel example_server"
    by (simp add: example_server_def new_MCPServer_def)
  then have ne: "example_server\<lparr>logLevel := JStr ''debug''\<rparr> \<noteq> example_server"
    by metis
  have k: "snd (snd (handleJsonRpcRequest example_runtime ?e text_call_echo))
     = [ToolHandler ''echo'' text_content (JObj [(''message'', JStr ''hi'')])]"
    by (rule echo_handle(2))
  have f: "effects_of (ToolHandler ''echo'' text_content (JObj [(''message'', JStr ''hi'')])) = []"
    by (simp add: run_examples)
  have q: "concat (map effects_of (snd (snd (handleJsonRpcRequest example_runtime ?e text_call_echo))))
     = []"
    by (simp add: k run_examples)
  have fields: "tools (fst (snd (handleJsonRpcRequest example_runtime ?e text_call_echo))) = tools ?e \<and>
     toolHandlers (fst (snd (handleJsonRpcRequest example_runtime ?e text_call_echo)))
       = toolHandlers ?e"
    using message_changes_only_log_level [of example_runtime ?e text_call_echo] q by blast
  have t: "tools (fst (snd (handleJsonRpcRequest example_runtime ?e text_call_echo)))
     = [(''echo'', echo_tool ''Echo'')]"
    using fields by (simp add: echo_server)
  have th: "toolHandlers (fst (snd (handleJsonRpcRequest example_runtime ?e text_call_echo)))
     = [(''echo'', text_content)]"
    using fields by (simp add: echo_server)
  show ?thesis
    apply (intro conjI)
             apply (rule d)
            apply (rule n)
           apply (rule u)
          apply (rule c)
         apply (simp only: l)
         apply (rule ne)
        apply (rule l)
       apply (rule k)
      apply (rule f)
     apply (rule t)
    apply (rule th)
    done
qed

theorem handler_registers_a_tool_counterexample:
  "map fst (tools (addTool (echo_tool ''Echo'') registering_handler example_server)) = [''echo''] \<and>
   fst (handleJsonRpcRequest example_runtime
          (addTool (echo_tool ''Echo'') registering_handler example_server) text_call_echo)
     = \<lparr>status = 200,
        content = Some (ResultResponse (JNum (Finite 1)) (Value (JStr ''registered'')))\<rparr> \<and>
   snd (snd (handleJsonRpcRequest example_runtime
          (addTool (echo_tool ''Echo'') registering_handler example_server) text_call_echo))
     = [ToolHandler ''echo'' registering_handler (JObj [(''message'', JStr ''hi'')])] \<and>
   map fst (tools (fst (snd (handleJsonRpcRequest example_runtime
          (addTool (echo_tool ''Echo'') registering_handler example_server) text_call_echo))))
     = [''echo'', ''added''] \<and>
   map fst (toolHandlers (fst (snd (handleJsonRpcRequest example_runtime
          (addTool (echo_tool ''Echo'') registering_handler example_server) text_call_echo))))
     = [''echo'', ''added'']"
proof -
  let ?e = "addTool (echo_tool ''Echo'') registering_handler example_server"
  have r: "run registering_handler (JObj [(''message'', JStr ''hi'')])
     = (Inr (JStr ''registered''), [AddTool added_tool text_content])"
    by (rule run_examples(5))
  have 1: "map fst (tools ?e) = [''echo'']"
    by (simp add: echo_server)
  have 2: "fst (handleJsonRpcRequest example_runtime ?e text_call_echo)
     = \<lparr>status = 200,
        content = Some (ResultResponse (JNum (Finite 1)) (Value (JStr ''registered'')))\<rparr>"
    by (rule echo_handle(3)) (simp_all add: r)
  have 3: "snd (snd (handleJsonRpcRequest example_runtime ?e text_call_echo))
     = [ToolHandler ''echo'' registering_handler (JObj [(''message'', JStr ''hi'')])]"
    by (rule echo_handle(2))
  have s: "fst (snd (handleJsonRpcRequest example_runtime ?e text_call_echo))
     = addTool added_tool text_content ?e"
    by (simp add: echo_handle(1) r perform_def)
  have 4: "map fst (tools (addTool added_tool text_content ?e)) = [''echo'', ''added'']"
    by (simp add: addTool_fields echo_tool_def example_server_def new_MCPServer_def added_tool_def)
  have 5: "map fst (toolHandlers (addTool added_tool text_content ?e)) = [''echo'', ''added'']"
    by (simp add: addTool_fields echo_tool_def example_server_def new_MCPServer_def added_tool_def)
  from 1 2 3 4 5 show ?thesis by (simp only: s simp_thms)
qed

lemma unknown_tool:
  "\<not> nullish ps \<Longrightarrow> Map_get (toolHandlers srv) (property ps ''name'') = None \<Longrightarrow>
     handleToolCall rt srv ps = (Inl (Error (literal_message rt ''Unknown tool: '' (property ps ''name''))), srv, [])"
  by (simp add: handleToolCall_def throw_def)

lemma unknown_prompt:
  "\<not> nullish ps \<Longrightarrow> Map_get (prompts srv) (property ps ''name'') = None \<Longrightarrow>
     handlePromptGet rt srv ps = (Inl (Error (literal_message rt ''Unknown prompt: '' (property ps ''name''))), srv, [])"
  by (simp add: handlePromptGet_def throw_def)

lemma missing_uri:
  "\<not> nullish ps \<Longrightarrow> \<not> truthy (property ps ''uri'') \<Longrightarrow>
     handleResourceRead rt srv ps = (Inl (Error ''URI is required for resource read''), srv, [])"
  by (simp add: handleResourceRead_def throw_def)

lemma sampling_not_configured:
  "samplingHandler srv = None \<Longrightarrow>
     handleSampling rt srv ps = (Inl (Error ''Sampling handler not configured''), srv, [])"
  by (simp add: handleSampling_def throw_def)

lemma missing_argument_first:
  "missing_argument rt args as =
     (case filter (\<lambda>a. required a = Some True \<and> \<not> optional_member_truthy rt args (arg_name a)) as of
        [] \<Rightarrow> None | a # rest \<Rightarrow> Some a)"
  by (induction as) auto

lemma prompt_missing_argument:
  assumes "\<not> nullish ps"
    and "Map_get (prompts srv) (property ps ''name'') = Some prompt"
    and "Map_get (promptHandlers srv) (property ps ''name'') = Some h"
    and "arguments prompt = Some as"
    and "missing_argument rt (property ps ''arguments'') as = Some a"
  shows "handlePromptGet rt srv ps = (Inl (Error (''Required argument missing: '' @ arg_name a)), srv, [])"
  using assms by (simp add: handlePromptGet_def throw_def)

lemma await_throws: "fst (run h a) = Inl e \<Longrightarrow> fst (await tag h a wrap srv) = Inl e"
  by (simp add: await_eq)

lemma tool_handler_throws:
  "\<not> nullish ps \<Longrightarrow> Map_get (toolHandlers srv) (property ps ''name'') = Some h \<Longrightarrow>
   fst (run h (if truthy (property ps ''arguments'') then property ps ''arguments'' else JObj [])) = Inl e \<Longrightarrow>
     fst (handleToolCall rt srv ps) = Inl e"
  by (simp add: handleToolCall_def await_eq Let_def)

lemma prompt_handler_throws:
  "\<not> nullish ps \<Longrightarrow> Map_get (prompts srv) (property ps ''name'') = Some prompt \<Longrightarrow>
   Map_get (promptHandlers srv) (property ps ''name'') = Some h \<Longrightarrow>
   missing_argument rt (property ps ''arguments'')
     (case arguments prompt of None \<Rightarrow> [] | Some as \<Rightarrow> as) = None \<Longrightarrow>
   fst (run h (if truthy (property ps ''arguments'') then property ps ''arguments'' else JObj [])) = Inl e \<Longrightarrow>
     fst (handlePromptGet rt srv ps) = Inl e"
  by (simp add: handlePromptGet_def await_eq Let_def)

lemma resource_handler_throws:
  "\<not> nullish ps \<Longrightarrow> truthy (property ps ''uri'') \<Longrightarrow>
   resolve rt srv (property ps ''uri'') = Inr (Some (k, h)) \<Longrightarrow> fst (run h (property ps ''uri'')) = Inl e \<Longrightarrow>
     fst (handleResourceRead rt srv ps) = Inl e"
  by (simp add: handleResourceRead_def await_eq Let_def)

lemma sampling_handler_throws:
  "samplingHandler srv = Some h \<Longrightarrow> \<not> nullish ps \<Longrightarrow> truthy (property ps ''messages'') \<Longrightarrow>
   isArray (property ps ''messages'') \<Longrightarrow> \<not> is_empty_array (property ps ''messages'') \<Longrightarrow>
   fst (run h ps) = Inl e \<Longrightarrow> fst (handleSampling rt srv ps) = Inl e"
  by (simp add: handleSampling_def await_eq Let_def)

lemma error_envelope_shape:
  "error_envelope e =
     \<lparr>status = 500,
      content = Some (ErrorResponse JNull (- 32603)
                        (case e of Error m \<Rightarrow> m | NonError v \<Rightarrow> ''Internal error''))\<rparr>"
  by (simp add: error_envelope_def)

lemma fails_unknown_method:
  "decode rt body = Inr rq \<Longrightarrow> request_method rq \<notin> set method_table \<Longrightarrow>
     fst (handleJsonRpcRequest rt srv body) = error_envelope (Error (''Unknown method: '' @ request_method rq))"
  by (erule handle_process_error) (simp add: unknown_method)

lemma fails_unknown_tool:
  "decode rt body = Inr rq \<Longrightarrow> request_method rq = ''tools/call'' \<Longrightarrow> \<not> nullish (params rq) \<Longrightarrow>
   Map_get (toolHandlers srv) (property (params rq) ''name'') = None \<Longrightarrow>
     fst (handleJsonRpcRequest rt srv body) =
       error_envelope (Error (literal_message rt ''Unknown tool: '' (property (params rq) ''name'')))"
  by (erule handle_process_error) (simp add: process_tools_call unknown_tool)

lemma fails_unknown_prompt:
  "decode rt body = Inr rq \<Longrightarrow> request_method rq = ''prompts/get'' \<Longrightarrow> \<not> nullish (params rq) \<Longrightarrow>
   Map_get (prompts srv) (property (params rq) ''name'') = None \<Longrightarrow>
     fst (handleJsonRpcRequest rt srv body) =
       error_envelope (Error (literal_message rt ''Unknown prompt: '' (property (params rq) ''name'')))"
  by (erule handle_process_error) (simp add: process_prompts_get unknown_prompt)

lemma fails_missing_uri:
  "decode rt body = Inr rq \<Longrightarrow> request_method rq = ''resources/read'' \<Longrightarrow> \<not> nullish (params rq) \<Longrightarrow>
   \<not> truthy (property (params rq) ''uri'') \<Longrightarrow>
     fst (handleJsonRpcRequest rt srv body) = error_envelope (Error ''URI is required for resource read'')"
  by (erule handle_process_error) (simp add: process_resources_read missing_uri)

lemma fails_missing_argument:
  "decode rt body = Inr rq \<Longrightarrow> request_method rq = ''prompts/get'' \<Longrightarrow> \<not> nullish (params rq) \<Longrightarrow>
   Map_get (prompts srv) (property (params rq) ''name'') = Some prompt \<Longrightarrow>
   Map_get (promptHandlers srv) (property (params rq) ''name'') = Some h \<Longrightarrow>
   arguments prompt = Some as \<Longrightarrow>
   missing_argument rt (property (params rq) ''arguments'') as = Some a \<Longrightarrow>
     fst (handleJsonRpcRequest rt srv body) =
       error_envelope (Error (''Required argument missing: '' @ arg_name a))"
  by (erule handle_process_error)
     (simp add: process_prompts_get prompt_missing_argument)

lemma fails_sampling_not_configured:
  "decode rt body = Inr rq \<Longrightarrow> request_method rq = ''sampling/createMessage'' \<Longrightarrow>
   samplingHandler srv = None \<Longrightarrow>
     fst (handleJsonRpcRequest rt srv body) = error_envelope (Error ''Sampling handler not configured'')"
  by (erule handle_process_error) (simp add: process_sampling sampling_not_configured)

lemma fails_tool_handler:
  "decode rt body = Inr rq \<Longrightarrow> request_method rq = ''tools/call'' \<Longrightarrow> \<not> nullish (params rq) \<Longrightarrow>
   Map_get (toolHandlers srv) (property (params rq) ''name'') = Some h \<Longrightarrow>
   fst (run h (if truthy (property (params rq) ''arguments'') then property (params rq) ''arguments''
      else JObj [])) = Inl e \<Longrightarrow>
     fst (handleJsonRpcRequest rt srv body) = error_envelope e"
  by (erule handle_process_error) (simp add: process_tools_call tool_handler_throws)

lemma fails_prompt_handler:
  "decode rt body = Inr rq \<Longrightarrow> request_method rq = ''prompts/get'' \<Longrightarrow> \<not> nullish (params rq) \<Longrightarrow>
   Map_get (prompts srv) (property (params rq) ''name'') = Some prompt \<Longrightarrow>
   Map_get (promptHandlers srv) (property (params rq) ''name'') = Some h \<Longrightarrow>
   missing_argument rt (property (params rq) ''arguments'')
     (case arguments prompt of None \<Rightarrow> [] | Some as \<Rightarrow> as) = None \<Longrightarrow>
   fst (run h (if truthy (property (params rq) ''arguments'') then property (params rq) ''arguments''
      else JObj [])) = Inl e \<Longrightarrow>
     fst (handleJsonRpcRequest rt srv body) = error_envelope e"
  by (erule handle_process_error) (simp add: process_prompts_get prompt_handler_throws)

lemma fails_resource_handler:
  "decode rt body = Inr rq \<Longrightarrow> request_method rq = ''resources/read'' \<Longrightarrow> \<not> nullish (params rq) \<Longrightarrow>
   truthy (property (params rq) ''uri'') \<Longrightarrow>
   resolve rt srv (property (params rq) ''uri'') = Inr (Some (k, h)) \<Longrightarrow>
   fst (run h (property (params rq) ''uri'')) = Inl e \<Longrightarrow>
     fst (handleJsonRpcRequest rt srv body) = error_envelope e"
  by (erule handle_process_error)
     (simp add: process_resources_read resource_handler_throws)

lemma fails_sampling_handler:
  "decode rt body = Inr rq \<Longrightarrow> request_method rq = ''sampling/createMessage'' \<Longrightarrow>
   samplingHandler srv = Some h \<Longrightarrow> \<not> nullish (params rq) \<Longrightarrow>
   truthy (property (params rq) ''messages'') \<Longrightarrow> isArray (property (params rq) ''messages'') \<Longrightarrow>
   \<not> is_empty_array (property (params rq) ''messages'') \<Longrightarrow> fst (run h (params rq)) = Inl e \<Longrightarrow>
     fst (handleJsonRpcRequest rt srv body) = error_envelope e"
  by (erule handle_process_error) (simp add: process_sampling sampling_handler_throws)

text \<open>
  C3. A message that fails is answered by the error envelope: status 500, id null, the
  code -32603 and the message of the thrown error, or \<open>Internal error\<close> when the thrown
  value is not an error object. This holds when decoding fails and when routing throws,
  whatever is thrown; in particular for an unknown method, an unknown action or prompt, a
  missing URI, a missing required argument, an unconfigured sampling handler and a value
  thrown by a tool, resource, prompt or sampling handler. The message for an unknown
  action or prompt ends with its name; when the name is an object that cannot be converted
  to a string, what is thrown is the \<open>TypeError\<close> of the conversion. Every answer is the
  no-content response, a result envelope or this error envelope.
\<close>

theorem failures_become_the_error_envelope:
  "error_envelope e =
     \<lparr>status = 500,
      content = Some (ErrorResponse JNull (- 32603)
                        (case e of Error m \<Rightarrow> m | NonError v \<Rightarrow> ''Internal error''))\<rparr> \<and>
   (decode rt body = Inl e \<longrightarrow> fst (handleJsonRpcRequest rt srv body) = error_envelope e) \<and>
   (decode rt body = Inr rq \<and> fst (processJsonRpcMethod rt srv rq) = Inl e \<longrightarrow>
      fst (handleJsonRpcRequest rt srv body) = error_envelope e) \<and>
   (fst (handleJsonRpcRequest rt srv body) = \<lparr>status = 204, content = None\<rparr> \<or>
    (\<exists>i r. fst (handleJsonRpcRequest rt srv body) = \<lparr>status = 200, content = Some (ResultResponse i r)\<rparr>) \<or>
    (\<exists>x. fst (handleJsonRpcRequest rt srv body) = error_envelope x)) \<and>
   (decode rt body = Inr rq \<and> request_method rq \<notin> set method_table \<longrightarrow>
      fst (handleJsonRpcRequest rt srv body) =
        error_envelope (Error (''Unknown method: '' @ request_method rq))) \<and>
   (decode rt body = Inr rq \<and> request_method rq = ''tools/call'' \<and> \<not> nullish (params rq) \<and>
    Map_get (toolHandlers srv) (property (params rq) ''name'') = None \<longrightarrow>
      fst (handleJsonRpcRequest rt srv body) =
        error_envelope (Error (literal_message rt ''Unknown tool: '' (property (params rq) ''name'')))) \<and>
   (decode rt body = Inr rq \<and> request_method rq = ''prompts/get'' \<and> \<not> nullish (params rq) \<and>
    Map_get (prompts srv) (property (params rq) ''name'') = None \<longrightarrow>
      fst (handleJsonRpcRequest rt srv body) =
        error_envelope (Error (literal_message rt ''Unknown prompt: '' (property (params rq) ''name'')))) \<and>
   (decode rt body = Inr rq \<and> request_method rq = ''resources/read'' \<and> \<not> nullish (params rq) \<and>
    \<not> truthy (property (params rq) ''uri'') \<longrightarrow>
      fst (handleJsonRpcRequest rt srv body) =
        error_envelope (Error ''URI is required for resource read'')) \<and>
   (decode rt body = Inr rq \<and> request_method rq = ''prompts/get'' \<and> \<not> nullish (params rq) \<and>
    Map_get (prompts srv) (property (params rq) ''name'') = Some prompt \<and>
    Map_get (promptHandlers srv) (property (params rq) ''name'') = Some h \<and>
    arguments prompt = Some as \<and>
    missing_argument rt (property (params rq) ''arguments'') as = Some a \<longrightarrow>
      fst (handleJsonRpcRequest rt srv body) =
        error_envelope (Error (''Required argument missing: '' @ arg_name a))) \<and>
   (decode rt body = Inr rq \<and> request_method rq = ''sampling/createMessage'' \<and>
    samplingHandler srv = None \<longrightarrow>
      fst (handleJsonRpcRequest rt srv body) =
        error_envelope (Error ''Sampling handler not configured'')) \<and>
   (decode rt body = Inr rq \<and> request_method rq = ''tools/call'' \<and> \<not> nullish (params rq) \<and>
    Map_get (toolHandlers srv) (property (params rq) ''name'') = Some h \<and>
    fst (run h (if truthy (property (params rq) ''arguments'') then property (params rq) ''arguments''
       else JObj [])) = Inl e \<longrightarrow>
      fst (handleJsonRpcRequest rt srv body) = error_envelope e) \<and>
   (decode rt body = Inr rq \<and> request_method rq = ''prompts/get'' \<and> \<not> nullish (params rq) \<and>
    Map_get (prompts srv) (property (params rq) ''name'') = Some prompt \<and>
    Map_get (promptHandlers srv) (property (params rq) ''name'') = Some h \<and>
    missing_argument rt (property (params rq) ''arguments'')
      (case arguments prompt of None \<Rightarrow> [] | Some as \<Rightarrow> as) = None \<and>
    fst (run h (if truthy (property (params rq) ''arguments'') then property (params rq) ''arguments''
       else JObj [])) = Inl e \<longrightarrow>
      fst (handleJsonRpcRequest rt srv body) = error_envelope e) \<and>
   (decode rt body = Inr rq \<and> request_method rq = ''resources/read'' \<and> \<not> nullish (params rq) \<and>
    truthy (property (params rq) ''uri'') \<and>
    resolve rt srv (property (params rq) ''uri'') = Inr (Some (k, h)) \<and>
    fst (run h (property (params rq) ''uri'')) = Inl e \<longrightarrow>
      fst (handleJsonRpcRequest rt srv body) = error_envelope e) \<and>
   (decode rt body = Inr rq \<and> request_method rq = ''sampling/createMessage'' \<and>
    samplingHandler srv = Some h \<and> \<not> nullish (params rq) \<and>
    truthy (property (params rq) ''messages'') \<and> isArray (property (params rq) ''messages'') \<and>
    \<not> is_empty_array (property (params rq) ''messages'') \<and> fst (run h (params rq)) = Inl e \<longrightarrow>
      fst (handleJsonRpcRequest rt srv body) = error_envelope e)"
proof (intro conjI impI)
  show "error_envelope e =
     \<lparr>status = 500,
      content = Some (ErrorResponse JNull (- 32603)
                        (case e of Error m \<Rightarrow> m | NonError v \<Rightarrow> ''Internal error''))\<rparr>"
    by (rule error_envelope_shape)
  show "fst (handleJsonRpcRequest rt srv body) = \<lparr>status = 204, content = None\<rparr> \<or>
    (\<exists>i r. fst (handleJsonRpcRequest rt srv body) = \<lparr>status = 200, content = Some (ResultResponse i r)\<rparr>) \<or>
    (\<exists>x. fst (handleJsonRpcRequest rt srv body) = error_envelope x)"
    by (rule handle_kinds)
next
  assume "decode rt body = Inl e"
  then show "fst (handleJsonRpcRequest rt srv body) = error_envelope e"
    by (simp add: handle_decode_error)
next
  assume "decode rt body = Inr rq \<and> fst (processJsonRpcMethod rt srv rq) = Inl e"
  then show "fst (handleJsonRpcRequest rt srv body) = error_envelope e"
    by (simp add: handle_process_error)
next
  assume "decode rt body = Inr rq \<and> request_method rq \<notin> set method_table"
  then show "fst (handleJsonRpcRequest rt srv body) =
        error_envelope (Error (''Unknown method: '' @ request_method rq))"
    by (simp add: fails_unknown_method)
next
  assume "decode rt body = Inr rq \<and> request_method rq = ''tools/call'' \<and> \<not> nullish (params rq) \<and>
    Map_get (toolHandlers srv) (property (params rq) ''name'') = None"
  then show "fst (handleJsonRpcRequest rt srv body) =
        error_envelope (Error (literal_message rt ''Unknown tool: '' (property (params rq) ''name'')))"
    by (simp add: fails_unknown_tool)
next
  assume "decode rt body = Inr rq \<and> request_method rq = ''prompts/get'' \<and> \<not> nullish (params rq) \<and>
    Map_get (prompts srv) (property (params rq) ''name'') = None"
  then show "fst (handleJsonRpcRequest rt srv body) =
        error_envelope (Error (literal_message rt ''Unknown prompt: '' (property (params rq) ''name'')))"
    by (simp add: fails_unknown_prompt)
next
  assume "decode rt body = Inr rq \<and> request_method rq = ''resources/read'' \<and> \<not> nullish (params rq) \<and>
    \<not> truthy (property (params rq) ''uri'')"
  then show "fst (handleJsonRpcRequest rt srv body) =
        error_envelope (Error ''URI is required for resource read'')"
    by (simp add: fails_missing_uri)
next
  assume "decode rt body = Inr rq \<and> request_method rq = ''prompts/get'' \<and> \<not> nullish (params rq) \<and>
    Map_get (prompts srv) (property (params rq) ''name'') = Some prompt \<and>
    Map_get (promptHandlers srv) (property (params rq) ''name'') = Some h \<and>
    arguments prompt = Some as \<and>
    missing_argument rt (property (params rq) ''arguments'') as = Some a"
  then show "fst (handleJsonRpcRequest rt srv body) =
        error_envelope (Error (''Required argument missing: '' @ arg_name a))"
    using fails_missing_argument [of rt body rq srv prompt h as a] by blast
next
  assume "decode rt body = Inr rq \<and> request_method rq = ''sampling/createMessage'' \<and>
    samplingHandler srv = None"
  then show "fst (handleJsonRpcRequest rt srv body) =
        error_envelope (Error ''Sampling handler not configured'')"
    by (simp add: fails_sampling_not_configured)
next
  assume "decode rt body = Inr rq \<and> request_method rq = ''tools/call'' \<and> \<not> nullish (params rq) \<and>
    Map_get (toolHandlers srv) (property (params rq) ''name'') = Some h \<and>
    fst (run h (if truthy (property (params rq) ''arguments'') then property (params rq) ''arguments''
       else JObj [])) = Inl e"
  then show "fst (handleJsonRpcRequest rt srv body) = error_envelope e"
    using fails_tool_handler [of rt body rq srv h e] by blast
next
  assume "decode rt body = Inr rq \<and> request_method rq = ''prompts/get'' \<and> \<not> nullish (params rq) \<and>
    Map_get (prompts srv) (property (params rq) ''name'') = Some prompt \<and>
    Map_get (promptHandlers srv) (property (params rq) ''name'') = Some h \<and>
    missing_argument rt (property (params rq) ''arguments'')
      (case arguments prompt of None \<Rightarrow> [] | Some as \<Rightarrow> as) = None \<and>
    fst (run h (if truthy (property (params rq) ''arguments'') then property (params rq) ''arguments''
       else JObj [])) = Inl e"
  then show "fst (handleJsonRpcRequest rt srv body) = error_envelope e"
    using fails_prompt_handler [of rt body rq srv prompt h e] by blast
next
  assume "decode rt body = Inr rq \<and> request_method rq = ''resources/read'' \<and> \<not> nullish (params rq) \<and>
    truthy (property (params rq) ''uri'') \<and>
    resolve rt srv (property (params rq) ''uri'') = Inr (Some (k, h)) \<and>
    fst (run h (property (params rq) ''uri'')) = Inl e"
  then show "fst (handleJsonRpcRequest rt srv body) = error_envelope e"
    using fails_resource_handler [of rt body rq srv k h e] by blast
next
  assume "decode rt body = Inr rq \<and> request_method rq = ''sampling/createMessage'' \<and>
    samplingHandler srv = Some h \<and> \<not> nullish (params rq) \<and>
    truthy (property (params rq) ''messages'') \<and> isArray (property (params rq) ''messages'') \<and>
    \<not> is_empty_array (property (params rq) ''messages'') \<and> fst (run h (params rq)) = Inl e"
  then show "fst (handleJsonRpcRequest rt srv body) = error_envelope e"
    using fails_sampling_handler [of rt body rq srv h e] by blast
qed


theorem failures_become_the_error_envelope_witness:
  "fst (handleJsonRpcRequest example_runtime example_server ''invalid json'')
     = \<lparr>status = 500, content = Some (ErrorResponse JNull (- 32603) ''Unexpected token'')\<rparr> \<and>
   fst (handleJsonRpcRequest example_runtime example_server text_unknown_method)
     = \<lparr>status = 500,
        content = Some (ErrorResponse JNull (- 32603) ''Unknown method: unknown/method'')\<rparr> \<and>
   fst (handleJsonRpcRequest example_runtime example_server text_unknown_tool)
     = \<lparr>status = 500, content = Some (ErrorResponse JNull (- 32603) ''Unknown tool: nope'')\<rparr> \<and>
   fst (handleJsonRpcRequest example_runtime example_server text_read_no_uri)
     = \<lparr>status = 500,
        content = Some (ErrorResponse JNull (- 32603) ''URI is required for resource read'')\<rparr> \<and>
   fst (handleJsonRpcRequest example_runtime example_server text_sampling)
     = \<lparr>status = 500,
        content = Some (ErrorResponse JNull (- 32603) ''Sampling handler not configured'')\<rparr> \<and>
   fst (handleJsonRpcRequest example_runtime
          (addTool (echo_tool ''Echo'') failing_handler example_server) text_call_echo)
     = \<lparr>status = 500, content = Some (ErrorResponse JNull (- 32603) ''boom'')\<rparr> \<and>
   fst (handleJsonRpcRequest example_runtime
          (addTool (echo_tool ''Echo'') throwing_handler example_server) text_call_echo)
     = \<lparr>status = 500, content = Some (ErrorResponse JNull (- 32603) ''Internal error'')\<rparr> \<and>
   fst (handleJsonRpcRequest example_runtime example_server text_object_name)
     = \<lparr>status = 500,
        content = Some (ErrorResponse JNull (- 32603) ''Cannot convert object to primitive value'')\<rparr>"
proof -
  let ?rt = example_runtime and ?s = example_server
  have 1: "fst (handleJsonRpcRequest ?rt ?s ''invalid json'')
     = \<lparr>status = 500, content = Some (ErrorResponse JNull (- 32603) ''Unexpected token'')\<rparr>"
    using failures_become_the_error_envelope
      [where e = "Error ''Unexpected token''" and rt = ?rt and body = "''invalid json''" and srv = ?s]
      example_decode_invalid
    by (simp add: error_envelope_def)
  have 2: "fst (handleJsonRpcRequest ?rt ?s text_unknown_method)
     = \<lparr>status = 500,
        content = Some (ErrorResponse JNull (- 32603) ''Unknown method: unknown/method'')\<rparr>"
    using failures_become_the_error_envelope
      [where rt = ?rt and body = text_unknown_method and srv = ?s
         and rq = "\<lparr>request_id = JNum (Finite 1), request_method = ''unknown/method'', params = JUndefined\<rparr>"]
      example_decode(1)
    by (simp add: error_envelope_def method_table_def)
  have 3: "fst (handleJsonRpcRequest ?rt ?s text_unknown_tool)
     = \<lparr>status = 500, content = Some (ErrorResponse JNull (- 32603) ''Unknown tool: nope'')\<rparr>"
    using failures_become_the_error_envelope
      [where rt = ?rt and body = text_unknown_tool and srv = ?s
         and rq = "\<lparr>request_id = JNum (Finite 1), request_method = ''tools/call'',
                     params = JObj [(''name'', JStr ''nope'')]\<rparr>"]
      example_decode_unknown_tool
    by (simp add: error_envelope_def nullish_def example_server_def new_MCPServer_def
        literal_message_def)
  have 4: "fst (handleJsonRpcRequest ?rt ?s text_read_no_uri)
     = \<lparr>status = 500,
        content = Some (ErrorResponse JNull (- 32603) ''URI is required for resource read'')\<rparr>"
    using failures_become_the_error_envelope
      [where rt = ?rt and body = text_read_no_uri and srv = ?s
         and rq = "\<lparr>request_id = JNum (Finite 1), request_method = ''resources/read'', params = JObj []\<rparr>"]
      example_decode(2)
    by (simp add: error_envelope_def nullish_def)
  have 5: "fst (handleJsonRpcRequest ?rt ?s text_sampling)
     = \<lparr>status = 500,
        content = Some (ErrorResponse JNull (- 32603) ''Sampling handler not configured'')\<rparr>"
    using failures_become_the_error_envelope
      [where rt = ?rt and body = text_sampling and srv = ?s
         and rq = "\<lparr>request_id = JNum (Finite 1), request_method = ''sampling/createMessage'',
                     params = JUndefined\<rparr>"]
      example_decode(3)
    by (simp add: error_envelope_def example_server_def new_MCPServer_def)
  let ?rq = "\<lparr>request_id = JNum (Finite 1), request_method = ''tools/call'',
          params = JObj [(''name'', JStr ''echo''),
                         (''arguments'', JObj [(''message'', JStr ''hi'')])]\<rparr>"
  have 6: "fst (handleJsonRpcRequest ?rt (addTool (echo_tool ''Echo'') failing_handler ?s) text_call_echo)
     = \<lparr>status = 500, content = Some (ErrorResponse JNull (- 32603) ''boom'')\<rparr>"
    using failures_become_the_error_envelope
      [where rt = ?rt and body = text_call_echo
         and srv = "addTool (echo_tool ''Echo'') failing_handler ?s"
         and rq = ?rq and h = failing_handler and e = "Error ''boom''"]
      example_decode(5)
    by (simp add: error_envelope_def nullish_def addTool_def echo_tool_def example_server_def
        new_MCPServer_def run_examples)
  have 7: "fst (handleJsonRpcRequest ?rt (addTool (echo_tool ''Echo'') throwing_handler ?s) text_call_echo)
     = \<lparr>status = 500, content = Some (ErrorResponse JNull (- 32603) ''Internal error'')\<rparr>"
    using failures_become_the_error_envelope
      [where rt = ?rt and body = text_call_echo
         and srv = "addTool (echo_tool ''Echo'') throwing_handler ?s"
         and rq = ?rq and h = throwing_handler and e = "NonError (JStr ''boom'')"]
      example_decode(5)
    by (simp add: error_envelope_def nullish_def addTool_def echo_tool_def example_server_def
        new_MCPServer_def run_examples)
  have 8: "fst (handleJsonRpcRequest ?rt ?s text_object_name)
     = \<lparr>status = 500,
        content = Some (ErrorResponse JNull (- 32603) ''Cannot convert object to primitive value'')\<rparr>"
    using failures_become_the_error_envelope
      [where rt = ?rt and body = text_object_name and srv = ?s
         and rq = "\<lparr>request_id = JNum (Finite 1), request_method = ''tools/call'',
                     params = JObj [(''name'', JObj [(''toString'', JNum (Finite 1))])]\<rparr>"]
      example_decode(8)
    by (simp add: error_envelope_def nullish_def example_server_def new_MCPServer_def
        literal_message_def example_runtime_def)
  from 1 2 3 4 5 6 7 8 show ?thesis by blast
qed

section \<open>The envelope\<close>

lemma id_schema_shape: "identifier_shape (Some i) = id_schema i"
  by (induction i rule: id_schema.induct) simp_all

lemma schema_accepts_shape:
  "(JsonRpcRequestSchema_parse v \<noteq> None) = envelope_shape v"
proof (cases v)
  case (JObj kvs)
  show ?thesis
  proof (cases "map_of kvs ''id''")
    case None
    with JObj show ?thesis
      by (cases "map_of kvs ''method''"; cases "the (map_of kvs ''method'')")
         (auto split: option.splits jsval.splits)
  next
    case (Some i)
    with JObj show ?thesis
      by (cases "map_of kvs ''method''"; cases "the (map_of kvs ''method'')")
         (auto simp: id_schema_shape split: option.splits jsval.splits)
  qed
qed simp_all

lemma decode_fails_iff:
  "isl (decode rt body) =
     (trim body = [] \<or> isl (JSON_parse rt body) \<or>
      (\<exists>v. JSON_parse rt body = Inr v \<and> JsonRpcRequestSchema_parse v = None))"
  by (auto simp: decode_def split: sum.splits option.splits)

lemma trim_blank: "(trim s = []) = (\<forall>c \<in> set s. white_space c)"
proof -
  have "(trim s = []) = (dropWhile white_space (rev (dropWhile white_space s)) = [])"
    by (simp add: trim_def)
  also have "\<dots> = (\<forall>c \<in> set (dropWhile white_space s). white_space c)"
    by simp
  also have "\<dots> = (\<forall>c \<in> set s. white_space c)"
  proof
    assume a: "\<forall>c \<in> set (dropWhile white_space s). white_space c"
    have "dropWhile white_space s = []"
    proof (rule ccontr)
      assume "dropWhile white_space s \<noteq> []"
      then have "\<not> white_space (hd (dropWhile white_space s))"
        by (rule hd_dropWhile)
      moreover have "hd (dropWhile white_space s) \<in> set (dropWhile white_space s)"
        using \<open>dropWhile white_space s \<noteq> []\<close> by simp
      ultimately show False using a by blast
    qed
    then show "\<forall>c \<in> set s. white_space c"
      by simp
  next
    assume "\<forall>c \<in> set s. white_space c"
    then show "\<forall>c \<in> set (dropWhile white_space s). white_space c"
      using set_dropWhileD by metis
  qed
  finally show ?thesis .
qed

lemma schema_rejects_shape: "(JsonRpcRequestSchema_parse v = None) = (\<not> envelope_shape v)"
  using schema_accepts_shape [of v] by (cases "JsonRpcRequestSchema_parse v") auto

text \<open>
  C4, as the code has it. Decoding fails exactly when the text is empty or consists of
  white space only, or \<open>JSON.parse\<close> rejects it, or the parsed value does not have the
  required shape: an object whose \<open>jsonrpc\<close> is the string 2.0, whose \<open>id\<close> is a string,
  a finite number, null or absent, and whose \<open>method\<close> is a string, which may be empty;
  \<open>params\<close> is not constrained. The three failures carry the messages \<open>Empty request
  body\<close>, of the \<open>SyntaxError\<close> and of the \<open>ZodError\<close>.
\<close>

theorem decode_fails_exactly_when_malformed:
  "isl (decode rt body) =
     ((\<forall>c \<in> set body. white_space c) \<or> isl (JSON_parse rt body) \<or>
      (\<exists>v. JSON_parse rt body = Inr v \<and> \<not> envelope_shape v)) \<and>
   ((\<forall>c \<in> set body. white_space c) \<longrightarrow> decode rt body = Inl (Error ''Empty request body'')) \<and>
   (\<not> (\<forall>c \<in> set body. white_space c) \<and> JSON_parse rt body = Inl m \<longrightarrow>
      decode rt body = Inl (Error m)) \<and>
   (\<not> (\<forall>c \<in> set body. white_space c) \<and> JSON_parse rt body = Inr v \<and> \<not> envelope_shape v \<longrightarrow>
      decode rt body = Inl (Error (ZodError_message rt v)))"
proof (intro conjI impI)
  have "isl (decode rt body) =
     (trim body = [] \<or> isl (JSON_parse rt body) \<or>
      (\<exists>v. JSON_parse rt body = Inr v \<and> JsonRpcRequestSchema_parse v = None))"
    by (rule decode_fails_iff)
  also have "\<dots> = ((\<forall>c \<in> set body. white_space c) \<or> isl (JSON_parse rt body) \<or>
      (\<exists>v. JSON_parse rt body = Inr v \<and> \<not> envelope_shape v))"
    by (simp add: trim_blank schema_rejects_shape)
  finally show "isl (decode rt body) =
     ((\<forall>c \<in> set body. white_space c) \<or> isl (JSON_parse rt body) \<or>
      (\<exists>v. JSON_parse rt body = Inr v \<and> \<not> envelope_shape v))" .
next
  assume "\<forall>c \<in> set body. white_space c"
  then have "trim body = []" by (simp add: trim_blank)
  then show "decode rt body = Inl (Error ''Empty request body'')"
    by (simp add: decode_def)
next
  assume a: "\<not> (\<forall>c \<in> set body. white_space c) \<and> JSON_parse rt body = Inl m"
  then have "trim body \<noteq> []" by (simp add: trim_blank)
  with a show "decode rt body = Inl (Error m)"
    by (simp add: decode_def)
next
  assume a: "\<not> (\<forall>c \<in> set body. white_space c) \<and> JSON_parse rt body = Inr v \<and> \<not> envelope_shape v"
  then have t: "trim body \<noteq> []" by (simp add: trim_blank)
  from a have "JsonRpcRequestSchema_parse v = None"
    by (simp add: schema_rejects_shape)
  with a t show "decode rt body = Inl (Error (ZodError_message rt v))"
    by (simp add: decode_def)
qed

theorem decode_fails_exactly_when_malformed_witness:
  "trim ''  '' = [] \<and>
   decode example_runtime ''  '' = Inl (Error ''Empty request body'') \<and>
   trim ''invalid json'' \<noteq> [] \<and>
   JSON_parse example_runtime ''invalid json'' = Inl ''Unexpected token'' \<and>
   decode example_runtime ''invalid json'' = Inl (Error ''Unexpected token'') \<and>
   trim text_wrong_version \<noteq> [] \<and>
   envelope_shape (JObj [(''jsonrpc'', JStr ''1.0''), (''id'', JNum (Finite 1)),
                         (''method'', JStr ''tools/list'')]) = False \<and>
   decode example_runtime text_wrong_version = Inl (Error ''Invalid input'') \<and>
   trim text_overflow_id \<noteq> [] \<and>
   envelope_shape (JObj [(''jsonrpc'', JStr ''2.0''), (''id'', JNum PosInfinity),
                         (''method'', JStr ''tools/list'')]) = False \<and>
   decode example_runtime text_overflow_id = Inl (Error ''Invalid input'') \<and>
   isl (decode example_runtime text_tools_list) = False \<and>
   isl (decode example_runtime text_empty_method) = False"
proof -
  let ?w = "JObj [(''jsonrpc'', JStr ''1.0''), (''id'', JNum (Finite 1)),
                  (''method'', JStr ''tools/list'')]"
  let ?o = "JObj [(''jsonrpc'', JStr ''2.0''), (''id'', JNum PosInfinity),
                  (''method'', JStr ''tools/list'')]"
  have b: "\<forall>c \<in> set ''  ''. white_space c"
    by (simp add: white_space_def)
  have 1: "decode example_runtime ''  '' = Inl (Error ''Empty request body'')"
    using decode_fails_exactly_when_malformed [of example_runtime "''  ''"] b by blast
  have n2: "\<not> (\<forall>c \<in> set ''invalid json''. white_space c)"
    by (simp add: white_space_def)
  have 2: "decode example_runtime ''invalid json'' = Inl (Error ''Unexpected token'')"
    using decode_fails_exactly_when_malformed
      [of example_runtime "''invalid json''" "''Unexpected token''"] n2 example_parse_more(6)
    by blast
  have n3: "\<not> (\<forall>c \<in> set text_wrong_version. white_space c)"
    using example_not_blank_more(6) by (simp add: trim_blank)
  have s3: "\<not> envelope_shape ?w"
    by simp
  have 3: "decode example_runtime text_wrong_version = Inl (Error ''Invalid input'')"
    using decode_fails_exactly_when_malformed [of example_runtime text_wrong_version _ ?w]
      n3 s3 example_parse_more(7)
    by (simp add: example_runtime_def)
  have n4: "\<not> (\<forall>c \<in> set text_overflow_id. white_space c)"
    using example_not_blank_more(7) by (simp add: trim_blank)
  have s4: "\<not> envelope_shape ?o"
    by simp
  have 4: "decode example_runtime text_overflow_id = Inl (Error ''Invalid input'')"
    using decode_fails_exactly_when_malformed [of example_runtime text_overflow_id _ ?o]
      n4 s4 example_parse_more(8)
    by (simp add: example_runtime_def)
  have 5: "\<not> isl (decode example_runtime text_tools_list)"
    by (simp add: example_decode(6))
  have 6: "\<not> isl (decode example_runtime text_empty_method)"
    by (simp add: example_decode(7))
  have t1: "trim ''  '' = []" unfolding trim_blank by (rule b)
  have t2: "trim ''invalid json'' \<noteq> []" unfolding trim_blank by (rule n2)
  from t1 1 t2 example_parse_more(6) 2 example_not_blank_more(6) s3 3 example_not_blank_more(7)
    s4 4 5 6
  show ?thesis by simp
qed

theorem decode_differs_from_the_stated_shape_counterexample:
  "trim text_empty_method \<noteq> [] \<and>
   JSON_parse example_runtime text_empty_method =
     Inr (JObj [(''jsonrpc'', JStr ''2.0''), (''method'', JStr [])]) \<and>
   stated_envelope_shape (JObj [(''jsonrpc'', JStr ''2.0''), (''method'', JStr [])]) = False \<and>
   decode example_runtime text_empty_method =
     Inr \<lparr>request_id = JUndefined, request_method = [], params = JUndefined\<rparr> \<and>
   trim text_overflow_id \<noteq> [] \<and>
   JSON_parse example_runtime text_overflow_id =
     Inr (JObj [(''jsonrpc'', JStr ''2.0''), (''id'', JNum PosInfinity),
                (''method'', JStr ''tools/list'')]) \<and>
   stated_envelope_shape (JObj [(''jsonrpc'', JStr ''2.0''), (''id'', JNum PosInfinity),
                                (''method'', JStr ''tools/list'')]) = True \<and>
   decode example_runtime text_overflow_id = Inl (Error ''Invalid input'')"
proof -
  have 1: "stated_envelope_shape (JObj [(''jsonrpc'', JStr ''2.0''), (''method'', JStr [])]) = False"
    by simp
  have 2: "stated_envelope_shape (JObj [(''jsonrpc'', JStr ''2.0''), (''id'', JNum PosInfinity),
                                (''method'', JStr ''tools/list'')]) = True"
    by simp
  have 3: "decode example_runtime text_overflow_id = Inl (Error ''Invalid input'')"
    using example_not_blank_more(7)
    by (simp add: decode_def example_parse_more(8)) (simp add: example_runtime_def)
  from 1 2 3 show ?thesis
    using example_not_blank(1) example_parse(1) example_decode(7) example_not_blank_more(7)
      example_parse_more(8) by blast
qed

section \<open>Requests and notifications\<close>

lemma process_ignores_id:
  "processJsonRpcMethod rt srv (rq\<lparr>request_id := i\<rparr>) = processJsonRpcMethod rt srv rq"
  by (simp add: processJsonRpcMethod_def)

lemma await_calls: "snd (snd (await tag h a wrap srv)) = [tag h a]"
  by (simp add: await_eq)

lemma map_sum_Value: "(map_sum id Value x = Inr (Value v)) = (x = Inr v)"
  by (cases x) auto

lemma tool_no_call:
  "snd (snd (handleToolCall rt srv ps)) = [] \<longrightarrow> isl (fst (handleToolCall rt srv ps))"
  by (simp add: handleToolCall_def throw_def await_eq Let_def split: option.split)

lemma prompt_no_call:
  "snd (snd (handlePromptGet rt srv ps)) = [] \<longrightarrow> isl (fst (handlePromptGet rt srv ps))"
  by (simp add: handlePromptGet_def throw_def await_eq Let_def split: option.split)

lemma sampling_no_call:
  "snd (snd (handleSampling rt srv ps)) = [] \<longrightarrow> isl (fst (handleSampling rt srv ps))"
  by (simp add: handleSampling_def throw_def await_eq Let_def split: option.split)

lemma tool_result_calls:
  "fst (handleToolCall rt srv ps) = Inr r \<Longrightarrow> snd (snd (handleToolCall rt srv ps)) \<noteq> []"
  using tool_no_call [of rt srv ps] by auto

lemma prompt_result_calls:
  "fst (handlePromptGet rt srv ps) = Inr r \<Longrightarrow> snd (snd (handlePromptGet rt srv ps)) \<noteq> []"
  using prompt_no_call [of rt srv ps] by auto

lemma sampling_result_calls:
  "fst (handleSampling rt srv ps) = Inr r \<Longrightarrow> snd (snd (handleSampling rt srv ps)) \<noteq> []"
  using sampling_no_call [of rt srv ps] by auto

lemma map_sum_contents:
  "map_sum id (\<lambda>c. Value (JObj [(''contents'', JArr [c])])) x \<noteq> Inr (Value JNull)"
  by (cases x) auto

lemma read_result_not_null:
  "fst (handleResourceRead rt srv ps) \<noteq> Inr (Value JNull)"
  by (simp add: handleResourceRead_def throw_def await_eq Let_def map_sum_contents
      split: option.split sum.split prod.split)

lemma tool_result_settled:
  "fst (handleToolCall rt srv ps) = Inr (Value v) \<Longrightarrow>
     \<exists>c. snd (snd (handleToolCall rt srv ps)) = [c] \<and> settled c = Inr v"
  by (auto simp: handleToolCall_def throw_def await_eq Let_def map_sum_Value
      split: option.splits if_splits)

lemma prompt_result_settled:
  "fst (handlePromptGet rt srv ps) = Inr (Value v) \<Longrightarrow>
     \<exists>c. snd (snd (handlePromptGet rt srv ps)) = [c] \<and> settled c = Inr v"
  by (auto simp: handlePromptGet_def throw_def await_eq Let_def map_sum_Value
      split: option.splits if_splits)

lemma sampling_result_settled:
  "fst (handleSampling rt srv ps) = Inr (Value v) \<Longrightarrow>
     \<exists>c. snd (snd (handleSampling rt srv ps)) = [c] \<and> settled c = Inr v"
  by (auto simp: handleSampling_def throw_def await_eq Let_def map_sum_Value
      split: option.splits if_splits)

lemma null_result_settled:
  assumes "fst (processJsonRpcMethod rt srv rq) = Inr (Value JNull)"
    and "request_method rq \<noteq> ''notifications/initialized''"
  shows "\<exists>c. snd (snd (processJsonRpcMethod rt srv rq)) = [c] \<and> settled c = Inr JNull"
proof -
  consider (tool) "request_method rq = ''tools/call''"
    | (prompt) "request_method rq = ''prompts/get''"
    | (sampling) "request_method rq = ''sampling/createMessage''"
    | (read) "request_method rq = ''resources/read''"
    | (level) "request_method rq = ''logging/setLevel''"
    | (other) "request_method rq \<noteq> ''tools/call''" "request_method rq \<noteq> ''prompts/get''"
        "request_method rq \<noteq> ''sampling/createMessage''" "request_method rq \<noteq> ''resources/read''"
        "request_method rq \<noteq> ''logging/setLevel''"
    by blast
  then show ?thesis
  proof cases
    case tool
    with assms(1) show ?thesis
      by (simp add: process_tools_call tool_result_settled)
  next
    case prompt
    with assms(1) show ?thesis
      by (simp add: process_prompts_get prompt_result_settled)
  next
    case sampling
    with assms(1) show ?thesis
      by (simp add: process_sampling sampling_result_settled)
  next
    case read
    with assms(1) show ?thesis
      by (simp add: process_resources_read read_result_not_null)
  next
    case level
    with assms(1) show ?thesis
      by (simp add: process_set_level handleSetLogLevel_def throw_def Let_def split: if_splits)
  next
    case other
    with assms show ?thesis
      by (simp add: processJsonRpcMethod_def handleInitialize_def handleResourcesList_def
          handleResourceTemplatesList_def handlePromptsList_def throw_def split: if_splits)
  qed
qed

lemma null_result_calls:
  assumes "fst (processJsonRpcMethod rt srv rq) = Inr (Value JNull)"
    and "request_method rq \<noteq> ''notifications/initialized''"
  shows "snd (snd (processJsonRpcMethod rt srv rq)) \<noteq> []"
  using null_result_settled [OF assms] by auto

lemma respond_no_body:
  "(content (fst (respond rt srv rq)) = None) = (fst (processJsonRpcMethod rt srv rq) = Inr (Value JNull))"
proof (cases "fst (processJsonRpcMethod rt srv rq)")
  case (Inl e)
  then show ?thesis by (simp add: respond_error error_envelope_def)
next
  case (Inr r)
  then show ?thesis by (simp add: respond_result)
qed

text \<open>
  C2, as the code has it. Whether a response body is produced does not depend on the
  identifier: routing gives the same outcome for every id. No body is produced exactly
  when the routed result is null, which is so for \<open>notifications/initialized\<close> with or
  without an id, and for another method only when a registered handler was called and
  returned null. Every other envelope, with or without an id, gets a body: the result
  envelope with the id of the request, or null for an absent id, or the error envelope.
\<close>

theorem response_body_follows_the_result:
  "processJsonRpcMethod rt srv (rq\<lparr>request_id := i\<rparr>) = processJsonRpcMethod rt srv rq \<and>
   (content (fst (respond rt srv rq)) = None)
     = (fst (processJsonRpcMethod rt srv rq) = Inr (Value JNull)) \<and>
   (request_method rq = ''notifications/initialized'' \<longrightarrow>
      respond rt srv rq = (\<lparr>status = 204, content = None\<rparr>, srv, [])) \<and>
   (fst (processJsonRpcMethod rt srv rq) = Inr (Value JNull) \<and>
    request_method rq \<noteq> ''notifications/initialized'' \<longrightarrow>
      snd (snd (processJsonRpcMethod rt srv rq)) \<noteq> []) \<and>
   (fst (processJsonRpcMethod rt srv rq) = Inr (Value JNull) \<and>
    request_method rq \<noteq> ''notifications/initialized'' \<longrightarrow>
      (\<exists>c. snd (snd (processJsonRpcMethod rt srv rq)) = [c] \<and> settled c = Inr JNull)) \<and>
   (fst (processJsonRpcMethod rt srv rq) = Inr r \<and> r \<noteq> Value JNull \<longrightarrow>
      fst (respond rt srv rq) =
        \<lparr>status = 200, content = Some (ResultResponse (id_or_null (request_id rq)) r)\<rparr>) \<and>
   (fst (processJsonRpcMethod rt srv rq) = Inl e \<longrightarrow>
      fst (respond rt srv rq) = error_envelope e) \<and>
   id_or_null JUndefined = JNull"
proof (intro conjI impI)
  show "processJsonRpcMethod rt srv (rq\<lparr>request_id := i\<rparr>) = processJsonRpcMethod rt srv rq"
    by (rule process_ignores_id)
  show "(content (fst (respond rt srv rq)) = None)
     = (fst (processJsonRpcMethod rt srv rq) = Inr (Value JNull))"
    by (rule respond_no_body)
  show "id_or_null JUndefined = JNull"
    by (simp add: id_or_null_def nullish_def)
next
  assume "request_method rq = ''notifications/initialized''"
  then show "respond rt srv rq = (\<lparr>status = 204, content = None\<rparr>, srv, [])"
    by (simp add: respond_def process_initialized)
next
  assume "fst (processJsonRpcMethod rt srv rq) = Inr (Value JNull) \<and>
    request_method rq \<noteq> ''notifications/initialized''"
  then show "snd (snd (processJsonRpcMethod rt srv rq)) \<noteq> []"
    using null_result_calls by blast
next
  assume "fst (processJsonRpcMethod rt srv rq) = Inr (Value JNull) \<and>
    request_method rq \<noteq> ''notifications/initialized''"
  then show "\<exists>c. snd (snd (processJsonRpcMethod rt srv rq)) = [c] \<and> settled c = Inr JNull"
    using null_result_settled by blast
next
  assume "fst (processJsonRpcMethod rt srv rq) = Inr r \<and> r \<noteq> Value JNull"
  then show "fst (respond rt srv rq) =
        \<lparr>status = 200, content = Some (ResultResponse (id_or_null (request_id rq)) r)\<rparr>"
    by (simp add: respond_result)
next
  assume "fst (processJsonRpcMethod rt srv rq) = Inl e"
  then show "fst (respond rt srv rq) = error_envelope e"
    by (rule respond_error)
qed

lemma example_list_without_id:
  "processJsonRpcMethod example_runtime example_server
     \<lparr>request_id = JUndefined, request_method = ''tools/list'', params = JUndefined\<rparr>
   = (Inr (ToolsList []), example_server, [])"
  by (simp add: processJsonRpcMethod_def example_server_def new_MCPServer_def Map_values_def)

theorem response_body_follows_the_result_witness:
  "respond example_runtime example_server
     \<lparr>request_id = JNum (Finite 1), request_method = ''notifications/initialized'', params = JUndefined\<rparr>
     = (\<lparr>status = 204, content = None\<rparr>, example_server, []) \<and>
   fst (processJsonRpcMethod example_runtime example_server
     \<lparr>request_id = JUndefined, request_method = ''tools/list'', params = JUndefined\<rparr>)
     = Inr (ToolsList []) \<and>
   fst (respond example_runtime example_server
     \<lparr>request_id = JUndefined, request_method = ''tools/list'', params = JUndefined\<rparr>)
     = \<lparr>status = 200, content = Some (ResultResponse JNull (ToolsList []))\<rparr> \<and>
   fst (processJsonRpcMethod example_runtime example_server
     \<lparr>request_id = JNum (Finite 1), request_method = ''unknown/method'', params = JUndefined\<rparr>)
     = Inl (Error ''Unknown method: unknown/method'') \<and>
   fst (respond example_runtime example_server
     \<lparr>request_id = JNum (Finite 1), request_method = ''unknown/method'', params = JUndefined\<rparr>)
     = error_envelope (Error ''Unknown method: unknown/method'')"
proof -
  let ?n = "\<lparr>request_id = JNum (Finite 1), request_method = ''notifications/initialized'', params = JUndefined\<rparr>"
  let ?l = "\<lparr>request_id = JUndefined, request_method = ''tools/list'', params = JUndefined\<rparr>"
  let ?u = "\<lparr>request_id = JNum (Finite 1), request_method = ''unknown/method'', params = JUndefined\<rparr>"
  have 1: "respond example_runtime example_server ?n
     = (\<lparr>status = 204, content = None\<rparr>, example_server, [])"
    using response_body_follows_the_result
      [where rt = example_runtime and srv = example_server and rq = ?n]
    by simp
  have p2: "fst (processJsonRpcMethod example_runtime example_server ?l) = Inr (ToolsList [])"
    by (simp add: example_list_without_id)
  have 2: "fst (respond example_runtime example_server ?l)
     = \<lparr>status = 200, content = Some (ResultResponse JNull (ToolsList []))\<rparr>"
    using response_body_follows_the_result
      [where rt = example_runtime and srv = example_server and rq = ?l and r = "ToolsList []"] p2
    by (simp add: id_or_null_def nullish_def)
  have p3: "fst (processJsonRpcMethod example_runtime example_server ?u)
     = Inl (Error ''Unknown method: unknown/method'')"
    by (simp add: unknown_method method_table_def)
  have 3: "fst (respond example_runtime example_server ?u)
     = error_envelope (Error ''Unknown method: unknown/method'')"
    using response_body_follows_the_result
      [where rt = example_runtime and srv = example_server and rq = ?u
         and e = "Error ''Unknown method: unknown/method''"] p3
    by simp
  from 1 p2 2 p3 3 show ?thesis by simp
qed

theorem notification_by_absent_id_counterexample:
  "request_id \<lparr>request_id = JUndefined, request_method = ''tools/list'', params = JUndefined\<rparr>
     = JUndefined \<and>
   fst (respond example_runtime example_server
     \<lparr>request_id = JUndefined, request_method = ''tools/list'', params = JUndefined\<rparr>)
     = \<lparr>status = 200, content = Some (ResultResponse JNull (ToolsList []))\<rparr> \<and>
   request_id \<lparr>request_id = JNum (Finite 1), request_method = ''notifications/initialized'',
               params = JUndefined\<rparr> = JNum (Finite 1) \<and>
   fst (respond example_runtime example_server
     \<lparr>request_id = JNum (Finite 1), request_method = ''notifications/initialized'', params = JUndefined\<rparr>)
     = \<lparr>status = 204, content = None\<rparr>"
  by (simp add: respond_def example_list_without_id process_initialized id_or_null_def nullish_def)


section \<open>Prompts\<close>

lemma missing_argument_hd:
  "missing_argument rt args as =
     (if missing_required rt args as = [] then None else Some (hd (missing_required rt args as)))"
  by (induction as) (auto simp: missing_required_def)

lemma resolved_not_nullish: "Map_get m (property ps k) = Some x \<Longrightarrow> \<not> nullish ps"
  by (cases ps) (auto simp: nullish_def)

text \<open>
  C6. When \<open>prompts/get\<close> resolves to a registered prompt and some argument of its
  descriptor is flagged required and is not present in \<open>params.arguments\<close> by the truthy
  test, the call fails with \<open>Required argument missing:\<close> followed by the name of the
  first such argument of the descriptor, and no handler is called.
\<close>

theorem missing_required_argument_fails_before_the_handler:
  assumes "Map_get (prompts srv) (property ps ''name'') = Some prompt"
    and "Map_get (promptHandlers srv) (property ps ''name'') = Some h"
    and "arguments prompt = Some as"
    and "a \<in> set as"
    and "required a = Some True"
    and "\<not> optional_member_truthy rt (property ps ''arguments'') (arg_name a)"
  shows "missing_required rt (property ps ''arguments'') as \<noteq> [] \<and>
    hd (missing_required rt (property ps ''arguments'') as) \<in> set as \<and>
    required (hd (missing_required rt (property ps ''arguments'') as)) = Some True \<and>
    \<not> optional_member_truthy rt (property ps ''arguments'')
        (arg_name (hd (missing_required rt (property ps ''arguments'') as))) \<and>
    handlePromptGet rt srv ps =
      (Inl (Error (''Required argument missing: '' @
                   arg_name (hd (missing_required rt (property ps ''arguments'') as)))), srv, []) \<and>
    (request_method rq = ''prompts/get'' \<and> params rq = ps \<longrightarrow>
       processJsonRpcMethod rt srv rq =
         (Inl (Error (''Required argument missing: '' @
                      arg_name (hd (missing_required rt (property ps ''arguments'') as)))), srv, [])) \<and>
    (missing_required rt (property ps ''arguments'') as = [a] \<longrightarrow>
       handlePromptGet rt srv ps =
         (Inl (Error (''Required argument missing: '' @ arg_name a)), srv, []))"
proof -
  let ?m = "missing_required rt (property ps ''arguments'') as"
  have "a \<in> set ?m"
    using assms(4-6) by (simp add: missing_required_def)
  then have ne: "?m \<noteq> []" by auto
  then have "hd ?m \<in> set ?m" by simp
  then have hd: "hd ?m \<in> set as \<and> required (hd ?m) = Some True \<and>
      \<not> optional_member_truthy rt (property ps ''arguments'') (arg_name (hd ?m))"
    by (simp add: missing_required_def)
  have ma: "missing_argument rt (property ps ''arguments'') as = Some (hd ?m)"
    using ne by (simp add: missing_argument_hd)
  have nn: "\<not> nullish ps"
    using assms(1) by (rule resolved_not_nullish)
  have g: "handlePromptGet rt srv ps =
      (Inl (Error (''Required argument missing: '' @ arg_name (hd ?m))), srv, [])"
    using nn assms(1-3) ma by (rule prompt_missing_argument)
  have p: "request_method rq = ''prompts/get'' \<and> params rq = ps \<longrightarrow>
       processJsonRpcMethod rt srv rq =
         (Inl (Error (''Required argument missing: '' @ arg_name (hd ?m))), srv, [])"
    using g by (auto simp: process_prompts_get)
  from ne hd g p show ?thesis by simp
qed

lemma example_prompt_server:
  "Map_get (prompts (addPrompt (review_prompt ''Review'') text_content example_server))
     (JStr ''code-review'') = Some (review_prompt ''Review'')"
  "Map_get (promptHandlers (addPrompt (review_prompt ''Review'') text_content example_server))
     (JStr ''code-review'') = Some text_content"
  by (simp_all add: addPrompt_def review_prompt_def example_server_def new_MCPServer_def)

theorem missing_required_argument_fails_before_the_handler_witness:
  "Map_get (prompts (addPrompt (review_prompt ''Review'') text_content example_server))
     (property (params prompt_request) ''name'') = Some (review_prompt ''Review'') \<and>
   Map_get (promptHandlers (addPrompt (review_prompt ''Review'') text_content example_server))
     (property (params prompt_request) ''name'') = Some text_content \<and>
   required \<lparr>arg_name = ''code'', arg_description = None, required = Some True\<rparr> = Some True \<and>
   optional_member_truthy example_runtime (property (params prompt_request) ''arguments'') ''code''
     = False \<and>
   processJsonRpcMethod example_runtime
     (addPrompt (review_prompt ''Review'') text_content example_server) prompt_request =
     (Inl (Error ''Required argument missing: code''),
      addPrompt (review_prompt ''Review'') text_content example_server, [])"
proof -
  let ?srv = "addPrompt (review_prompt ''Review'') text_content example_server"
  let ?ps = "params prompt_request"
  let ?a = "\<lparr>arg_name = ''code'', arg_description = None, required = Some True\<rparr>"
  let ?as = "[\<lparr>arg_name = ''language'', arg_description = None, required = Some True\<rparr>, ?a]"
  have n: "property ?ps ''name'' = JStr ''code-review''"
    by (simp add: prompt_request_def)
  have 1: "Map_get (prompts ?srv) (property ?ps ''name'') = Some (review_prompt ''Review'')"
    using example_prompt_server by (simp add: n)
  have 2: "Map_get (promptHandlers ?srv) (property ?ps ''name'') = Some text_content"
    using example_prompt_server by (simp add: n)
  have 3: "arguments (review_prompt ''Review'') = Some ?as"
    by (simp add: review_prompt_def)
  have 4: "?a \<in> set ?as" by simp
  have 5: "required ?a = Some True" by simp
  have 6: "\<not> optional_member_truthy example_runtime (property ?ps ''arguments'') (arg_name ?a)"
    by (simp add: prompt_request_def example_runtime_def)
  have m: "missing_required example_runtime (property ?ps ''arguments'') ?as = [?a]"
    by (simp add: missing_required_def prompt_request_def example_runtime_def)
  have "processJsonRpcMethod example_runtime ?srv prompt_request =
     (Inl (Error (''Required argument missing: '' @
        arg_name (hd (missing_required example_runtime (property ?ps ''arguments'') ?as)))), ?srv, [])"
    using missing_required_argument_fails_before_the_handler
      [OF 1 2 3 4 5 6, where rq = prompt_request]
    by (simp add: prompt_request_def)
  then have 7: "processJsonRpcMethod example_runtime ?srv prompt_request =
     (Inl (Error ''Required argument missing: code''), ?srv, [])"
    by (simp add: m)
  from 1 2 5 6 7 show ?thesis by simp
qed

section \<open>Sampling\<close>

lemma messages_not_nullish: "property ps k = JArr xs \<Longrightarrow> \<not> nullish ps"
  by (cases ps) (auto simp: nullish_def)

text \<open>
  C7, as the code has it. Without a configured handler \<open>sampling/createMessage\<close> fails
  with \<open>Sampling handler not configured\<close> whatever the request is. With a handler and
  params that are neither absent nor null, it fails with \<open>Messages array is required and
  cannot be empty\<close> when \<open>messages\<close> is absent, is not an array or is the empty array.
  With a handler and a non-empty array of messages, the handler is called once with the
  params and its outcome is returned as it is.
\<close>

theorem sampling_checks_then_delegates:
  "(samplingHandler srv = None \<longrightarrow>
      handleSampling rt srv ps = (Inl (Error ''Sampling handler not configured''), srv, [])) \<and>
   (samplingHandler srv = Some h \<and> \<not> nullish ps \<and>
    (property ps ''messages'' = JUndefined \<or> \<not> isArray (property ps ''messages'') \<or>
     property ps ''messages'' = JArr []) \<longrightarrow>
      handleSampling rt srv ps =
        (Inl (Error ''Messages array is required and cannot be empty''), srv, [])) \<and>
   (samplingHandler srv = Some h \<and> property ps ''messages'' = JArr (m # ms) \<longrightarrow>
      handleSampling rt srv ps =
        (map_sum id Value (fst (run h ps)), perform (snd (run h ps)) srv, [SamplingHandler h ps])) \<and>
   (request_method rq = ''sampling/createMessage'' \<longrightarrow>
      processJsonRpcMethod rt srv rq = handleSampling rt srv (params rq))"
proof (intro conjI impI)
  assume "samplingHandler srv = None"
  then show "handleSampling rt srv ps = (Inl (Error ''Sampling handler not configured''), srv, [])"
    by (rule sampling_not_configured)
next
  assume a: "samplingHandler srv = Some h \<and> \<not> nullish ps \<and>
    (property ps ''messages'' = JUndefined \<or> \<not> isArray (property ps ''messages'') \<or>
     property ps ''messages'' = JArr [])"
  then have "\<not> truthy (property ps ''messages'') \<or> \<not> isArray (property ps ''messages'') \<or>
     is_empty_array (property ps ''messages'')"
    by auto
  with a show "handleSampling rt srv ps =
        (Inl (Error ''Messages array is required and cannot be empty''), srv, [])"
    by (simp add: handleSampling_def throw_def Let_def)
next
  assume a: "samplingHandler srv = Some h \<and> property ps ''messages'' = JArr (m # ms)"
  then have "\<not> nullish ps" using messages_not_nullish by blast
  with a show "handleSampling rt srv ps =
        (map_sum id Value (fst (run h ps)), perform (snd (run h ps)) srv, [SamplingHandler h ps])"
    by (simp add: handleSampling_def Let_def await_eq)
next
  assume "request_method rq = ''sampling/createMessage''"
  then show "processJsonRpcMethod rt srv rq = handleSampling rt srv (params rq)"
    by (rule process_sampling)
qed

theorem sampling_checks_then_delegates_witness:
  "samplingHandler example_server = None \<and>
   handleSampling example_runtime example_server sampling_params
     = (Inl (Error ''Sampling handler not configured''), example_server, []) \<and>
   samplingHandler sampling_server = Some text_content \<and>
   nullish (JObj [(''messages'', JArr [])]) = False \<and>
   handleSampling example_runtime sampling_server (JObj [(''messages'', JArr [])])
     = (Inl (Error ''Messages array is required and cannot be empty''), sampling_server, []) \<and>
   handleSampling example_runtime sampling_server (JObj [])
     = (Inl (Error ''Messages array is required and cannot be empty''), sampling_server, []) \<and>
   handleSampling example_runtime sampling_server (JObj [(''messages'', JStr ''hi'')])
     = (Inl (Error ''Messages array is required and cannot be empty''), sampling_server, []) \<and>
   handleSampling example_runtime sampling_server sampling_params
     = (Inr (Value (JObj [(''uri'', sampling_params), (''text'', JStr ''content'')])),
        sampling_server, [SamplingHandler text_content sampling_params])"
proof -
  have n: "samplingHandler example_server = None"
    by (simp add: example_server_def new_MCPServer_def)
  have 1: "handleSampling example_runtime example_server sampling_params
     = (Inl (Error ''Sampling handler not configured''), example_server, [])"
    using sampling_checks_then_delegates [where srv = example_server] n by blast
  have s: "samplingHandler sampling_server = Some text_content"
    by (simp add: sampling_server_def setSamplingHandler_def)
  have 2: "handleSampling example_runtime sampling_server (JObj [(''messages'', JArr [])])
     = (Inl (Error ''Messages array is required and cannot be empty''), sampling_server, [])"
    using sampling_checks_then_delegates
      [where srv = sampling_server and h = text_content and ps = "JObj [(''messages'', JArr [])]"
         and rt = example_runtime] s
    by (simp add: nullish_def)
  have 3: "handleSampling example_runtime sampling_server (JObj [])
     = (Inl (Error ''Messages array is required and cannot be empty''), sampling_server, [])"
    using sampling_checks_then_delegates
      [where srv = sampling_server and h = text_content and ps = "JObj []"
         and rt = example_runtime] s
    by (simp add: nullish_def)
  have 4: "handleSampling example_runtime sampling_server (JObj [(''messages'', JStr ''hi'')])
     = (Inl (Error ''Messages array is required and cannot be empty''), sampling_server, [])"
    using sampling_checks_then_delegates
      [where srv = sampling_server and h = text_content
         and ps = "JObj [(''messages'', JStr ''hi'')]" and rt = example_runtime] s
    by (simp add: nullish_def)
  have 5: "handleSampling example_runtime sampling_server sampling_params
     = (Inr (Value (JObj [(''uri'', sampling_params), (''text'', JStr ''content'')])),
        sampling_server, [SamplingHandler text_content sampling_params])"
    using sampling_checks_then_delegates
      [where srv = sampling_server and h = text_content and ps = sampling_params
         and rt = example_runtime
         and m = "JObj [(''role'', JStr ''user''),
                        (''content'', JObj [(''type'', JStr ''text''), (''text'', JStr ''hi'')])]"
         and ms = "[]"] s
    by (simp add: sampling_params_def run_examples perform_Nil)
  from n 1 s 2 3 4 5 show ?thesis by (simp add: nullish_def)
qed

theorem sampling_without_params_counterexample:
  "samplingHandler sampling_server = Some text_content \<and>
   property JUndefined ''messages'' = JUndefined \<and>
   handleSampling example_runtime sampling_server JUndefined
     = (Inl (Error (''Cannot read properties of undefined (reading '' @ [CHR 0x27] @ ''messages'' @
                    [CHR 0x27] @ '')'')), sampling_server, []) \<and>
   handleSampling example_runtime sampling_server JUndefined
     \<noteq> (Inl (Error ''Messages array is required and cannot be empty''), sampling_server, [])"
  by (simp add: sampling_server_def setSamplingHandler_def handleSampling_def nullish_def
      throw_def example_runtime_def)


section \<open>Templates\<close>

lemma matches_fragment:
  "fragment_test t s = Some b \<Longrightarrow> matchesTemplate rt (JStr s) t = Inr b"
  by (cases "anchored_items (''^'' @ placeholder_replace t @ ''$'')")
     (simp_all add: fragment_test_def matchesTemplate_def new_RegExp_def Let_def)

lemma logs_replace: "placeholder_replace ''logs://{date}/{level}'' = ''logs://([^/]+)/([^/]+)''"
  by code_simp

lemma fragment_examples:
  "fragment_test ''file:///a.txt'' ''file:///a-txt'' = Some True"
  "fragment_test ''file:///{name}'' ''file:///a-txt'' = Some True"
  "fragment_test ''file:///config.json'' ''file:///configXjson'' = Some True"
  "fragment_test ''logs://{date}/{level}'' ''logs://2024-01-15/error'' = Some True"
  "fragment_test ''logs://{date}/{level}'' ''logs://2024-01-15/error/extra'' = Some False"
  "fragment_test ''logs://{date}/{level}'' ''logs:///error'' = Some False"
  "fragment_test ''logs://2024-01-15/error.log'' ''logs://2024-01-15/error-log'' = Some True"
  "fragment_test ''logs://{date}/{level}'' ''logs://2024-01-15/error-log'' = Some True"
  "fragment_test ''logs://2024-01-15/error.log'' ''logs://2024-01-15/error'' = Some False"
  by code_simp+

lemma logs_matches:
  "matchesTemplate rt (JStr ''logs://2024-01-15/error'') ''logs://{date}/{level}'' = Inr True"
  "matchesTemplate rt (JStr ''logs://2024-01-15/error/extra'') ''logs://{date}/{level}'' = Inr False"
  "matchesTemplate rt (JStr ''logs:///error'') ''logs://{date}/{level}'' = Inr False"
  "matchesTemplate rt (JStr ''logs://2024-01-15/error-log'') ''logs://2024-01-15/error.log'' = Inr True"
  "matchesTemplate rt (JStr ''logs://2024-01-15/error-log'') ''logs://{date}/{level}'' = Inr True"
  "matchesTemplate rt (JStr ''logs://2024-01-15/error'') ''logs://2024-01-15/error.log'' = Inr False"
       apply (rule matches_fragment [OF fragment_examples(4)])
      apply (rule matches_fragment [OF fragment_examples(5)])
     apply (rule matches_fragment [OF fragment_examples(6)])
    apply (rule matches_fragment [OF fragment_examples(7)])
   apply (rule matches_fragment [OF fragment_examples(8)])
  apply (rule matches_fragment [OF fragment_examples(9)])
  done

lemma read_served:
  "\<not> nullish ps \<Longrightarrow> truthy (property ps ''uri'') \<Longrightarrow>
   resolve rt srv (property ps ''uri'') = Inr (Some (k, h)) \<Longrightarrow>
     handleResourceRead rt srv ps = served_by k h (property ps ''uri'') srv"
  by (simp add: handleResourceRead_def Let_def await_eq served_by_def)

lemma read_not_found:
  "\<not> nullish ps \<Longrightarrow> truthy (property ps ''uri'') \<Longrightarrow>
   resolve rt srv (property ps ''uri'') = Inr None \<Longrightarrow>
     handleResourceRead rt srv ps =
       (Inl (Error (literal_message rt ''Resource not found: '' (property ps ''uri''))), srv, [])"
  by (simp add: handleResourceRead_def Let_def throw_def)

lemma read_request_uri:
  "\<not> nullish (read_request u)" "property (read_request u) ''uri'' = JStr u"
  "truthy (property (read_request u) ''uri'') = (u \<noteq> [])"
  by (simp_all add: read_request_def nullish_def)

lemma served_by_key:
  "k \<noteq> k' \<Longrightarrow> served_by k h u srv \<noteq> served_by k' h' u' srv'"
  by (simp add: served_by_def)

lemma served_by_examples:
  "served_by k text_content u srv =
     (Inr (Value (JObj [(''contents'', JArr [JObj [(''uri'', u), (''text'', JStr ''content'')]])])),
      srv, [ResourceHandler k text_content u])"
  "served_by k other_content u srv =
     (Inr (Value (JObj [(''contents'', JArr [JObj [(''uri'', u), (''text'', JStr ''other'')]])])),
      srv, [ResourceHandler k other_content u])"
  by (simp_all add: served_by_def run_examples perform_Nil)

lemma logs_only:
  "resourceHandlers (addResourceTemplate (log_template n) g (new_MCPServer info caps))
     = [(''logs://{date}/{level}'', g)]"
  by (simp add: addResourceTemplate_def new_MCPServer_def log_template_def)

lemma logs_read:
  "handleResourceRead rt (addResourceTemplate (log_template n) g (new_MCPServer info caps))
     (read_request ''logs://2024-01-15/error'')
   = served_by ''logs://{date}/{level}'' g (JStr ''logs://2024-01-15/error'')
       (addResourceTemplate (log_template n) g (new_MCPServer info caps))"
proof -
  let ?srv = "addResourceTemplate (log_template n) g (new_MCPServer info caps)"
  have "resolve rt ?srv (JStr ''logs://2024-01-15/error'')
          = Inr (Some (''logs://{date}/{level}'', g))"
    unfolding resolve_def logs_only by (simp add: logs_matches)
  then have "resolve rt ?srv (property (read_request ''logs://2024-01-15/error'') ''uri'')
          = Inr (Some (''logs://{date}/{level}'', g))"
    by (simp add: read_request_uri)
  with read_served [of "read_request ''logs://2024-01-15/error''" rt ?srv]
  show ?thesis by (simp add: read_request_uri)
qed

lemma log_file_before_logs:
  "resourceHandlers (addResourceTemplate (log_template n) g2 (addResource log_file_resource g1
     (new_MCPServer info caps)))
   = [(''logs://2024-01-15/error.log'', g1), (''logs://{date}/{level}'', g2)]"
  "map fst (resources (addResourceTemplate (log_template n) g2 (addResource log_file_resource g1
     (new_MCPServer info caps)))) = [''logs://2024-01-15/error.log'']"
  "map fst (resourceTemplates (addResourceTemplate (log_template n) g2
     (addResource log_file_resource g1 (new_MCPServer info caps)))) = [''logs://{date}/{level}'']"
  by (simp_all add: addResourceTemplate_def addResource_def new_MCPServer_def
      log_file_resource_def log_template_def)

lemma log_file_resolve:
  "resolve rt (addResourceTemplate (log_template n) g2 (addResource log_file_resource g1
     (new_MCPServer info caps))) (JStr ''logs://2024-01-15/error-log'')
   = Inr (Some (''logs://2024-01-15/error.log'', g1))"
  "resolve rt (addResourceTemplate (log_template n) g2 (addResource log_file_resource g1
     (new_MCPServer info caps))) (JStr ''logs://2024-01-15/error'')
   = Inr (Some (''logs://{date}/{level}'', g2))"
  unfolding resolve_def log_file_before_logs by (simp_all add: logs_matches)

lemma log_file_read:
  "handleResourceRead rt (addResourceTemplate (log_template n) g2 (addResource log_file_resource g1
     (new_MCPServer info caps))) (read_request ''logs://2024-01-15/error-log'')
   = served_by ''logs://2024-01-15/error.log'' g1 (JStr ''logs://2024-01-15/error-log'')
       (addResourceTemplate (log_template n) g2 (addResource log_file_resource g1
          (new_MCPServer info caps)))"
  "handleResourceRead rt (addResourceTemplate (log_template n) g2 (addResource log_file_resource g1
     (new_MCPServer info caps))) (read_request ''logs://2024-01-15/error'')
   = served_by ''logs://{date}/{level}'' g2 (JStr ''logs://2024-01-15/error'')
       (addResourceTemplate (log_template n) g2 (addResource log_file_resource g1
          (new_MCPServer info caps)))"
proof -
  let ?s = "addResourceTemplate (log_template n) g2 (addResource log_file_resource g1
     (new_MCPServer info caps))"
  show "handleResourceRead rt ?s (read_request ''logs://2024-01-15/error-log'')
     = served_by ''logs://2024-01-15/error.log'' g1 (JStr ''logs://2024-01-15/error-log'') ?s"
    using read_served [of "read_request ''logs://2024-01-15/error-log''" rt ?s
        "''logs://2024-01-15/error.log''" g1]
    by (simp add: read_request_uri log_file_resolve)
  show "handleResourceRead rt ?s (read_request ''logs://2024-01-15/error'')
     = served_by ''logs://{date}/{level}'' g2 (JStr ''logs://2024-01-15/error'') ?s"
    using read_served [of "read_request ''logs://2024-01-15/error''" rt ?s
        "''logs://{date}/{level}''" g2]
    by (simp add: read_request_uri log_file_resolve)
qed

text \<open>
  C8, on the code. The matcher does what the claim says: every placeholder of the template
  becomes a group of one or more characters other than a slash, the pattern is anchored to
  the whole candidate, and a server that holds the template \<open>logs://{date}/{level}\<close>
  answers a read of \<open>logs://2024-01-15/error\<close> by calling the handler of the template
  with that string. But the loop does not return the first template that matches: it runs
  over the handler map, which holds the keys of exact resources too. On a server that
  registers the resource \<open>logs://2024-01-15/error.log\<close> and then the template, a read of
  \<open>logs://2024-01-15/error-log\<close>, which is no key of the map and which the only
  registered template matches, calls the handler of the resource, not that of the
  template.
\<close>

theorem resource_key_is_matched_before_the_template:
  "placeholder_replace ''logs://{date}/{level}'' = ''logs://([^/]+)/([^/]+)'' \<and>
   matchesTemplate rt (JStr ''logs://2024-01-15/error'') ''logs://{date}/{level}'' = Inr True \<and>
   matchesTemplate rt (JStr ''logs://2024-01-15/error/extra'') ''logs://{date}/{level}'' = Inr False \<and>
   matchesTemplate rt (JStr ''logs:///error'') ''logs://{date}/{level}'' = Inr False \<and>
   handleResourceRead rt (addResourceTemplate (log_template n) g (new_MCPServer info caps))
     (read_request ''logs://2024-01-15/error'')
     = served_by ''logs://{date}/{level}'' g (JStr ''logs://2024-01-15/error'')
         (addResourceTemplate (log_template n) g (new_MCPServer info caps)) \<and>
   map fst (resources (addResourceTemplate (log_template n) g2 (addResource log_file_resource g1
     (new_MCPServer info caps)))) = [''logs://2024-01-15/error.log''] \<and>
   map fst (resourceTemplates (addResourceTemplate (log_template n) g2
     (addResource log_file_resource g1 (new_MCPServer info caps)))) = [''logs://{date}/{level}''] \<and>
   Map_get (resourceHandlers (addResourceTemplate (log_template n) g2
     (addResource log_file_resource g1 (new_MCPServer info caps))))
     (JStr ''logs://2024-01-15/error-log'') = None \<and>
   matchesTemplate rt (JStr ''logs://2024-01-15/error-log'') ''logs://{date}/{level}'' = Inr True \<and>
   handleResourceRead rt (addResourceTemplate (log_template n) g2 (addResource log_file_resource g1
     (new_MCPServer info caps))) (read_request ''logs://2024-01-15/error-log'')
     = served_by ''logs://2024-01-15/error.log'' g1 (JStr ''logs://2024-01-15/error-log'')
         (addResourceTemplate (log_template n) g2 (addResource log_file_resource g1
            (new_MCPServer info caps))) \<and>
   handleResourceRead rt (addResourceTemplate (log_template n) g2 (addResource log_file_resource g1
     (new_MCPServer info caps))) (read_request ''logs://2024-01-15/error-log'')
     \<noteq> served_by ''logs://{date}/{level}'' g2 (JStr ''logs://2024-01-15/error-log'')
         (addResourceTemplate (log_template n) g2 (addResource log_file_resource g1
            (new_MCPServer info caps))) \<and>
   handleResourceRead rt (addResourceTemplate (log_template n) g2 (addResource log_file_resource g1
     (new_MCPServer info caps))) (read_request ''logs://2024-01-15/error'')
     = served_by ''logs://{date}/{level}'' g2 (JStr ''logs://2024-01-15/error'')
         (addResourceTemplate (log_template n) g2 (addResource log_file_resource g1
            (new_MCPServer info caps)))"
proof -
  let ?s = "addResourceTemplate (log_template n) g2 (addResource log_file_resource g1
     (new_MCPServer info caps))"
  have 1: "Map_get (resourceHandlers ?s) (JStr ''logs://2024-01-15/error-log'') = None"
    unfolding log_file_before_logs by simp
  have 2: "handleResourceRead rt ?s (read_request ''logs://2024-01-15/error-log'')
     \<noteq> served_by ''logs://{date}/{level}'' g2 (JStr ''logs://2024-01-15/error-log'') ?s"
    unfolding log_file_read by (rule served_by_key) simp
  show ?thesis
    apply (intro conjI)
               apply (rule logs_replace)
              apply (rule logs_matches(1))
             apply (rule logs_matches(2))
            apply (rule logs_matches(3))
           apply (rule logs_read)
          apply (rule log_file_before_logs(2))
         apply (rule log_file_before_logs(3))
        apply (rule 1)
       apply (rule logs_matches(5))
      apply (rule log_file_read(1))
     apply (rule 2)
    apply (rule log_file_read(2))
    done
qed

section \<open>Resolution of a resource read\<close>

lemma first_match_member:
  "first_match rt u es = Inr (Some (k, h)) \<Longrightarrow> (k, h) \<in> set es"
proof (induction es)
  case Nil
  then show ?case by simp
next
  case (Cons e es)
  obtain k' h' where e: "e = (k', h')" by (cases e)
  with Cons show ?case
    by (auto split: sum.splits bool.splits if_splits)
qed

lemma first_match_handler:
  assumes "distinct (map fst es)" "map_of es k = Some g"
    and "first_match rt u es = Inr (Some (k, h))"
  shows "h = g"
proof -
  have "(k, h) \<in> set es" using assms(3) by (rule first_match_member)
  with assms(1) have "map_of es k = Some h" by (rule map_of_is_SomeI)
  with assms(2) show ?thesis by simp
qed

lemma shared_key:
  assumes "distinct (map fst m)"
  shows "entries_for k (Map_set k b (Map_set k a m)) = [b]"
    and "map_of (Map_set k b (Map_set k a m)) k = Some b"
    and "distinct (map fst (Map_set k b (Map_set k a m)))"
proof -
  have d: "distinct (map fst (Map_set k a m))" using assms by (rule distinct_Map_set)
  then show "entries_for k (Map_set k b (Map_set k a m)) = [b]" by (rule entries_for_Map_set)
  show "map_of (Map_set k b (Map_set k a m)) k = Some b" by (simp add: map_of_Map_set)
  show "distinct (map fst (Map_set k b (Map_set k a m)))" using d by (rule distinct_Map_set)
qed

lemma resource_then_template:
  assumes "server_inv srv" "uriTemplate t = uri r"
  shows "entries_for (uri r) (resourceHandlers (addResourceTemplate t g2 (addResource r g1 srv))) = [g2]"
    and "resolve rt (addResourceTemplate t g2 (addResource r g1 srv)) (JStr (uri r))
           = Inr (Some (uri r, g2))"
    and "first_match rt u (resourceHandlers (addResourceTemplate t g2 (addResource r g1 srv)))
           = Inr (Some (uri r, h)) \<longrightarrow> h = g2"
    and "map_of (resources (addResourceTemplate t g2 (addResource r g1 srv))) (uri r) = Some r"
    and "map_of (resourceTemplates (addResourceTemplate t g2 (addResource r g1 srv))) (uri r) = Some t"
proof -
  let ?s = "addResourceTemplate t g2 (addResource r g1 srv)"
  have d: "distinct (map fst (resourceHandlers srv))"
    using assms(1) by (simp add: server_inv_def)
  have hs: "resourceHandlers ?s = Map_set (uri r) g2 (Map_set (uri r) g1 (resourceHandlers srv))"
    using assms(2) by (simp add: addResourceTemplate_def addResource_def)
  show "entries_for (uri r) (resourceHandlers ?s) = [g2]"
    unfolding hs using d by (rule shared_key(1))
  have m: "map_of (resourceHandlers ?s) (uri r) = Some g2"
    unfolding hs using d by (rule shared_key(2))
  then show "resolve rt ?s (JStr (uri r)) = Inr (Some (uri r, g2))"
    by (simp add: resolve_def)
  have dd: "distinct (map fst (resourceHandlers ?s))"
    unfolding hs using d by (rule shared_key(3))
  show "first_match rt u (resourceHandlers ?s) = Inr (Some (uri r, h)) \<longrightarrow> h = g2"
    using first_match_handler [OF dd m] by blast
  show "map_of (resources ?s) (uri r) = Some r"
    by (simp add: addResourceTemplate_def addResource_def map_of_Map_set)
  show "map_of (resourceTemplates ?s) (uri r) = Some t"
    using assms(2) by (simp add: addResourceTemplate_def addResource_def map_of_Map_set)
qed

lemma template_then_resource:
  assumes "server_inv srv" "uriTemplate t = uri r"
  shows "entries_for (uri r) (resourceHandlers (addResource r g1 (addResourceTemplate t g2 srv))) = [g1]"
    and "resolve rt (addResource r g1 (addResourceTemplate t g2 srv)) (JStr (uri r))
           = Inr (Some (uri r, g1))"
    and "first_match rt u (resourceHandlers (addResource r g1 (addResourceTemplate t g2 srv)))
           = Inr (Some (uri r, h)) \<longrightarrow> h = g1"
    and "map_of (resources (addResource r g1 (addResourceTemplate t g2 srv))) (uri r) = Some r"
    and "map_of (resourceTemplates (addResource r g1 (addResourceTemplate t g2 srv))) (uri r) = Some t"
proof -
  let ?s = "addResource r g1 (addResourceTemplate t g2 srv)"
  have d: "distinct (map fst (resourceHandlers srv))"
    using assms(1) by (simp add: server_inv_def)
  have hs: "resourceHandlers ?s = Map_set (uri r) g1 (Map_set (uri r) g2 (resourceHandlers srv))"
    using assms(2) by (simp add: addResourceTemplate_def addResource_def)
  show "entries_for (uri r) (resourceHandlers ?s) = [g1]"
    unfolding hs using d by (rule shared_key(1))
  have m: "map_of (resourceHandlers ?s) (uri r) = Some g1"
    unfolding hs using d by (rule shared_key(2))
  then show "resolve rt ?s (JStr (uri r)) = Inr (Some (uri r, g1))"
    by (simp add: resolve_def)
  have dd: "distinct (map fst (resourceHandlers ?s))"
    unfolding hs using d by (rule shared_key(3))
  show "first_match rt u (resourceHandlers ?s) = Inr (Some (uri r, h)) \<longrightarrow> h = g1"
    using first_match_handler [OF dd m] by blast
  show "map_of (resources ?s) (uri r) = Some r"
    by (simp add: addResourceTemplate_def addResource_def map_of_Map_set)
  show "map_of (resourceTemplates ?s) (uri r) = Some t"
    using assms(2) by (simp add: addResourceTemplate_def addResource_def map_of_Map_set)
qed

lemma notes_before_files:
  "resourceHandlers (addResourceTemplate file_template g2 (addResource notes_resource g1
     (new_MCPServer info caps))) = [(''file:///a.txt'', g1), (''file:///{name}'', g2)]"
  by (simp add: addResourceTemplate_def addResource_def new_MCPServer_def notes_resource_def
      file_template_def)

lemma notes_selected:
  "Map_get (resourceHandlers (addResourceTemplate file_template g2 (addResource notes_resource g1
     (new_MCPServer info caps)))) (JStr ''file:///a-txt'') = None"
  "matchesTemplate rt (JStr ''file:///a-txt'') (uri notes_resource) = Inr True"
  "matchesTemplate rt (JStr ''file:///a-txt'') (uriTemplate file_template) = Inr True"
  "resolve rt (addResourceTemplate file_template g2 (addResource notes_resource g1
     (new_MCPServer info caps))) (JStr ''file:///a-txt'') = Inr (Some (''file:///a.txt'', g1))"
proof -
  let ?s = "addResourceTemplate file_template g2 (addResource notes_resource g1
     (new_MCPServer info caps))"
  show n: "Map_get (resourceHandlers ?s) (JStr ''file:///a-txt'') = None"
    unfolding notes_before_files by simp
  have a: "matchesTemplate rt (JStr ''file:///a-txt'') ''file:///a.txt'' = Inr True"
    by (rule matches_fragment [OF fragment_examples(1)])
  then show "matchesTemplate rt (JStr ''file:///a-txt'') (uri notes_resource) = Inr True"
    by (simp add: notes_resource_def)
  have "matchesTemplate rt (JStr ''file:///a-txt'') ''file:///{name}'' = Inr True"
    by (rule matches_fragment [OF fragment_examples(2)])
  then show "matchesTemplate rt (JStr ''file:///a-txt'') (uriTemplate file_template) = Inr True"
    by (simp add: file_template_def)
  have "first_match rt (JStr ''file:///a-txt'') (resourceHandlers ?s)
          = Inr (Some (''file:///a.txt'', g1))"
    unfolding notes_before_files by (simp add: a)
  with n show "resolve rt ?s (JStr ''file:///a-txt'') = Inr (Some (''file:///a.txt'', g1))"
    by (simp add: resolve_def)
qed

lemma notes_read:
  "handleResourceRead rt (addResourceTemplate file_template g2 (addResource notes_resource g1
     (new_MCPServer info caps))) (read_request ''file:///a-txt'')
   = served_by ''file:///a.txt'' g1 (JStr ''file:///a-txt'')
       (addResourceTemplate file_template g2 (addResource notes_resource g1
          (new_MCPServer info caps)))"
  using read_served [of "read_request ''file:///a-txt''" rt
      "addResourceTemplate file_template g2 (addResource notes_resource g1 (new_MCPServer info caps))"
      "''file:///a.txt''" g1]
  by (simp add: read_request_uri notes_selected(4))

text \<open>
  C10. The handlers of exact resources and of templates are kept in one map under the URI
  or the template string. When a resource and a template are registered under the same
  string, in either order, the map holds one handler for it, the one registered later:
  a read of that URI calls it, and so does a read resolved by matching that key, while
  both descriptors stay listed. The loop that looks for a matching template runs over
  this map: on a server that registers the resource \<open>file:///a.txt\<close> and then the
  template \<open>file:///{name}\<close>, a read of \<open>file:///a-txt\<close>, which is no key of the map and
  matches both keys as patterns, calls the handler of the resource.
\<close>

theorem resources_and_templates_share_the_handler_map:
  "(server_inv srv \<and> uriTemplate t = uri r \<longrightarrow>
      entries_for (uri r) (resourceHandlers (addResourceTemplate t g2 (addResource r g1 srv))) = [g2] \<and>
      resolve rt (addResourceTemplate t g2 (addResource r g1 srv)) (JStr (uri r))
        = Inr (Some (uri r, g2)) \<and>
      (first_match rt u (resourceHandlers (addResourceTemplate t g2 (addResource r g1 srv)))
         = Inr (Some (uri r, h)) \<longrightarrow> h = g2) \<and>
      map_of (resources (addResourceTemplate t g2 (addResource r g1 srv))) (uri r) = Some r \<and>
      map_of (resourceTemplates (addResourceTemplate t g2 (addResource r g1 srv))) (uri r) = Some t \<and>
      entries_for (uri r) (resourceHandlers (addResource r g1 (addResourceTemplate t g2 srv))) = [g1] \<and>
      resolve rt (addResource r g1 (addResourceTemplate t g2 srv)) (JStr (uri r))
        = Inr (Some (uri r, g1)) \<and>
      (first_match rt u (resourceHandlers (addResource r g1 (addResourceTemplate t g2 srv)))
         = Inr (Some (uri r, h)) \<longrightarrow> h = g1) \<and>
      map_of (resources (addResource r g1 (addResourceTemplate t g2 srv))) (uri r) = Some r \<and>
      map_of (resourceTemplates (addResource r g1 (addResourceTemplate t g2 srv))) (uri r) = Some t) \<and>
   Map_get (resourceHandlers (addResourceTemplate file_template g2 (addResource notes_resource g1
     (new_MCPServer info caps)))) (JStr ''file:///a-txt'') = None \<and>
   matchesTemplate rt (JStr ''file:///a-txt'') (uri notes_resource) = Inr True \<and>
   matchesTemplate rt (JStr ''file:///a-txt'') (uriTemplate file_template) = Inr True \<and>
   resolve rt (addResourceTemplate file_template g2 (addResource notes_resource g1
     (new_MCPServer info caps))) (JStr ''file:///a-txt'') = Inr (Some (''file:///a.txt'', g1)) \<and>
   handleResourceRead rt (addResourceTemplate file_template g2 (addResource notes_resource g1
     (new_MCPServer info caps))) (read_request ''file:///a-txt'')
     = served_by ''file:///a.txt'' g1 (JStr ''file:///a-txt'')
         (addResourceTemplate file_template g2 (addResource notes_resource g1
            (new_MCPServer info caps)))"
proof (intro conjI impI)
  assume a: "server_inv srv \<and> uriTemplate t = uri r"
  then have i: "server_inv srv" and k: "uriTemplate t = uri r" by simp_all
  show "entries_for (uri r) (resourceHandlers (addResourceTemplate t g2 (addResource r g1 srv))) = [g2]"
    by (rule resource_then_template(1) [OF i k])
  show "resolve rt (addResourceTemplate t g2 (addResource r g1 srv)) (JStr (uri r))
        = Inr (Some (uri r, g2))"
    by (rule resource_then_template(2) [OF i k])
  show "map_of (resources (addResourceTemplate t g2 (addResource r g1 srv))) (uri r) = Some r"
    by (rule resource_then_template(4) [OF i k])
  show "map_of (resourceTemplates (addResourceTemplate t g2 (addResource r g1 srv))) (uri r) = Some t"
    by (rule resource_then_template(5) [OF i k])
  show "entries_for (uri r) (resourceHandlers (addResource r g1 (addResourceTemplate t g2 srv))) = [g1]"
    by (rule template_then_resource(1) [OF i k])
  show "resolve rt (addResource r g1 (addResourceTemplate t g2 srv)) (JStr (uri r))
        = Inr (Some (uri r, g1))"
    by (rule template_then_resource(2) [OF i k])
  show "map_of (resources (addResource r g1 (addResourceTemplate t g2 srv))) (uri r) = Some r"
    by (rule template_then_resource(4) [OF i k])
  show "map_of (resourceTemplates (addResource r g1 (addResourceTemplate t g2 srv))) (uri r) = Some t"
    by (rule template_then_resource(5) [OF i k])
next
  assume a: "server_inv srv \<and> uriTemplate t = uri r"
    and f: "first_match rt u (resourceHandlers (addResourceTemplate t g2 (addResource r g1 srv)))
         = Inr (Some (uri r, h))"
  from a have i: "server_inv srv" and k: "uriTemplate t = uri r" by simp_all
  from resource_then_template(3) [OF i k, of rt u g2 g1 h] f show "h = g2" by simp
next
  assume a: "server_inv srv \<and> uriTemplate t = uri r"
    and f: "first_match rt u (resourceHandlers (addResource r g1 (addResourceTemplate t g2 srv)))
         = Inr (Some (uri r, h))"
  from a have i: "server_inv srv" and k: "uriTemplate t = uri r" by simp_all
  from template_then_resource(3) [OF i k, of rt u g1 g2 h] f show "h = g1" by simp
next
  show "Map_get (resourceHandlers (addResourceTemplate file_template g2 (addResource notes_resource g1
     (new_MCPServer info caps)))) (JStr ''file:///a-txt'') = None"
    by (rule notes_selected(1))
  show "matchesTemplate rt (JStr ''file:///a-txt'') (uri notes_resource) = Inr True"
    by (rule notes_selected(2))
  show "matchesTemplate rt (JStr ''file:///a-txt'') (uriTemplate file_template) = Inr True"
    by (rule notes_selected(3))
  show "resolve rt (addResourceTemplate file_template g2 (addResource notes_resource g1
     (new_MCPServer info caps))) (JStr ''file:///a-txt'') = Inr (Some (''file:///a.txt'', g1))"
    by (rule notes_selected(4))
  show "handleResourceRead rt (addResourceTemplate file_template g2 (addResource notes_resource g1
     (new_MCPServer info caps))) (read_request ''file:///a-txt'')
     = served_by ''file:///a.txt'' g1 (JStr ''file:///a-txt'')
         (addResourceTemplate file_template g2 (addResource notes_resource g1
            (new_MCPServer info caps)))"
    by (rule notes_read)
qed

theorem resources_and_templates_share_the_handler_map_witness:
  "server_inv example_server \<and>
   uriTemplate same_key_template = uri notes_resource \<and>
   entries_for ''file:///a.txt''
     (resourceHandlers (addResourceTemplate same_key_template other_content
        (addResource notes_resource text_content example_server))) = [other_content] \<and>
   resolve example_runtime
     (addResourceTemplate same_key_template other_content
        (addResource notes_resource text_content example_server)) (JStr ''file:///a.txt'')
     = Inr (Some (''file:///a.txt'', other_content)) \<and>
   entries_for ''file:///a.txt''
     (resourceHandlers (addResource notes_resource text_content
        (addResourceTemplate same_key_template other_content example_server))) = [text_content] \<and>
   handleResourceRead example_runtime
     (addResourceTemplate file_template other_content
        (addResource notes_resource text_content (new_MCPServer example_info (JObj []))))
     (read_request ''file:///a-txt'')
     = (Inr (Value (JObj [(''contents'',
          JArr [JObj [(''uri'', JStr ''file:///a-txt''), (''text'', JStr ''content'')]])])),
        addResourceTemplate file_template other_content
          (addResource notes_resource text_content (new_MCPServer example_info (JObj []))),
        [ResourceHandler ''file:///a.txt'' text_content (JStr ''file:///a-txt'')])"
proof -
  have i: "server_inv example_server"
    unfolding example_server_def by (rule server_inv_new)
  have k: "uriTemplate same_key_template = uri notes_resource"
    by (simp add: same_key_template_def notes_resource_def)
  have u: "uri notes_resource = ''file:///a.txt''"
    by (simp add: notes_resource_def)
  note w = resources_and_templates_share_the_handler_map
    [where srv = example_server and t = same_key_template and r = notes_resource
       and ?g1.0 = text_content and ?g2.0 = other_content and rt = example_runtime
       and info = example_info and caps = "JObj []"]
  from w i k have 1: "entries_for (uri notes_resource)
     (resourceHandlers (addResourceTemplate same_key_template other_content
        (addResource notes_resource text_content example_server))) = [other_content]"
    by blast
  from w i k have 2: "resolve example_runtime
     (addResourceTemplate same_key_template other_content
        (addResource notes_resource text_content example_server)) (JStr (uri notes_resource))
     = Inr (Some (uri notes_resource, other_content))"
    by blast
  from w i k have 3: "entries_for (uri notes_resource)
     (resourceHandlers (addResource notes_resource text_content
        (addResourceTemplate same_key_template other_content example_server))) = [text_content]"
    by blast
  from w have 4: "handleResourceRead example_runtime
     (addResourceTemplate file_template other_content
        (addResource notes_resource text_content (new_MCPServer example_info (JObj []))))
     (read_request ''file:///a-txt'')
     = served_by ''file:///a.txt'' text_content (JStr ''file:///a-txt'')
         (addResourceTemplate file_template other_content
            (addResource notes_resource text_content (new_MCPServer example_info (JObj []))))"
    by blast
  have s: "served_by ''file:///a.txt'' text_content (JStr ''file:///a-txt'')
         (addResourceTemplate file_template other_content
            (addResource notes_resource text_content (new_MCPServer example_info (JObj []))))
     = (Inr (Value (JObj [(''contents'',
          JArr [JObj [(''uri'', JStr ''file:///a-txt''), (''text'', JStr ''content'')]])])),
        addResourceTemplate file_template other_content
          (addResource notes_resource text_content (new_MCPServer example_info (JObj []))),
        [ResourceHandler ''file:///a.txt'' text_content (JStr ''file:///a-txt'')])"
    by (rule served_by_examples(1))
  show ?thesis
    apply (intro conjI)
         apply (rule i)
        apply (rule k)
       apply (rule 1 [unfolded u])
      apply (rule 2 [unfolded u])
     apply (rule 3 [unfolded u])
    apply (rule trans [OF 4 s])
    done
qed

lemma config_only:
  "resourceHandlers (addResource (config_resource n) g (new_MCPServer info caps))
     = [(''file:///config.json'', g)]"
  "resourceTemplates (addResource (config_resource n) g (new_MCPServer info caps)) = []"
  by (simp_all add: addResource_def new_MCPServer_def config_resource_def)

lemma config_resolve:
  "resolve rt (addResource (config_resource n) g (new_MCPServer info caps))
     (JStr ''file:///configXjson'') = Inr (Some (''file:///config.json'', g))"
proof -
  have a: "matchesTemplate rt (JStr ''file:///configXjson'') ''file:///config.json'' = Inr True"
    by (rule matches_fragment [OF fragment_examples(3)])
  show ?thesis
    unfolding resolve_def config_only by (simp add: a)
qed

text \<open>
  C1, on the code. The lookup of the exact key comes first, but the loop that follows runs
  over the handlers of exact resources as well as of templates and reads every key as a
  pattern. A server that holds the resource \<open>file:///config.json\<close> and no template
  answers a read of \<open>file:///configXjson\<close>, which is no key and for which no template is
  registered, by calling the handler of the resource with that string; it does not fail
  with \<open>Resource not found\<close>.
\<close>

theorem read_without_key_or_template_is_served:
  "Map_get (resourceHandlers (addResource (config_resource n) g (new_MCPServer info caps)))
     (JStr ''file:///configXjson'') = None \<and>
   resourceTemplates (addResource (config_resource n) g (new_MCPServer info caps)) = [] \<and>
   handleResourceRead rt (addResource (config_resource n) g (new_MCPServer info caps))
     (read_request ''file:///configXjson'')
     = served_by ''file:///config.json'' g (JStr ''file:///configXjson'')
         (addResource (config_resource n) g (new_MCPServer info caps)) \<and>
   handleResourceRead rt (addResource (config_resource n) g (new_MCPServer info caps))
     (read_request ''file:///configXjson'')
     \<noteq> (Inl (Error ''Resource not found: file:///configXjson''),
         addResource (config_resource n) g (new_MCPServer info caps), [])"
proof -
  let ?s = "addResource (config_resource n) g (new_MCPServer info caps)"
  have 1: "Map_get (resourceHandlers ?s) (JStr ''file:///configXjson'') = None"
    unfolding config_only by simp
  have 2: "resourceTemplates ?s = []" by (rule config_only(2))
  have 3: "handleResourceRead rt ?s (read_request ''file:///configXjson'')
     = served_by ''file:///config.json'' g (JStr ''file:///configXjson'') ?s"
    using read_served [of "read_request ''file:///configXjson''" rt ?s "''file:///config.json''" g]
    by (simp add: read_request_uri config_resolve)
  have "snd (snd (served_by ''file:///config.json'' g (JStr ''file:///configXjson'') ?s)) \<noteq> []"
    by (simp add: served_by_def)
  then have 4: "served_by ''file:///config.json'' g (JStr ''file:///configXjson'') ?s
     \<noteq> (Inl (Error ''Resource not found: file:///configXjson''), ?s, [])"
    by auto
  from 1 2 3 4 show ?thesis by simp
qed

end
